(* ===== verification/Prelude.thy ===== *)
theory Prelude
  imports Main "HOL-Library.Word" "HOL-Library.Sublist"
begin

text \<open>
  Shared vocabulary of the development. JavaScript strings are sequences of UTF-16
  code units, so a string of the program is a list of \<open>16 word\<close> values
  (\<open>jstr\<close>); \<open>length\<close> on it is JavaScript's \<open>.length\<close>. ASCII literals are
  written \<open>js ''...''\<close>. The string primitives the services call
  (\<open>String.prototype.slice\<close>, \<open>lastIndexOf\<close> with one code unit, \<open>trim\<close>,
  \<open>startsWith\<close>, \<open>toLowerCase\<close>, \<open>Array.prototype.join\<close>) are defined here with
  ECMAScript's index clamping written out, together with the lemmas the component
  theories share (collection \<open>js_simps\<close>). A thrown \<open>Error\<close> is a value of
  the datatype \<open>error\<close>, carrying its message.
\<close>

named_theorems js_simps "facts about the JavaScript string primitives"

type_synonym cu = "16 word"
type_synonym jstr = "cu list"
type_synonym bytes = "8 word list"

definition js :: "string \<Rightarrow> jstr" where
  "js s = map (\<lambda>c. word_of_nat (of_char c)) s"

datatype error = Error jstr

primrec err_msg :: "error \<Rightarrow> jstr" where
  "err_msg (Error m) = m"

subsection \<open>Index clamping and slicing\<close>

text \<open>ECMAScript \<open>slice\<close>: a negative index counts from the end, every index is
  clamped into \<open>[0, length]\<close>, and an empty range gives the empty string.\<close>

definition clamp_index :: "int \<Rightarrow> nat \<Rightarrow> nat" where
  "clamp_index i n = (if i < 0 then nat (max (int n + i) 0) else min (nat i) n)"

definition js_slice :: "jstr \<Rightarrow> int \<Rightarrow> int \<Rightarrow> jstr" where
  "js_slice s a b =
     (let n = length s; f = clamp_index a n; t = clamp_index b n in take (t - f) (drop f s))"

text \<open>\<open>substring(i)\<close> with one argument: negative indices are clamped to 0.\<close>

definition js_substring_from :: "jstr \<Rightarrow> int \<Rightarrow> jstr" where
  "js_substring_from s i = drop (nat i) s"

subsection \<open>lastIndexOf for a single code unit\<close>

text \<open>\<open>scan_back s c k\<close> is the greatest index below \<open>k\<close> holding \<open>c\<close>, or -1.\<close>

primrec scan_back :: "jstr \<Rightarrow> cu \<Rightarrow> nat \<Rightarrow> int" where
  "scan_back s c 0 = -1"
| "scan_back s c (Suc k) = (if s ! k = c then int k else scan_back s c k)"

text \<open>\<open>s.lastIndexOf(c, pos)\<close>: the position is clamped into \<open>[0, length]\<close>
  and the search starts there, so the index \<open>pos\<close> itself is examined.\<close>

definition js_lastIndexOf :: "jstr \<Rightarrow> cu \<Rightarrow> int \<Rightarrow> int" where
  "js_lastIndexOf s c pos = scan_back s c (min (Suc (nat pos)) (length s))"

subsection \<open>trim, startsWith, toLowerCase, join\<close>

text \<open>ECMAScript WhiteSpace and LineTerminator code units, which \<open>trim\<close> removes.\<close>

definition js_is_space :: "cu \<Rightarrow> bool" where
  "js_is_space c \<longleftrightarrow>
     c \<in> set [9, 10, 11, 12, 13, 32, 0xA0, 0x1680, 0x2028, 0x2029, 0x202F, 0x205F, 0x3000, 0xFEFF]
     \<or> (0x2000 \<le> c \<and> c \<le> 0x200A)"

definition js_trim :: "jstr \<Rightarrow> jstr" where
  "js_trim s = rev (dropWhile js_is_space (rev (dropWhile js_is_space s)))"

definition js_startsWith :: "jstr \<Rightarrow> jstr \<Rightarrow> bool" where
  "js_startsWith s p \<longleftrightarrow> take (length p) s = p"

text \<open>\<open>toLowerCase\<close> on the ASCII letters; other code units are kept (none of them
  lowers to an ASCII letter of the extensions and codes the program compares with).\<close>

definition js_lower_cu :: "cu \<Rightarrow> cu" where
  "js_lower_cu c = (if 65 \<le> c \<and> c \<le> 90 then c + 32 else c)"

definition js_toLowerCase :: "jstr \<Rightarrow> jstr" where
  "js_toLowerCase s = map js_lower_cu s"

fun js_join :: "jstr \<Rightarrow> jstr list \<Rightarrow> jstr" where
  "js_join sep [] = []"
| "js_join sep [x] = x"
| "js_join sep (x # y # zs) = x @ sep @ js_join sep (y # zs)"

text \<open>Decimal rendering of a natural number, as a template literal prints \<open>${i}\<close>,
  and the inverse reading used to show that it loses nothing.\<close>

fun js_of_nat :: "nat \<Rightarrow> jstr" where
  "js_of_nat n = (if n < 10 then [48 + of_nat n] else js_of_nat (n div 10) @ [48 + of_nat (n mod 10)])"

declare js_of_nat.simps [simp del]

definition js_read_nat :: "jstr \<Rightarrow> nat" where
  "js_read_nat s = foldl (\<lambda>acc c. 10 * acc + (unat c - 48)) 0 s"

subsection \<open>Shared lemmas\<close>

lemma clamp_index_le [js_simps]: "clamp_index i n \<le> n"
  by (simp add: clamp_index_def nat_le_iff)

lemma clamp_index_nonneg [js_simps]: "0 \<le> i \<Longrightarrow> clamp_index i n = min (nat i) n"
  by (simp add: clamp_index_def)

lemma length_js_slice [js_simps]:
  "length (js_slice s a b) = clamp_index b (length s) - clamp_index a (length s)"
proof -
  have "clamp_index b (length s) \<le> length s" by (rule clamp_index_le)
  then show ?thesis by (simp add: js_slice_def Let_def min_def) linarith
qed

lemma js_slice_nonneg:
  assumes "0 \<le> a" "a \<le> b"
  shows "js_slice s a b = take (nat b - nat a) (drop (nat a) s)"
proof -
  have "min (nat b) (length s) - min (nat a) (length s) = min (nat b - nat a) (length s - nat a)"
    using assms by linarith
  then show ?thesis
    using assms by (simp add: js_slice_def clamp_index_def Let_def min_def)
qed

lemma js_slice_sublist [js_simps]: "sublist (js_slice s a b) s"
  unfolding js_slice_def Let_def
  by (meson sublist_drop sublist_take sublist_order.dual_order.trans)

lemma scan_back_range: "scan_back s c k = -1 \<or> (0 \<le> scan_back s c k \<and> scan_back s c k < int k)"
  by (induction k) auto

lemma scan_back_hit: "0 \<le> scan_back s c k \<Longrightarrow> s ! nat (scan_back s c k) = c"
  by (induction k) (auto split: if_splits)

lemma scan_back_none: "(\<forall>i<k. s ! i \<noteq> c) \<Longrightarrow> scan_back s c k = -1"
  by (induction k) auto

lemma js_lastIndexOf_range [js_simps]:
  "js_lastIndexOf s c pos = -1 \<or>
     (0 \<le> js_lastIndexOf s c pos \<and> js_lastIndexOf s c pos \<le> max pos 0
      \<and> js_lastIndexOf s c pos < int (length s))"
  using scan_back_range [of s c "min (Suc (nat pos)) (length s)"]
  by (auto simp: js_lastIndexOf_def)

lemma js_lastIndexOf_absent [js_simps]: "c \<notin> set s \<Longrightarrow> js_lastIndexOf s c pos = -1"
  unfolding js_lastIndexOf_def
  by (rule scan_back_none) (auto simp: in_set_conv_nth)

lemma js_trim_sublist [js_simps]: "sublist (js_trim s) s"
proof -
  have "sublist (dropWhile js_is_space s) s"
    by (rule sublist_dropWhile)
  moreover have "sublist (rev (dropWhile js_is_space (rev t))) t" for t
    by (simp add: sublist_rev_left)
  ultimately show ?thesis
    unfolding js_trim_def by (meson sublist_order.dual_order.trans)
qed

lemma js_trim_length_le [js_simps]: "length (js_trim s) \<le> length s"
  using js_trim_sublist sublist_length_le by blast

lemma js_trim_no_space [js_simps]:
  "(\<forall>c\<in>set s. \<not> js_is_space c) \<Longrightarrow> js_trim s = s"
proof -
  assume "\<forall>c\<in>set s. \<not> js_is_space c"
  then have "dropWhile js_is_space s = s" and "dropWhile js_is_space (rev s) = rev s"
    by (metis dropWhile_eq_self_iff hd_in_set set_rev)+
  then show ?thesis by (simp add: js_trim_def)
qed

lemma js_trim_ends [js_simps]:
  assumes "js_trim s \<noteq> []"
  shows "\<not> js_is_space (hd (js_trim s)) \<and> \<not> js_is_space (last (js_trim s))"
proof -
  define a where "a = dropWhile js_is_space s"
  define b where "b = dropWhile js_is_space (rev a)"
  have tr: "js_trim s = rev b" by (simp add: js_trim_def a_def b_def)
  with assms have "b \<noteq> []" by simp
  then have hb: "\<not> js_is_space (hd b)" unfolding b_def by (rule hd_dropWhile)
  from \<open>b \<noteq> []\<close> have "rev a \<noteq> []" by (auto simp: b_def)
  then have "a \<noteq> []" by simp
  then have ha: "\<not> js_is_space (hd a)" unfolding a_def by (rule hd_dropWhile)
  obtain zs where "rev a = zs @ b"
    using suffix_dropWhile [of js_is_space "rev a"] by (auto simp: b_def suffix_def)
  with \<open>b \<noteq> []\<close> have "last b = hd a"
    by (metis last_appendR last_rev)
  with ha hb tr show ?thesis by (simp add: hd_rev last_rev)
qed

lemma js_slice_to_end [js_simps]:
  "0 \<le> a \<Longrightarrow> int (length s) \<le> b \<Longrightarrow> js_slice s a b = drop (nat a) s"
  by (auto simp: js_slice_def clamp_index_def Let_def min_def nat_le_iff)

lemma unat_digit: "d < 10 \<Longrightarrow> unat (48 + of_nat d :: cu) - 48 = d"
proof -
  assume d: "d < 10"
  have e: "(48 + of_nat d :: cu) = word_of_nat (48 + d)" by simp
  have "unat (word_of_nat (48 + d) :: cu) = (48 + d) mod 2 ^ LENGTH(16)"
    by (rule unat_of_nat)
  also have "\<dots> = 48 + d" using d by simp
  finally show ?thesis by (simp only: e)
qed

lemma js_read_nat_of_nat [js_simps]: "js_read_nat (js_of_nat n) = n"
proof (induction n rule: js_of_nat.induct)
  case (1 n)
  show ?case
  proof (cases "n < 10")
    case True
    then show ?thesis by (simp add: js_read_nat_def unat_digit js_of_nat.simps [of n])
  next
    case False
    with "1.IH" have "js_read_nat (js_of_nat (n div 10)) = n div 10" by simp
    with False show ?thesis
      by (simp add: js_read_nat_def unat_digit js_of_nat.simps [of n])
  qed
qed

lemma js_of_nat_inj [js_simps]: "js_of_nat m = js_of_nat n \<longleftrightarrow> m = n"
  by (metis js_read_nat_of_nat)

end
