(* ===== verification/Externals.thy ===== *)
theory Externals
  imports Complex_Main Prelude
begin

text \<open>
  The collaborators the backend services call but that are not part of this repository,
  modelled from the interface the specification gives them (section 6) and from the
  client calls the services make: the Astra DB collection \<open>document_embeddings\<close>
  (the vector store), the Supabase table \<open>documents\<close> (the document registry), the
  Supabase storage bucket \<open>documents\<close> (the blob store), and the AI provider clients.

  Everything the services change lives in one record, \<open>world\<close>: the vector collection
  in insertion order, the registry rows, the bucket as a map from keys to bytes, and the
  log of every external call made so far. Everything the services cannot predict comes
  from an oracle record \<open>ext\<close>: provider answers, failures of each store call, generated
  row ids, public URLs and the vector store's similarity metric. An oracle is indexed by
  the number of external calls made before it, so any pattern of failures and answers
  over a run is one choice of \<open>ext\<close>; a theorem over all \<open>ext\<close> covers them all.

  A service method is a function \<open>world \<Rightarrow> (error + 'a) \<times> world\<close>: \<open>Inl\<close> is a thrown
  \<open>Error\<close>, and the world is returned in both cases, since effects before a throw stay.
  \<open>bindE\<close> is \<open>await\<close> in sequence, \<open>catchE\<close> a \<open>try/catch\<close>, and \<open>rethrow\<close> the
  services' idiom \<open>catch (e) { logger.error(...); throw new Error(msg) }\<close>. Logging is
  not modelled. A timestamp is the number of calls made so far, which is monotone.
\<close>

named_theorems eff_simps "unfolding of the effect combinators and store primitives"
named_theorems frame_intros "closure rules of the frame predicates"

subsection \<open>Data of the stores\<close>

type_synonym vec = "real list"

record chunk_meta =
  md_filename :: jstr
  md_file_type :: jstr
  md_file_url :: "jstr option"

text \<open>A document of the vector collection, as \<open>storeDocumentChunks\<close> builds it.\<close>

record vrecord =
  v_id :: jstr
  v_content :: jstr
  v_vector :: vec
  v_company :: jstr
  v_document :: jstr
  v_chunk_index :: nat
  v_meta :: chunk_meta
  v_created_at :: nat
  v_chunk_size :: nat

text \<open>The filters the services pass to the collection.\<close>

datatype vfilter = VAll | VCompany jstr | VCompanyDoc jstr jstr

fun vmatch :: "vfilter \<Rightarrow> vrecord \<Rightarrow> bool" where
  "vmatch VAll r = True"
| "vmatch (VCompany c) r = (v_company r = c)"
| "vmatch (VCompanyDoc c d) r = (v_company r = c \<and> v_document r = d)"

datatype status = Processing | Processed | Failed

text \<open>A row of the registry table \<open>documents\<close>. Columns the code never sets are absent
  (\<open>None\<close>) until an update writes them.\<close>

record doc_row =
  d_id :: jstr
  d_company :: jstr
  d_user :: jstr
  d_filename :: jstr
  d_file_type :: jstr
  d_file_size :: nat
  d_content_length :: nat
  d_status :: status
  d_chunk_count :: "nat option"
  d_file_url :: "jstr option"
  d_created_at :: nat
  d_updated_at :: nat

record msg =
  m_role :: jstr
  m_content :: jstr

datatype usage = Usage nat nat nat | TotalOnly nat

datatype call =
    CEmbed jstr
  | COpenAIChat "jstr option" "msg list"
  | CGemini jstr
  | CVecInsert "jstr list"
  | CVecFind vfilter nat
  | CVecDelete vfilter
  | CDbInsert
  | CDbSelect jstr
  | CDbUpdate jstr status
  | CDbDelete jstr
  | CDbList jstr
  | CUpload jstr
  | CDownload jstr
  | CRemove jstr
  | CExtract jstr

record world =
  w_vec :: "vrecord list"
  w_docs :: "doc_row list"
  w_bucket :: "jstr \<Rightarrow> bytes option"
  w_log :: "call list"

record ext =
  x_embed :: "nat \<Rightarrow> jstr \<Rightarrow> error + vec"
  x_chat :: "nat \<Rightarrow> jstr option \<Rightarrow> msg list \<Rightarrow> error + jstr \<times> usage"
  x_gemini :: "nat \<Rightarrow> jstr \<Rightarrow> error + jstr"
  x_sim :: "vec \<Rightarrow> vec \<Rightarrow> real"
  x_pdf :: "nat \<Rightarrow> bytes \<Rightarrow> error + jstr list"
  x_docx :: "nat \<Rightarrow> bytes \<Rightarrow> error + jstr"
  x_utf8 :: "bytes \<Rightarrow> jstr"
  x_newid :: "nat \<Rightarrow> jstr"
  x_url :: "jstr \<Rightarrow> jstr"
  x_down :: "nat \<Rightarrow> error option"

subsection \<open>Effects: sequencing, throwing and catching\<close>

type_synonym 'a eff = "world \<Rightarrow> (error + 'a) \<times> world"

definition returnE :: "'a \<Rightarrow> 'a eff" where
  "returnE a w = (Inr a, w)"

definition throwE :: "error \<Rightarrow> 'a eff" where
  "throwE e w = (Inl e, w)"

definition bindE :: "'a eff \<Rightarrow> ('a \<Rightarrow> 'b eff) \<Rightarrow> 'b eff" where
  "bindE m f w = (case m w of (Inl e, w') \<Rightarrow> (Inl e, w') | (Inr a, w') \<Rightarrow> f a w')"

definition catchE :: "'a eff \<Rightarrow> (error \<Rightarrow> 'a eff) \<Rightarrow> 'a eff" where
  "catchE m h w = (case m w of (Inl e, w') \<Rightarrow> h e w' | (Inr a, w') \<Rightarrow> (Inr a, w'))"

definition rethrow :: "jstr \<Rightarrow> 'a eff \<Rightarrow> 'a eff" where
  "rethrow m f = catchE f (\<lambda>_. throwE (Error m))"

text \<open>The Supabase clients report a failure in the \<open>error\<close> field of their result
  instead of throwing. Where the code checks it (\<open>if (error) throw error\<close>) the call is
  an ordinary step; where it ignores it, the call is wrapped in \<open>attempt\<close>: a failure
  becomes \<open>None\<close> and the run goes on.\<close>

definition attempt :: "'a eff \<Rightarrow> 'a option eff" where
  "attempt m = catchE (bindE m (\<lambda>a. returnE (Some a))) (\<lambda>_. returnE None)"

definition now :: "world \<Rightarrow> nat" where
  "now w = length (w_log w)"

text \<open>\<open>new Date()\<close>: reading the clock makes no call.\<close>

definition get_now :: "nat eff" where
  "get_now w = (Inr (now w), w)"

text \<open>One external call: it is logged, and its answer is the oracle's at this call's index.\<close>

definition ext_call :: "call \<Rightarrow> (nat \<Rightarrow> error + 'a) \<Rightarrow> 'a eff" where
  "ext_call c f w = (f (now w), w\<lparr>w_log := w_log w @ [c]\<rparr>)"

text \<open>A store call that may fail (\<open>x_down\<close>) and otherwise changes the world by \<open>upd\<close>
  and answers \<open>res\<close>, both read from the world before the call.\<close>

definition store_call ::
  "ext \<Rightarrow> call \<Rightarrow> (world \<Rightarrow> error + 'a) \<Rightarrow> (world \<Rightarrow> world) \<Rightarrow> 'a eff" where
  "store_call X c res upd w =
     (let i = now w; w1 = w\<lparr>w_log := w_log w @ [c]\<rparr> in
      case x_down X i of
        Some e \<Rightarrow> (Inl e, w1)
      | None \<Rightarrow> (case res w of Inl e \<Rightarrow> (Inl e, w1) | Inr a \<Rightarrow> (Inr a, upd w1)))"

subsection \<open>The vector collection (Astra DB)\<close>

definition vec_ids :: "world \<Rightarrow> jstr set" where
  "vec_ids w = set (map v_id (w_vec w))"

text \<open>\<open>insertMany\<close>: a document whose \<open>_id\<close> is taken is refused and reported as an
  error; the others are inserted (the client's default, unordered insertion).\<close>

fun insert_new :: "jstr list \<Rightarrow> vrecord list \<Rightarrow> vrecord list" where
  "insert_new taken [] = []"
| "insert_new taken (r # rs) =
     (if v_id r \<in> set taken then insert_new taken rs else r # insert_new (v_id r # taken) rs)"

definition vec_insertMany :: "ext \<Rightarrow> vrecord list \<Rightarrow> unit eff" where
  "vec_insertMany X rs w =
     (let w1 = w\<lparr>w_log := w_log w @ [CVecInsert (map v_id rs)]\<rparr> in
      case x_down X (now w) of
        Some e \<Rightarrow> (Inl e, w1)
      | None \<Rightarrow>
          (let w2 = w1\<lparr>w_vec := w_vec w @ insert_new (map v_id (w_vec w)) rs\<rparr> in
           if distinct (map v_id rs) \<and> (\<forall>r\<in>set rs. v_id r \<notin> vec_ids w) then (Inr (), w2)
           else (Inl (Error (js ''Document already exists'')), w2)))"

text \<open>\<open>find(filter, {vector, limit, includeSimilarity})\<close>: the matching documents most
  similar to the query first, at most \<open>limit\<close> of them, each with its similarity.
  Equal similarities keep insertion order (a stable sort).\<close>

definition ranked :: "ext \<Rightarrow> vec \<Rightarrow> vfilter \<Rightarrow> vrecord list \<Rightarrow> (vrecord \<times> real) list" where
  "ranked X q f rs =
     sort_key (\<lambda>p. - snd p) (map (\<lambda>r. (r, x_sim X q (v_vector r))) (filter (vmatch f) rs))"

definition vec_findSimilar :: "ext \<Rightarrow> vfilter \<Rightarrow> vec \<Rightarrow> nat \<Rightarrow> (vrecord \<times> real) list eff" where
  "vec_findSimilar X f q n =
     store_call X (CVecFind f n) (\<lambda>w. Inr (take n (ranked X q f (w_vec w)))) id"

text \<open>\<open>find(filter, {limit})\<close> without a vector: matching documents in storage order.\<close>

definition vec_find :: "ext \<Rightarrow> vfilter \<Rightarrow> nat \<Rightarrow> vrecord list eff" where
  "vec_find X f n =
     store_call X (CVecFind f n) (\<lambda>w. Inr (take n (filter (vmatch f) (w_vec w)))) id"

definition vec_deleteMany :: "ext \<Rightarrow> vfilter \<Rightarrow> nat eff" where
  "vec_deleteMany X f =
     store_call X (CVecDelete f) (\<lambda>w. Inr (length (filter (vmatch f) (w_vec w))))
       (\<lambda>w. w\<lparr>w_vec := filter (\<lambda>r. \<not> vmatch f r) (w_vec w)\<rparr>)"

subsection \<open>The registry table and the storage bucket (Supabase)\<close>

definition row_ids :: "world \<Rightarrow> jstr set" where
  "row_ids w = set (map d_id (w_docs w))"

text \<open>\<open>insert([row]).select().single()\<close>: the database generates the id; a clash with an
  existing primary key is an error.\<close>

definition db_insert :: "ext \<Rightarrow> (jstr \<Rightarrow> nat \<Rightarrow> doc_row) \<Rightarrow> doc_row eff" where
  "db_insert X mk w =
     (let r = mk (x_newid X (now w)) (now w) in
      store_call X CDbInsert
        (\<lambda>w. if d_id r \<in> row_ids w then Inl (Error (js ''duplicate key value'')) else Inr r)
        (\<lambda>w. w\<lparr>w_docs := w_docs w @ [r]\<rparr>) w)"

text \<open>\<open>update(...).eq('id', id).select().single()\<close>: the rows with that id are changed
  (whatever their company); \<open>single()\<close> fails when there is none.\<close>

definition db_update :: "ext \<Rightarrow> jstr \<Rightarrow> status \<Rightarrow> (doc_row \<Rightarrow> doc_row) \<Rightarrow> doc_row eff" where
  "db_update X i st f w =
     (let t = now w; g = (\<lambda>r. if d_id r = i then f (r\<lparr>d_status := st, d_updated_at := t\<rparr>) else r) in
      store_call X (CDbUpdate i st)
        (\<lambda>w. case filter (\<lambda>r. d_id r = i) (w_docs w) of
               [r] \<Rightarrow> Inr (g r)
             | _ \<Rightarrow> Inl (Error (js ''JSON object requested, multiple (or no) rows returned'')))
        (\<lambda>w. w\<lparr>w_docs := map g (w_docs w)\<rparr>) w)"

text \<open>\<open>select(...).eq('id', id).eq('company_id', c).single()\<close>.\<close>

definition db_select_one :: "ext \<Rightarrow> jstr \<Rightarrow> jstr \<Rightarrow> doc_row eff" where
  "db_select_one X i c =
     store_call X (CDbSelect i)
       (\<lambda>w. case filter (\<lambda>r. d_id r = i \<and> d_company r = c) (w_docs w) of
              [r] \<Rightarrow> Inr r
            | _ \<Rightarrow> Inl (Error (js ''JSON object requested, multiple (or no) rows returned'')))
       id"

definition db_delete :: "ext \<Rightarrow> jstr \<Rightarrow> jstr \<Rightarrow> unit eff" where
  "db_delete X i c =
     store_call X (CDbDelete i) (\<lambda>w. Inr ())
       (\<lambda>w. w\<lparr>w_docs := filter (\<lambda>r. \<not> (d_id r = i \<and> d_company r = c)) (w_docs w)\<rparr>)"

definition db_list :: "ext \<Rightarrow> jstr \<Rightarrow> doc_row list eff" where
  "db_list X c = store_call X (CDbList c) (\<lambda>w. Inr (filter (\<lambda>r. d_company r = c) (w_docs w))) id"

text \<open>\<open>select('*').eq('company_id', c).order('created_at', {ascending: false})
  .range(off, off + n - 1)\<close>: the client sends offset \<open>off\<close> and limit \<open>n\<close>, so the
  page is \<open>n\<close> rows from \<open>off\<close> of the company's rows, newest first (rows with equal
  timestamps keep insertion order).\<close>

definition db_page :: "ext \<Rightarrow> jstr \<Rightarrow> nat \<Rightarrow> nat \<Rightarrow> doc_row list eff" where
  "db_page X c off n =
     store_call X (CDbList c)
       (\<lambda>w. Inr (take n (drop off (sort_key (\<lambda>r. - int (d_created_at r))
                                    (filter (\<lambda>r. d_company r = c) (w_docs w))))))
       id"

text \<open>Storage: \<open>upload\<close> with \<open>upsert: false\<close> refuses an existing key; \<open>download\<close>
  fails on a missing one; \<open>remove\<close> of a missing key is not an error.\<close>

definition blob_upload :: "ext \<Rightarrow> jstr \<Rightarrow> bytes \<Rightarrow> unit eff" where
  "blob_upload X k b =
     store_call X (CUpload k)
       (\<lambda>w. if w_bucket w k = None then Inr () else Inl (Error (js ''The resource already exists'')))
       (\<lambda>w. w\<lparr>w_bucket := (w_bucket w)(k \<mapsto> b)\<rparr>)"

definition blob_download :: "ext \<Rightarrow> jstr \<Rightarrow> bytes eff" where
  "blob_download X k =
     store_call X (CDownload k)
       (\<lambda>w. case w_bucket w k of Some b \<Rightarrow> Inr b | None \<Rightarrow> Inl (Error (js ''Object not found'')))
       id"

definition blob_remove :: "ext \<Rightarrow> jstr \<Rightarrow> unit eff" where
  "blob_remove X k =
     store_call X (CRemove k) (\<lambda>w. Inr ()) (\<lambda>w. w\<lparr>w_bucket := (w_bucket w)(k := None)\<rparr>)"

text \<open>From call index \<open>n\<close> on, no store call fails and no embedding request fails.\<close>

definition calls_succeed :: "ext \<Rightarrow> nat \<Rightarrow> bool" where
  "calls_succeed X n \<longleftrightarrow> (\<forall>i\<ge>n. x_down X i = None \<and> (\<forall>t. \<not> isl (x_embed X i t)))"

subsection \<open>Fixtures for concrete runs\<close>

text \<open>A concrete oracle in which every provider and store call succeeds (each text embeds
  to \<open>[1]\<close>, every answer is \<open>ok\<close>, every similarity is 1, row ids are \<open>doc0\<close>,
  \<open>doc1\<close>, ...), and the empty world. Witness theorems run the services on them.\<close>

definition ext_ok :: ext where
  "ext_ok = \<lparr>x_embed = (\<lambda>_ _. Inr [1]), x_chat = (\<lambda>_ _ _. Inr (js ''ok'', Usage 1 1 2)),
     x_gemini = (\<lambda>_ _. Inr (js ''ok'')), x_sim = (\<lambda>_ _. 1), x_pdf = (\<lambda>_ _. Inr [js ''ok'']),
     x_docx = (\<lambda>_ _. Inr (js ''ok'')), x_utf8 = (\<lambda>b. map ucast b),
     x_newid = (\<lambda>i. js ''doc'' @ js_of_nat i), x_url = (\<lambda>k. js ''https://store/'' @ k),
     x_down = (\<lambda>_. None)\<rparr>"

definition world0 :: world where
  "world0 = \<lparr>w_vec = [], w_docs = [], w_bucket = Map.empty, w_log = []\<rparr>"

subsection \<open>Lemmas on the combinators\<close>

lemma bindE_returnE [eff_simps]: "bindE (returnE a) f = f a"
  by (simp add: bindE_def returnE_def fun_eq_iff)

lemma bindE_throwE [eff_simps]: "bindE (throwE e) f = throwE e"
  by (simp add: bindE_def throwE_def fun_eq_iff)

lemma bindE_assoc [eff_simps]: "bindE (bindE m f) g = bindE m (\<lambda>a. bindE (f a) g)"
  by (auto simp: bindE_def fun_eq_iff split: prod.splits sum.splits)

lemma catchE_returnE [eff_simps]: "catchE (returnE a) h = returnE a"
  by (simp add: catchE_def returnE_def fun_eq_iff)

lemma catchE_throwE [eff_simps]: "catchE (throwE e) h = h e"
  by (simp add: catchE_def throwE_def fun_eq_iff)

lemma bindE_apply [eff_simps]:
  "bindE m f w = (case m w of (Inl e, w') \<Rightarrow> (Inl e, w') | (Inr a, w') \<Rightarrow> f a w')"
  by (simp add: bindE_def)

lemma catchE_apply [eff_simps]:
  "catchE m h w = (case m w of (Inl e, w') \<Rightarrow> h e w' | (Inr a, w') \<Rightarrow> (Inr a, w'))"
  by (simp add: catchE_def)

lemma rethrow_apply [eff_simps]:
  "rethrow msg m w = (case m w of (Inl e, w') \<Rightarrow> (Inl (Error msg), w') | (Inr a, w') \<Rightarrow> (Inr a, w'))"
  by (simp add: rethrow_def catchE_def throwE_def split: prod.splits sum.splits)

lemma attempt_apply [eff_simps]:
  "attempt m w = (case m w of (Inl e, w') \<Rightarrow> (Inr None, w') | (Inr a, w') \<Rightarrow> (Inr (Some a), w'))"
  by (simp add: attempt_def catchE_def bindE_def returnE_def split: prod.splits sum.splits)

lemma get_now_apply [eff_simps]: "get_now w = (Inr (now w), w)"
  by (simp add: get_now_def)

subsection \<open>Frame predicates\<close>

text \<open>\<open>read_only m\<close>: \<open>m\<close> changes no store, only the log. \<open>log_grows m\<close>: \<open>m\<close>
  only appends to the log. Both are closed under the combinators, so a composed
  service inherits them from its parts by \<open>frame_intros\<close>.\<close>

definition same_stores :: "world \<Rightarrow> world \<Rightarrow> bool" where
  "same_stores w w' \<longleftrightarrow> w_vec w' = w_vec w \<and> w_docs w' = w_docs w \<and> w_bucket w' = w_bucket w"

definition read_only :: "'a eff \<Rightarrow> bool" where
  "read_only m \<longleftrightarrow> (\<forall>w. same_stores w (snd (m w)))"

definition log_grows :: "'a eff \<Rightarrow> bool" where
  "log_grows m \<longleftrightarrow> (\<forall>w. prefix (w_log w) (w_log (snd (m w))))"

lemma same_stores_trans: "same_stores a b \<Longrightarrow> same_stores b c \<Longrightarrow> same_stores a c"
  by (simp add: same_stores_def)

lemma read_only_returnE [frame_intros]: "read_only (returnE a)"
  by (simp add: read_only_def returnE_def same_stores_def)

lemma read_only_throwE [frame_intros]: "read_only (throwE e)"
  by (simp add: read_only_def throwE_def same_stores_def)

lemma read_only_get_now [frame_intros]: "read_only get_now"
  by (simp add: read_only_def get_now_def same_stores_def)

lemma read_only_ext_call [frame_intros]: "read_only (ext_call c f)"
  by (simp add: read_only_def ext_call_def same_stores_def)

lemma read_only_store_call [frame_intros]: "read_only (store_call X c res id)"
  by (auto simp: read_only_def store_call_def same_stores_def Let_def split: option.splits sum.splits)

lemma read_only_bindE [frame_intros]:
  "read_only m \<Longrightarrow> (\<And>a. read_only (f a)) \<Longrightarrow> read_only (bindE m f)"
  unfolding read_only_def bindE_def
  by (metis (mono_tags, lifting) case_prod_beta same_stores_trans snd_conv sum.case_eq_if)

lemma read_only_catchE [frame_intros]:
  "read_only m \<Longrightarrow> (\<And>e. read_only (h e)) \<Longrightarrow> read_only (catchE m h)"
  unfolding read_only_def catchE_def
  by (metis (mono_tags, lifting) case_prod_beta same_stores_trans snd_conv sum.case_eq_if)

lemma read_only_rethrow [frame_intros]: "read_only m \<Longrightarrow> read_only (rethrow msg m)"
  unfolding rethrow_def by (intro frame_intros)

lemma read_only_attempt [frame_intros]: "read_only m \<Longrightarrow> read_only (attempt m)"
  unfolding attempt_def by (intro frame_intros)

lemma read_only_if [frame_intros]: "read_only a \<Longrightarrow> read_only b \<Longrightarrow> read_only (if P then a else b)"
  by simp

lemma log_grows_returnE [frame_intros]: "log_grows (returnE a)"
  by (simp add: log_grows_def returnE_def)

lemma log_grows_throwE [frame_intros]: "log_grows (throwE e)"
  by (simp add: log_grows_def throwE_def)

lemma log_grows_get_now [frame_intros]: "log_grows get_now"
  by (simp add: log_grows_def get_now_def)

lemma log_grows_ext_call [frame_intros]: "log_grows (ext_call c f)"
  by (simp add: log_grows_def ext_call_def)

lemma log_grows_bindE [frame_intros]:
  "log_grows m \<Longrightarrow> (\<And>a. log_grows (f a)) \<Longrightarrow> log_grows (bindE m f)"
  unfolding log_grows_def bindE_def
  by (metis (mono_tags, lifting) case_prod_beta prefix_order.trans snd_conv sum.case_eq_if)

lemma log_grows_catchE [frame_intros]:
  "log_grows m \<Longrightarrow> (\<And>e. log_grows (h e)) \<Longrightarrow> log_grows (catchE m h)"
  unfolding log_grows_def catchE_def
  by (metis (mono_tags, lifting) case_prod_beta prefix_order.trans snd_conv sum.case_eq_if)

lemma log_grows_rethrow [frame_intros]: "log_grows m \<Longrightarrow> log_grows (rethrow msg m)"
  unfolding rethrow_def by (intro frame_intros)

lemma log_grows_attempt [frame_intros]: "log_grows m \<Longrightarrow> log_grows (attempt m)"
  unfolding attempt_def by (intro frame_intros)

lemma log_grows_if [frame_intros]: "log_grows a \<Longrightarrow> log_grows b \<Longrightarrow> log_grows (if P then a else b)"
  by simp

lemma log_grows_store_call [frame_intros]:
  "(\<And>w. w_log (upd w) = w_log w) \<Longrightarrow> log_grows (store_call X c res upd)"
  by (auto simp: log_grows_def store_call_def Let_def split: option.splits sum.splits)

lemma store_call_log [eff_simps]: "w_log (snd (store_call X c res upd w)) =
    (if x_down X (now w) = None \<and> (\<exists>a. res w = Inr a) then w_log (upd (w\<lparr>w_log := w_log w @ [c]\<rparr>))
     else w_log w @ [c])"
  by (auto simp: store_call_def Let_def split: option.splits sum.splits)

lemma calls_succeed_mono: "calls_succeed X n \<Longrightarrow> n \<le> m \<Longrightarrow> calls_succeed X m"
  by (simp add: calls_succeed_def)

lemma calls_succeed_log_grows:
  "calls_succeed X (now w) \<Longrightarrow> log_grows m \<Longrightarrow> calls_succeed X (now (snd (m w)))"
  unfolding log_grows_def now_def by (metis calls_succeed_mono prefix_length_le)

lemma now_upd [simp]:
  "now (w\<lparr>w_docs := rs\<rparr>) = now w" "now (w\<lparr>w_vec := vs\<rparr>) = now w" "now (w\<lparr>w_bucket := b\<rparr>) = now w"
  by (simp_all add: now_def)

lemma now_log_append [simp]: "now (w\<lparr>w_log := w_log w @ cs\<rparr>) = now w + length cs"
  by (simp add: now_def)

lemma insert_new_fresh:
  "distinct (map v_id rs) \<Longrightarrow> (\<forall>r\<in>set rs. v_id r \<notin> set taken) \<Longrightarrow> insert_new taken rs = rs"
proof (induction rs arbitrary: taken)
  case Nil
  then show ?case by simp
next
  case (Cons r rs)
  then have "\<forall>r'\<in>set rs. v_id r' \<notin> set (v_id r # taken)" by (fastforce simp: image_iff)
  with Cons show ?case by simp
qed

end
