(* ===== verification/EffectLogic.thy ===== *)
theory EffectLogic
  imports Externals
begin

text \<open>
  A Hoare logic for the service methods of \<open>Externals\<close>: \<open>valid P m Q E\<close> says that
  from a world satisfying \<open>P\<close>, the method \<open>m\<close> either returns a value \<open>a\<close> in a world
  satisfying \<open>Q a\<close>, or throws in a world satisfying \<open>E\<close>. Since a thrown error keeps
  the effects made before it, \<open>E\<close> is where an invariant has to survive a failure half way.
  The rules follow the combinators (collection \<open>valid_intros\<close>), so the validity of a
  composed method is proved by applying them along its definition, one step per call.
\<close>

named_theorems valid_intros "rules of the Hoare logic for service methods"

definition valid :: "(world \<Rightarrow> bool) \<Rightarrow> 'a eff \<Rightarrow> ('a \<Rightarrow> world \<Rightarrow> bool) \<Rightarrow> (world \<Rightarrow> bool) \<Rightarrow> bool" where
  "valid P m Q E \<longleftrightarrow> (\<forall>w. P w \<longrightarrow> (case m w of (Inr a, w') \<Rightarrow> Q a w' | (Inl e, w') \<Rightarrow> E w'))"

text \<open>A property of the stores alone, which neither the log nor the bucket affects.\<close>

definition vd_stable :: "(world \<Rightarrow> bool) \<Rightarrow> bool" where
  "vd_stable P \<longleftrightarrow> (\<forall>w w'. w_vec w' = w_vec w \<longrightarrow> w_docs w' = w_docs w \<longrightarrow> P w \<longrightarrow> P w')"

subsection \<open>Rules\<close>

lemma valid_returnE [valid_intros]: "(\<And>w. P w \<Longrightarrow> Q a w) \<Longrightarrow> valid P (returnE a) Q E"
  by (simp add: valid_def returnE_def)

lemma valid_throwE [valid_intros]: "(\<And>w. P w \<Longrightarrow> E w) \<Longrightarrow> valid P (throwE e) Q E"
  by (simp add: valid_def throwE_def)

lemma valid_bindE [valid_intros]:
  "valid P m R E \<Longrightarrow> (\<And>a. valid (R a) (f a) Q E) \<Longrightarrow> valid P (bindE m f) Q E"
  unfolding valid_def bindE_def by (fastforce split: prod.splits sum.splits)

lemma valid_catchE [valid_intros]:
  "valid P m Q R \<Longrightarrow> (\<And>e. valid R (h e) Q E) \<Longrightarrow> valid P (catchE m h) Q E"
  unfolding valid_def catchE_def by (fastforce split: prod.splits sum.splits)

lemma valid_rethrow [valid_intros]: "valid P m Q E \<Longrightarrow> valid P (rethrow msg m) Q E"
  unfolding rethrow_def by (intro valid_intros) (simp_all add: valid_def throwE_def)

lemma valid_attempt [valid_intros]:
  "valid P m (\<lambda>a. Q (Some a)) (Q None) \<Longrightarrow> valid P (attempt m) Q E"
  unfolding valid_def attempt_apply by (fastforce split: prod.splits sum.splits)

lemma valid_if [valid_intros]:
  "(b \<Longrightarrow> valid P m Q E) \<Longrightarrow> (\<not> b \<Longrightarrow> valid P m' Q E) \<Longrightarrow> valid P (if b then m else m') Q E"
  by simp

lemma valid_option [valid_intros]:
  "valid P m Q E \<Longrightarrow> (\<And>a. valid P (f a) Q E) \<Longrightarrow> valid P (case x of None \<Rightarrow> m | Some a \<Rightarrow> f a) Q E"
  by (cases x) simp_all

lemma valid_pre: "valid P' m Q E \<Longrightarrow> (\<And>w. P w \<Longrightarrow> P' w) \<Longrightarrow> valid P m Q E"
  by (simp add: valid_def)

lemma valid_post:
  "valid P m Q' E' \<Longrightarrow> (\<And>a w. Q' a w \<Longrightarrow> Q a w) \<Longrightarrow> (\<And>w. E' w \<Longrightarrow> E w) \<Longrightarrow> valid P m Q E"
  unfolding valid_def by (fastforce split: prod.splits sum.splits)

lemma valid_const: "(A \<Longrightarrow> valid P m Q E) \<Longrightarrow> valid (\<lambda>w. P w \<and> A) m Q E"
  by (auto simp: valid_def)

text \<open>A call to a provider only appends to the log; a store call fails or answers and
  updates from the world it finds.\<close>

lemma valid_ext_call [valid_intros]:
  "(\<And>w. P w \<Longrightarrow> E (w\<lparr>w_log := w_log w @ [c]\<rparr>) \<and> (\<forall>a. Q a (w\<lparr>w_log := w_log w @ [c]\<rparr>))) \<Longrightarrow>
   valid P (ext_call c f) Q E"
  by (auto simp: valid_def ext_call_def split: sum.splits)

lemma valid_store_call [valid_intros]:
  "(\<And>w. P w \<Longrightarrow> E (w\<lparr>w_log := w_log w @ [c]\<rparr>)) \<Longrightarrow>
   (\<And>w a. P w \<Longrightarrow> res w = Inr a \<Longrightarrow> Q a (upd (w\<lparr>w_log := w_log w @ [c]\<rparr>))) \<Longrightarrow>
   valid P (store_call X c res upd) Q E"
  by (auto simp: valid_def store_call_def Let_def split: option.splits sum.splits)

lemma valid_get_now [valid_intros]: "(\<And>w. P w \<Longrightarrow> Q (now w) w) \<Longrightarrow> valid P get_now Q E"
  by (simp add: valid_def get_now_def)

text \<open>A method that changes neither the collection nor the registry keeps every property
  of those two stores, on both exits.\<close>

lemma vd_stable_log [simp]: "vd_stable P \<Longrightarrow> P (w\<lparr>w_log := l\<rparr>) = P w"
  unfolding vd_stable_def by (metis world.select_convs(1,2) world.surjective world.update_convs(4))

lemma vd_stable_bucket [simp]: "vd_stable P \<Longrightarrow> P (w\<lparr>w_bucket := b\<rparr>) = P w"
  unfolding vd_stable_def by (metis world.select_convs(1,2) world.surjective world.update_convs(3))

lemma valid_read_only:
  "read_only m \<Longrightarrow> vd_stable P \<Longrightarrow> valid P m (\<lambda>_. P) P"
  unfolding valid_def read_only_def same_stores_def vd_stable_def
  by (metis (mono_tags, lifting) case_prod_beta old.sum.simps(5,6) snd_conv sum.exhaust)

end
