(* ===== verification/AIService.thy ===== *)
theory AIService
  imports Externals
begin

text \<open>
  The AI provider layer, \<open>AIService\<close> (src/backend/src/services/aiService.js): embeddings
  through OpenAI, chat completions dispatched by model name to OpenAI or Gemini with a
  system prompt built from the retrieved context and a language directive, the streaming
  variant, translation and language detection. The provider clients are the oracles of
  \<open>Externals\<close>; each request is one logged external call. The language directive table
  is the source's, with its non-ASCII directives written as their UTF-16 code units, and
  the lookup \<open>languageInstructions[language]\<close> is JavaScript property access, which also
  finds the properties every object inherits from \<open>Object.prototype\<close>.
\<close>

subsection \<open>Models and embeddings\<close>

text \<open>\<open>this.models\<close> (lines 14--18): a model name to the provider's model id.\<close>

definition ai_models :: "jstr \<Rightarrow> jstr option" where
  "ai_models m =
     (if m = js ''gpt-4'' then Some (js ''gpt-4'')
      else if m = js ''gpt-3.5-turbo'' then Some (js ''gpt-3.5-turbo'')
      else if m = js ''gemini-pro'' then Some (js ''gemini-pro'')
      else None)"

definition generateEmbeddings :: "ext \<Rightarrow> jstr \<Rightarrow> vec eff" where
  "generateEmbeddings X t =
     rethrow (js ''Failed to generate embeddings'') (ext_call (CEmbed t) (\<lambda>i. x_embed X i t))"

subsection \<open>The system prompt\<close>

definition nl :: jstr where "nl = [10]"

definition language_table :: "(jstr \<times> jstr) list" where
  "language_table =
    [(js ''en'', js ''Respond in English.''),
     (js ''es'', [82, 101, 115, 112, 111, 110, 100, 101, 32, 101, 110, 32, 101, 115, 112, 97, 241,
                  111, 108, 46]),
     (js ''fr'', [82, 233, 112, 111, 110, 100, 101, 122, 32, 101, 110, 32, 102, 114, 97, 110, 231,
                  97, 105, 115, 46]),
     (js ''de'', js ''Antworten Sie auf Deutsch.''),
     (js ''hi'', [2361, 2367, 2306, 2342, 2368, 32, 2350, 2375, 2306, 32, 2313, 2340, 2381, 2340,
                  2352, 32, 2342, 2375, 2306, 2404]),
     (js ''ne'', [2344, 2375, 2346, 2366, 2354, 2368, 2350, 2366, 32, 2332, 2357, 2366, 2347, 32,
                  2342, 2367, 2344, 2369, 2361, 2379, 2360, 2381, 2404]),
     (js ''zh'', [29992, 20013, 25991, 22238, 31572, 12290]),
     (js ''ja'', [26085, 26412, 35486, 12391, 31572, 12360, 12390, 12367, 12384, 12373, 12356,
                  12290])]"

text \<open>Properties inherited from \<open>Object.prototype\<close>, as a template literal prints them:
  a method prints as its native source text, \<open>__proto__\<close> as \<open>[object Object]\<close>.\<close>

definition proto_methods :: "jstr list" where
  "proto_methods =
     [js ''__defineGetter__'', js ''__defineSetter__'', js ''hasOwnProperty'',
      js ''__lookupGetter__'', js ''__lookupSetter__'', js ''isPrototypeOf'',
      js ''propertyIsEnumerable'', js ''toString'', js ''valueOf'', js ''toLocaleString'']"

definition native_fn :: "jstr \<Rightarrow> jstr" where
  "native_fn f = js ''function '' @ f @ js ''() { [native code] }''"

definition object_proto_value :: "jstr \<Rightarrow> jstr option" where
  "object_proto_value k =
     (if k = js ''constructor'' then Some (native_fn (js ''Object''))
      else if k = js ''__proto__'' then Some (js ''[object Object]'')
      else if k \<in> set proto_methods then Some (native_fn k)
      else None)"

definition language_instruction :: "jstr \<Rightarrow> jstr" where
  "language_instruction l =
     (case map_of language_table l of
        Some d \<Rightarrow> d
      | None \<Rightarrow> (case object_proto_value l of Some v \<Rightarrow> v | None \<Rightarrow> js ''Respond in English.''))"

definition prompt_head :: jstr where
  "prompt_head = js ''You are a helpful AI assistant for a business. You should provide accurate, helpful, and professional responses based on the company's documentation and knowledge base.'' @ nl @ nl"

definition prompt_tail :: jstr where
  "prompt_tail = nl @ nl @ js ''If you have relevant context from the company's documents, use it to provide accurate answers. If you don't have specific information, politely say so and offer to help in other ways.'' @ nl @ nl @ js ''Keep responses concise but informative. Be friendly and professional.''"

definition basePrompt :: "jstr \<Rightarrow> jstr" where
  "basePrompt l = prompt_head @ language_instruction l @ prompt_tail"

definition context_intro :: jstr where
  "context_intro = nl @ nl @ js ''Relevant company information:'' @ nl"

definition context_outro :: jstr where
  "context_outro = nl @ nl @ js ''Use this information to answer the user's question accurately.''"

definition buildSystemPrompt :: "jstr \<Rightarrow> jstr \<Rightarrow> jstr" where
  "buildSystemPrompt context language =
     (if context \<noteq> [] then basePrompt language @ context_intro @ context @ context_outro
      else basePrompt language)"

subsection \<open>Chat completions\<close>

definition generateOpenAIResponse :: "ext \<Rightarrow> jstr \<Rightarrow> msg list \<Rightarrow> (jstr \<times> usage) eff" where
  "generateOpenAIResponse X model ms =
     ext_call (COpenAIChat (ai_models model) ms) (\<lambda>i. x_chat X i (ai_models model) ms)"

definition gemini_line :: "msg \<Rightarrow> jstr" where
  "gemini_line m =
     (if m_role m = js ''system'' then js ''System: '' @ m_content m
      else if m_role m = js ''user'' then js ''User: '' @ m_content m
      else if m_role m = js ''assistant'' then js ''Assistant: '' @ m_content m
      else m_content m)"

definition gemini_prompt :: "msg list \<Rightarrow> jstr" where
  "gemini_prompt ms = js_join (nl @ nl) (map gemini_line ms)"

definition generateGeminiResponse :: "ext \<Rightarrow> msg list \<Rightarrow> (jstr \<times> usage) eff" where
  "generateGeminiResponse X ms =
     bindE (ext_call (CGemini (gemini_prompt ms)) (\<lambda>i. x_gemini X i (gemini_prompt ms)))
       (\<lambda>t. returnE (t, TotalOnly 0))"

definition system_msg :: "jstr \<Rightarrow> msg" where
  "system_msg p = \<lparr>m_role = js ''system'', m_content = p\<rparr>"

definition dispatch_model :: "ext \<Rightarrow> jstr \<Rightarrow> msg list \<Rightarrow> (jstr \<times> usage) eff" where
  "dispatch_model X model full =
     (if js_startsWith model (js ''gpt'') then generateOpenAIResponse X model full
      else if model = js ''gemini-pro'' then generateGeminiResponse X full
      else throwE (Error (js ''Unsupported model: '' @ model)))"

definition generateResponse ::
  "ext \<Rightarrow> jstr \<Rightarrow> msg list \<Rightarrow> jstr \<Rightarrow> jstr \<Rightarrow> (jstr \<times> usage) eff" where
  "generateResponse X model ms context language =
     rethrow (js ''Failed to generate response'')
       (dispatch_model X model (system_msg (buildSystemPrompt context language) # ms))"

text \<open>\<open>generateStreamResponse\<close>: for a \<open>gpt\<close> model the value is the stream object the
  client returns for the request (its fragments arrive later, outside this call); any
  other model gets the whole \<open>generateResponse\<close> result instead.\<close>

datatype stream_result = OpenAIStream "jstr option" "msg list" | WholeResponse "jstr \<times> usage"

definition generateStreamResponse ::
  "ext \<Rightarrow> jstr \<Rightarrow> msg list \<Rightarrow> jstr \<Rightarrow> jstr \<Rightarrow> stream_result eff" where
  "generateStreamResponse X model ms context language =
     rethrow (js ''Failed to generate stream response'')
       (if js_startsWith model (js ''gpt'') then
          (let full = system_msg (buildSystemPrompt context language) # ms in
           bindE (ext_call (COpenAIChat (ai_models model) full) (\<lambda>i. x_chat X i (ai_models model) full))
             (\<lambda>_. returnE (OpenAIStream (ai_models model) full)))
        else bindE (generateResponse X model ms context language) (\<lambda>r. returnE (WholeResponse r)))"

subsection \<open>Translation and language detection\<close>

definition translate_msgs :: "jstr \<Rightarrow> jstr \<Rightarrow> msg list" where
  "translate_msgs t target =
     [system_msg (js ''Translate the following text to '' @ target @
                  js ''. Only return the translation, no additional text.''),
      \<lparr>m_role = js ''user'', m_content = t\<rparr>]"

definition translateText :: "ext \<Rightarrow> jstr \<Rightarrow> jstr \<Rightarrow> jstr eff" where
  "translateText X t target =
     rethrow (js ''Failed to translate text'')
       (bindE (ext_call (COpenAIChat (Some (js ''gpt-3.5-turbo'')) (translate_msgs t target))
                 (\<lambda>i. x_chat X i (Some (js ''gpt-3.5-turbo'')) (translate_msgs t target)))
          (\<lambda>r. returnE (fst r)))"

definition detect_msgs :: "jstr \<Rightarrow> msg list" where
  "detect_msgs t =
     [system_msg (js ''Detect the language of the following text. Return only the language code (e.g., en, es, fr, de, hi, ne, zh, ja).''),
      \<lparr>m_role = js ''user'', m_content = t\<rparr>]"

definition detectLanguage :: "ext \<Rightarrow> jstr \<Rightarrow> jstr eff" where
  "detectLanguage X t =
     catchE
       (bindE (ext_call (COpenAIChat (Some (js ''gpt-3.5-turbo'')) (detect_msgs t))
                 (\<lambda>i. x_chat X i (Some (js ''gpt-3.5-turbo'')) (detect_msgs t)))
          (\<lambda>r. returnE (js_toLowerCase (js_trim (fst r)))))
       (\<lambda>_. returnE (js ''en''))"

subsection \<open>Reading the context back from a prompt\<close>


subsection \<open>Properties of the AI service\<close>

text \<open>A model name that neither starts with "gpt" nor is
  "gemini-pro" is refused before any provider call: the result is the generic error
  "Failed to generate response" and the world is unchanged.\<close>

theorem generateResponse_unsupported:
  assumes "\<not> js_startsWith model (js ''gpt'')" "model \<noteq> js ''gemini-pro''"
  shows "generateResponse X model ms context language w =
           (Inl (Error (js ''Failed to generate response'')), w)"
  using assms by (simp add: generateResponse_def dispatch_model_def rethrow_apply throwE_def)

theorem generateResponse_unsupported_witness:
  "\<not> js_startsWith (js ''foo-bar'') (js ''gpt'') \<and> js ''foo-bar'' \<noteq> js ''gemini-pro'' \<and>
   generateResponse ext_ok (js ''foo-bar'') [] [] (js ''en'') world0 =
     (Inl (Error (js ''Failed to generate response'')), world0)"
  using generateResponse_unsupported [of "js ''foo-bar''" ext_ok "[]" "[]" "js ''en''" world0]
  by (simp add: js_startsWith_def js_def)

text \<open>C38: Every model name starting with "gpt" is sent to
  OpenAI as one chat request whose model is the table's entry for it (undefined for a name
  the table lacks, such as "gpt-4o") and whose messages are the system prompt followed by
  the caller's messages; nothing else changes.\<close>

theorem generateResponse_gpt_request:
  "js_startsWith model (js ''gpt'') \<Longrightarrow>
   snd (generateResponse X model ms context language w) =
     w\<lparr>w_log := w_log w @ [COpenAIChat (ai_models model) (system_msg (buildSystemPrompt context language) # ms)]\<rparr>"
  by (simp add: generateResponse_def dispatch_model_def rethrow_apply generateOpenAIResponse_def
      ext_call_def split: sum.splits)

theorem generateResponse_gpt_request_witness:
  "snd (generateResponse ext_ok (js ''gpt-4o'') [] [] (js ''en'') world0) =
     world0\<lparr>w_log := [COpenAIChat None [system_msg (buildSystemPrompt [] (js ''en''))]]\<rparr>"
proof -
  have "js_startsWith (js ''gpt-4o'') (js ''gpt'')" by (simp add: js_startsWith_def js_def)
  from generateResponse_gpt_request [OF this] show ?thesis
    by (simp add: ai_models_def js_def world0_def)
qed


text \<open>A Gemini answer never reports a guessed token usage: its
  usage is the explicit total 0.\<close>

theorem gemini_usage_zero:
  "generateResponse X (js ''gemini-pro'') ms context language w = (Inr (t, u), w') \<Longrightarrow> u = TotalOnly 0"
  by (auto simp: generateResponse_def dispatch_model_def js_startsWith_def js_def rethrow_apply
      generateGeminiResponse_def bindE_apply ext_call_def returnE_def split: sum.splits)

theorem gemini_usage_zero_witness:
  "\<exists>t w'. generateResponse ext_ok (js ''gemini-pro'') [] [] (js ''en'') world0 = (Inr (t, TotalOnly 0), w')"
proof -
  obtain t u w' where run: "generateResponse ext_ok (js ''gemini-pro'') [] [] (js ''en'') world0 = (Inr (t, u), w')"
    by (simp add: generateResponse_def dispatch_model_def js_startsWith_def js_def rethrow_apply
        generateGeminiResponse_def bindE_apply ext_call_def returnE_def ext_ok_def)
  with gemini_usage_zero [OF run] show ?thesis by blast
qed

text \<open>A language code that is not in the directive table and is not
  the name of an \<open>Object.prototype\<close> property gets the English directive.\<close>

theorem language_fallback:
  "map_of language_table l = None \<Longrightarrow> object_proto_value l = None \<Longrightarrow>
   language_instruction l = js ''Respond in English.''"
  by (simp add: language_instruction_def)

theorem language_fallback_witness:
  "language_instruction (js ''xx'') = js ''Respond in English.''"
proof -
  have "map_of language_table (js ''xx'') = None"
    by (simp add: language_table_def js_def)
  moreover have "object_proto_value (js ''xx'') = None"
    by (simp add: object_proto_value_def proto_methods_def js_def)
  ultimately show ?thesis by (rule language_fallback)
qed


text \<open>Language detection never throws: it returns the trimmed,
  lower-cased answer of the model, or "en" when the request fails.\<close>

theorem detectLanguage_total:
  "fst (detectLanguage X t w) =
     Inr (case x_chat X (now w) (Some (js ''gpt-3.5-turbo'')) (detect_msgs t) of
            Inl _ \<Rightarrow> js ''en''
          | Inr r \<Rightarrow> js_toLowerCase (js_trim (fst r)))"
  by (simp add: detectLanguage_def catchE_apply bindE_apply ext_call_def returnE_def split: sum.splits)

end
