(* ===== verification/Chunker.thy ===== *)
theory Chunker
  imports Prelude
begin

text \<open>
  The text chunker, \<open>RAGService.chunkText\<close> (src/backend/src/services/ragService.js,
  lines 204--231) with the defaults of the constructor (lines 6--10). The
  \<open>while\<close> loop is \<open>chunk_loop\<close>, a \<^theory_text>\<open>partial_function (option)\<close>: its
  window start is an \<open>int\<close> that the code does not force to grow, so for some
  parameters the loop runs forever, which is the value \<open>None\<close>. One iteration
  computes the window end (\<open>chunk_end\<close>: the raw end \<open>start + chunkSize\<close>, moved
  to just after the last \<open>'.'\<close> or newline at or before it when that break point
  lies past the middle of the window), trims the slice, keeps it when non-empty and
  restarts at \<open>end - overlap\<close>.
\<close>

definition dot_cu :: cu where "dot_cu = 46"
definition nl_cu :: cu where "nl_cu = 10"

definition chunk_break :: "jstr \<Rightarrow> int \<Rightarrow> int" where
  "chunk_break tx e = max (js_lastIndexOf tx dot_cu e) (js_lastIndexOf tx nl_cu e)"

text \<open>\<open>breakPoint > start + chunkSize * 0.5\<close> compares an integer with a half-integer;
  doubling both sides states it exactly over \<open>int\<close>.\<close>

definition chunk_end :: "jstr \<Rightarrow> int \<Rightarrow> int \<Rightarrow> int" where
  "chunk_end tx cs start =
     (let e = start + cs in
      if e < int (length tx) then
        (let bp = chunk_break tx e in if 2 * start + cs < 2 * bp then bp + 1 else e)
      else e)"

definition chunk_piece :: "jstr \<Rightarrow> int \<Rightarrow> int \<Rightarrow> jstr" where
  "chunk_piece tx cs start = js_trim (js_slice tx start (chunk_end tx cs start))"

partial_function (option) chunk_loop ::
  "jstr \<Rightarrow> int \<Rightarrow> int \<Rightarrow> int \<Rightarrow> jstr list \<Rightarrow> jstr list option" where
  "chunk_loop tx cs ov start acc =
     (if start < int (length tx) then
        (let c = chunk_piece tx cs start
         in chunk_loop tx cs ov (chunk_end tx cs start - ov)
              (if 0 < length c then acc @ [c] else acc))
      else Some acc)"

declare chunk_loop.simps [code]

definition chunkText :: "jstr \<Rightarrow> int \<Rightarrow> int \<Rightarrow> jstr list option" where
  "chunkText tx cs ov = chunk_loop tx cs ov 0 []"

definition default_chunkSize :: int where "default_chunkSize = 1000"
definition default_chunkOverlap :: int where "default_chunkOverlap = 200"

definition chunkText_default :: "jstr \<Rightarrow> jstr list option" where
  "chunkText_default tx = chunkText tx default_chunkSize default_chunkOverlap"

text \<open>A chunk the loop keeps: non-empty, a contiguous piece of the text, at most one
  code unit longer than the window, and with no white space at either end.\<close>

definition chunk_ok :: "jstr \<Rightarrow> int \<Rightarrow> jstr \<Rightarrow> bool" where
  "chunk_ok tx cs c \<longleftrightarrow> c \<noteq> [] \<and> sublist c tx \<and> int (length c) \<le> cs + 1
     \<and> \<not> js_is_space (hd c) \<and> \<not> js_is_space (last c)"

text \<open>The number of windows that start before the end of the text when every window
  advances by \<open>st\<close> code units.\<close>

definition chunk_windows :: "jstr \<Rightarrow> int \<Rightarrow> int \<Rightarrow> int" where
  "chunk_windows tx st start = (int (length tx) - start + st - 1) div st"

subsection \<open>Unfolding the loop, progress and the loop rule\<close>

lemma chunk_break_le: "chunk_break tx e \<le> max e 0"
  using js_lastIndexOf_range [of tx dot_cu e] js_lastIndexOf_range [of tx nl_cu e]
  by (auto simp: chunk_break_def)

lemma chunk_end_cases:
  "chunk_end tx cs start = start + cs \<or>
   (2 * start + cs < 2 * chunk_break tx (start + cs) \<and>
    chunk_end tx cs start = chunk_break tx (start + cs) + 1)"
  by (auto simp: chunk_end_def Let_def)

lemma chunk_progress:
  assumes "ov < cs" "2 * ov \<le> cs + 2"
  shows "start < chunk_end tx cs start - ov"
  using chunk_end_cases [of tx cs start] assms by linarith

lemma chunk_loop_step:
  "start < int (length tx) \<Longrightarrow>
   chunk_loop tx cs ov start acc =
     chunk_loop tx cs ov (chunk_end tx cs start - ov)
       (if 0 < length (chunk_piece tx cs start) then acc @ [chunk_piece tx cs start] else acc)"
  by (simp add: chunk_loop.simps [of tx cs ov start acc] Let_def)

lemma chunk_loop_stop:
  "\<not> start < int (length tx) \<Longrightarrow> chunk_loop tx cs ov start acc = Some acc"
  by (simp add: chunk_loop.simps [of tx cs ov start acc])

lemma chunk_loop_returns:
  assumes "ov < cs" "2 * ov \<le> cs + 2"
  shows "\<exists>r. chunk_loop tx cs ov start acc = Some r"
proof (induction "nat (int (length tx) - start)" arbitrary: start acc rule: less_induct)
  case less
  show ?case
  proof (cases "start < int (length tx)")
    case True
    have "nat (int (length tx) - (chunk_end tx cs start - ov)) < nat (int (length tx) - start)"
      using chunk_progress [OF assms, of start tx] True by linarith
    then show ?thesis using less True by (simp add: chunk_loop_step)
  next
    case False
    then show ?thesis by (simp add: chunk_loop_stop)
  qed
qed

lemma chunk_stuck:
  assumes "0 \<le> cs" "cs < ov" "start \<le> 0"
  shows "chunk_end tx cs start - ov \<le> 0"
  using chunk_end_cases [of tx cs start] chunk_break_le [of tx "start + cs"] assms
  by linarith

lemma chunk_loop_diverges:
  assumes "chunk_loop tx cs ov start acc = Some r"
  shows "\<not> (0 \<le> cs \<and> cs < ov \<and> start \<le> 0 \<and> tx \<noteq> [])"
proof (rule chunk_loop.raw_induct
    [where P = "\<lambda>tx cs ov start acc r. \<not> (0 \<le> cs \<and> cs < ov \<and> start \<le> 0 \<and> tx \<noteq> [])",
     OF _ assms])
  fix f tx cs ov start acc r
  assume IH: "\<And>tx cs ov start acc r. f tx cs ov start acc = Some r \<Longrightarrow>
      \<not> (0 \<le> cs \<and> cs < ov \<and> start \<le> 0 \<and> tx \<noteq> [])"
    and eq: "(if start < int (length tx)
        then let c = chunk_piece tx cs start
             in f tx cs ov (chunk_end tx cs start - ov) (if 0 < length c then acc @ [c] else acc)
        else Some acc) = Some r"
  show "\<not> (0 \<le> cs \<and> cs < ov \<and> start \<le> 0 \<and> tx \<noteq> [])"
  proof
    assume inv: "0 \<le> cs \<and> cs < ov \<and> start \<le> 0 \<and> tx \<noteq> []"
    then have "start < int (length tx)" by (cases tx) auto
    with eq obtain acc' where "f tx cs ov (chunk_end tx cs start - ov) acc' = Some r"
      by (auto simp: Let_def)
    then have "\<not> (0 \<le> cs \<and> cs < ov \<and> chunk_end tx cs start - ov \<le> 0 \<and> tx \<noteq> [])"
      by (rule IH)
    with inv chunk_stuck [of cs ov start tx] show False by simp
  qed
qed

lemma chunk_loop_rule:
  assumes init: "I start acc"
    and adv: "\<And>start acc. start < int (length tx) \<Longrightarrow> I start acc \<Longrightarrow>
      start < chunk_end tx cs start - ov"
    and step: "\<And>start acc. start < int (length tx) \<Longrightarrow> I start acc \<Longrightarrow>
      I (chunk_end tx cs start - ov)
        (if 0 < length (chunk_piece tx cs start) then acc @ [chunk_piece tx cs start] else acc)"
  shows "\<exists>start' r. chunk_loop tx cs ov start acc = Some r \<and> I start' r \<and> int (length tx) \<le> start'"
  using init
proof (induction "nat (int (length tx) - start)" arbitrary: start acc rule: less_induct)
  case less
  show ?case
  proof (cases "start < int (length tx)")
    case True
    have "nat (int (length tx) - (chunk_end tx cs start - ov)) < nat (int (length tx) - start)"
      using adv [OF True less.prems] True by linarith
    with less.hyps step [OF True less.prems] show ?thesis
      by (simp add: chunk_loop_step [OF True])
  next
    case False
    with less.prems show ?thesis by (auto simp: chunk_loop_stop)
  qed
qed

lemma chunk_end_le: "0 \<le> start \<Longrightarrow> 0 \<le> cs \<Longrightarrow> chunk_end tx cs start \<le> start + cs + 1"
  using chunk_end_cases [of tx cs start] chunk_break_le [of tx "start + cs"] by linarith

lemma chunk_end_ge: "0 \<le> cs \<Longrightarrow> start \<le> chunk_end tx cs start"
  using chunk_end_cases [of tx cs start] by linarith

lemma chunk_piece_length:
  assumes "0 \<le> start" "0 \<le> cs"
  shows "int (length (chunk_piece tx cs start)) \<le> cs + 1"
proof -
  let ?e = "chunk_end tx cs start"
  have "length (chunk_piece tx cs start) \<le> length (js_slice tx start ?e)"
    by (simp add: chunk_piece_def js_trim_length_le)
  also have "\<dots> = clamp_index ?e (length tx) - clamp_index start (length tx)"
    by (rule length_js_slice)
  finally show ?thesis
    using chunk_end_le [OF assms, of tx] chunk_end_ge [OF assms(2), of start tx] assms
    by (auto simp: clamp_index_def split: if_splits)
qed

lemma chunk_piece_ok:
  assumes "0 \<le> start" "0 \<le> cs" "chunk_piece tx cs start \<noteq> []"
  shows "chunk_ok tx cs (chunk_piece tx cs start)"
proof -
  have "sublist (chunk_piece tx cs start) tx"
    unfolding chunk_piece_def
    by (meson js_slice_sublist js_trim_sublist sublist_order.dual_order.trans)
  with assms chunk_piece_length [OF assms(1,2), of tx] js_trim_ends [of "js_slice tx start (chunk_end tx cs start)"]
  show ?thesis by (simp add: chunk_ok_def chunk_piece_def)
qed

lemma chunk_end_tail: "int (length tx) \<le> start + cs \<Longrightarrow> chunk_end tx cs start = start + cs"
  by (simp add: chunk_end_def Let_def)

lemma chunk_windows_step:
  "0 < st \<Longrightarrow> start < int (length tx) \<Longrightarrow>
   nat (chunk_windows tx st start) = Suc (nat (chunk_windows tx st (start + st)))"
proof -
  assume st: "0 < st" and lt: "start < int (length tx)"
  define x where "x = int (length tx) - start - 1"
  have x: "0 \<le> x" using lt by (simp add: x_def)
  have eq: "int (length tx) - start + st - 1 = x + st" by (simp add: x_def)
  have "chunk_windows tx st start = (x + st) div st" unfolding chunk_windows_def eq by (rule refl)
  also have "\<dots> = x div st + 1" using st by (simp add: div_add_self2)
  finally have "chunk_windows tx st start = x div st + 1" .
  moreover have "chunk_windows tx st (start + st) = x div st"
    by (simp add: chunk_windows_def x_def algebra_simps)
  moreover have "0 \<le> x div st" using x st by (simp add: pos_imp_zdiv_nonneg_iff)
  ultimately show ?thesis by simp
qed

lemma chunk_windows_done:
  "0 < st \<Longrightarrow> int (length tx) \<le> start \<Longrightarrow> nat (chunk_windows tx st start) = 0"
proof -
  assume st: "0 < st" and ge: "int (length tx) \<le> start"
  have "chunk_windows tx st start \<le> 0"
  proof (cases "0 \<le> int (length tx) - start + st - 1")
    case True
    with st ge show ?thesis by (simp add: chunk_windows_def)
  next
    case False
    then have "int (length tx) - start + st - 1 < 0" by simp
    then have "(int (length tx) - start + st - 1) div st < 0"
      using pos_imp_zdiv_neg_iff [OF st] by blast
    then show ?thesis by (simp add: chunk_windows_def)
  qed
  then show ?thesis by simp
qed

lemma chunk_plain_end:
  assumes "dot_cu \<notin> set tx" "\<forall>c\<in>set tx. \<not> js_is_space c" "0 \<le> start" "0 < cs"
  shows "chunk_end tx cs start = start + cs"
proof -
  have "nl_cu \<notin> set tx" using assms(2) by (auto simp: js_is_space_def nl_cu_def)
  then have "chunk_break tx (start + cs) = -1"
    using assms(1) by (simp add: chunk_break_def js_lastIndexOf_absent)
  then show ?thesis using assms(3,4) by (simp add: chunk_end_def Let_def)
qed

lemma chunk_plain_piece:
  assumes "dot_cu \<notin> set tx" "\<forall>c\<in>set tx. \<not> js_is_space c" "0 \<le> start" "0 < cs"
    and "start < int (length tx)"
  shows "0 < length (chunk_piece tx cs start)"
proof -
  have sl: "set (js_slice tx start (start + cs)) \<subseteq> set tx"
    using js_slice_sublist [of tx start "start + cs"] by (meson set_mono_sublist)
  have "js_trim (js_slice tx start (start + cs)) = js_slice tx start (start + cs)"
    using assms(2) sl by (intro js_trim_no_space) blast
  moreover have "0 < length (js_slice tx start (start + cs))"
    using assms(3,4,5) by (simp add: length_js_slice clamp_index_def nat_less_iff)
  ultimately show ?thesis
    using chunk_plain_end [OF assms(1-4)] by (simp add: chunk_piece_def)
qed

subsection \<open>Properties of chunkText\<close>

text \<open>C1: With the constructor's defaults (chunk size 1000,
  overlap 200) the chunking loop ends on every text.\<close>

theorem chunkText_default_terminates: "\<exists>r. chunkText_default tx = Some r"
  using chunk_loop_returns [of default_chunkOverlap default_chunkSize tx 0 "[]"]
  by (simp add: chunkText_default_def chunkText_def default_chunkSize_def default_chunkOverlap_def)

text \<open>C32: An overlap larger than the chunk size is neither
  rejected nor clamped: on any non-empty text the loop never ends.\<close>

theorem chunkText_overlap_diverges:
  "0 \<le> cs \<Longrightarrow> cs < ov \<Longrightarrow> tx \<noteq> [] \<Longrightarrow> chunkText tx cs ov = None"
  by (cases "chunkText tx cs ov") (auto simp: chunkText_def dest: chunk_loop_diverges)

theorem chunkText_overlap_diverges_witness:
  "0 \<le> (1::int) \<and> (1::int) < 2 \<and> js ''a'' \<noteq> [] \<and> chunkText (js ''a'') 1 2 = None"
  using chunkText_overlap_diverges [of 1 2 "js ''a''"] by (simp add: js_def)

text \<open>C29: When the overlap lets the window advance, the loop ends and every
  chunk is non-empty, a contiguous piece of the text, trimmed at both ends, and at most
  chunk size plus one code units long (a break at the window's last index is included).\<close>

theorem chunkText_shape:
  assumes "ov < cs" "2 * ov \<le> cs + 2" "0 \<le> cs"
  shows "\<exists>r. chunkText tx cs ov = Some r \<and> (\<forall>c\<in>set r. chunk_ok tx cs c)"
proof -
  have "\<exists>start' r. chunk_loop tx cs ov 0 [] = Some r \<and>
      (0 \<le> start' \<and> (\<forall>c\<in>set r. chunk_ok tx cs c)) \<and> int (length tx) \<le> start'"
  proof (rule chunk_loop_rule)
    fix start :: int and acc
    show "start < chunk_end tx cs start - ov" by (rule chunk_progress [OF assms(1,2)])
  next
    fix start :: int and acc
    assume "start < int (length tx)" "0 \<le> start \<and> (\<forall>c\<in>set acc. chunk_ok tx cs c)"
    then show "0 \<le> chunk_end tx cs start - ov \<and>
      (\<forall>c\<in>set (if 0 < length (chunk_piece tx cs start) then acc @ [chunk_piece tx cs start] else acc).
         chunk_ok tx cs c)"
      using chunk_progress [OF assms(1,2), of start tx] chunk_piece_ok [of start cs tx] assms(3)
      by auto
  qed simp
  then show ?thesis by (auto simp: chunkText_def)
qed

theorem chunkText_shape_witness:
  "(0::int) < 2 \<and> 2 * (0::int) \<le> 2 + 2 \<and> (0::int) \<le> 2 \<and>
   chunkText (js ''ab.c'') 2 0 = Some [js ''ab.'', js ''c''] \<and> chunk_ok (js ''ab.c'') 2 (js ''ab.'')"
proof -
  have run: "chunkText (js ''ab.c'') 2 0 = Some [js ''ab.'', js ''c'']"
    by (simp add: chunkText_def chunk_loop.simps chunk_piece_def chunk_end_def chunk_break_def
        js_lastIndexOf_def js_slice_def clamp_index_def js_trim_def js_is_space_def dot_cu_def
        nl_cu_def js_def)
  from chunkText_shape [of 0 2 "js ''ab.c''"] obtain r where
    "chunkText (js ''ab.c'') 2 0 = Some r" "\<forall>c\<in>set r. chunk_ok (js ''ab.c'') 2 c" by auto
  with run show ?thesis by simp
qed

text \<open>A text that fits in one window and whose restart position
  already lies past its end gives exactly one chunk, the trimmed text (none if it is
  blank).\<close>

theorem chunkText_short:
  assumes "int (length tx) \<le> cs" "int (length tx) \<le> cs - ov"
  shows "chunkText tx cs ov = Some (if js_trim tx = [] then [] else [js_trim tx])"
proof (cases "tx = []")
  case True
  then show ?thesis by (simp add: chunkText_def chunk_loop_stop js_trim_def)
next
  case False
  then have go: "0 < int (length tx)" by simp
  have e: "chunk_end tx cs 0 = cs" using assms(1) by (simp add: chunk_end_tail)
  have p: "chunk_piece tx cs 0 = js_trim tx"
    using assms(1) by (simp add: chunk_piece_def e js_slice_to_end)
  show ?thesis
    using assms(2) by (simp add: chunkText_def chunk_loop_step [OF go] e p chunk_loop_stop)
qed

theorem chunkText_short_witness:
  "int (length (js ''Hello.'')) \<le> 1000 \<and> int (length (js ''Hello.'')) \<le> 1000 - 200 \<and>
   chunkText (js ''Hello.'') 1000 200 = Some [js ''Hello.'']"
  using chunkText_short [of "js ''Hello.''" 1000 200]
  by (simp add: js_def js_trim_def js_is_space_def)

text \<open>C31: A text longer than chunk size minus overlap but no longer than the
  chunk size gives two chunks, the whole trimmed text and again its tail from
  \<open>chunkSize - overlap\<close>: the loop continues after a window that reached the end.\<close>

theorem chunkText_tail:
  assumes "0 \<le> ov" "ov < cs" "cs - ov < int (length tx)" "int (length tx) \<le> cs"
    and "int (length tx) \<le> 2 * (cs - ov)"
    and "js_trim tx \<noteq> []" "js_trim (drop (nat (cs - ov)) tx) \<noteq> []"
  shows "chunkText tx cs ov = Some [js_trim tx, js_trim (drop (nat (cs - ov)) tx)]"
proof -
  have go0: "0 < int (length tx)" using assms(2,3) by linarith
  have go1: "cs - ov < int (length tx)" using assms(3) .
  have e0: "chunk_end tx cs 0 = cs" using assms(4) by (simp add: chunk_end_tail)
  have p0: "chunk_piece tx cs 0 = js_trim tx"
    using assms(4) by (simp add: chunk_piece_def e0 js_slice_to_end)
  have e1: "chunk_end tx cs (cs - ov) = cs - ov + cs"
    using assms by (simp add: chunk_end_tail)
  have p1: "chunk_piece tx cs (cs - ov) = js_trim (drop (nat (cs - ov)) tx)"
    using assms by (simp add: chunk_piece_def e1 js_slice_to_end)
  show ?thesis
    using assms(5,6,7)
    by (simp add: chunkText_def chunk_loop_step [OF go0] e0 p0 chunk_loop_step [OF go1] e1 p1
        chunk_loop_stop)
qed

theorem chunkText_tail_witness:
  "chunkText (replicate 900 65) 1000 200 = Some [replicate 900 65, replicate 100 65]"
proof -
  have sp: "\<not> js_is_space 65" by (simp add: js_is_space_def)
  have t1: "js_trim (replicate 900 (65::cu)) = replicate 900 65"
    using sp by (simp add: js_trim_no_space)
  have t2: "js_trim (drop (nat (1000 - 200)) (replicate 900 (65::cu))) = replicate 100 65"
    using sp by (simp add: js_trim_no_space)
  show ?thesis
    using chunkText_tail [of 200 1000 "replicate 900 65"] t1 t2 by simp
qed

text \<open>C30: On a text with no period, no line break and no white space,
  every window advances by \<open>chunkSize - overlap\<close>, so the chunk count is the ceiling of
  the length over that stride; a 2500-unit text with the defaults gives four chunks.\<close>

theorem chunkText_plain_count:
  assumes "dot_cu \<notin> set tx" "\<forall>c\<in>set tx. \<not> js_is_space c" "0 \<le> ov" "ov < cs"
  shows "map_option length (chunkText tx cs ov) =
           Some (nat ((int (length tx) + (cs - ov) - 1) div (cs - ov)))"
proof -
  let ?W = "\<lambda>start. nat (chunk_windows tx (cs - ov) start)"
  have "\<exists>start' r. chunk_loop tx cs ov 0 [] = Some r \<and>
      (0 \<le> start' \<and> length r + ?W start' = ?W 0) \<and> int (length tx) \<le> start'"
  proof (rule chunk_loop_rule)
    fix start :: int and acc :: "jstr list"
    assume lt: "start < int (length tx)" and inv: "0 \<le> start \<and> length acc + ?W start = ?W 0"
    have cs: "0 < cs" using assms by simp
    show "start < chunk_end tx cs start - ov"
      using chunk_plain_end [OF assms(1,2) _ cs, of start] inv assms(4) by simp
    show "0 \<le> chunk_end tx cs start - ov \<and>
      length (if 0 < length (chunk_piece tx cs start) then acc @ [chunk_piece tx cs start] else acc)
        + ?W (chunk_end tx cs start - ov) = ?W 0"
      using chunk_plain_end [OF assms(1,2) _ cs, of start] chunk_plain_piece [OF assms(1,2) _ cs lt]
        chunk_windows_step [of "cs - ov" start tx] inv lt assms(3,4)
      by (simp add: algebra_simps)
  qed simp
  then obtain start' r where "chunk_loop tx cs ov 0 [] = Some r" "length r + ?W start' = ?W 0"
    "int (length tx) \<le> start'" by blast
  moreover have "?W start' = 0" using calculation(3) assms(4) by (simp add: chunk_windows_done)
  ultimately show ?thesis by (simp add: chunkText_def chunk_windows_def)
qed

theorem chunkText_plain_count_witness:
  "map_option length (chunkText_default (replicate 2500 65)) = Some 4"
proof -
  have "dot_cu \<notin> set (replicate 2500 (65::cu))" by (simp add: dot_cu_def)
  moreover have "\<forall>c\<in>set (replicate 2500 (65::cu)). \<not> js_is_space c"
    by (simp add: js_is_space_def)
  ultimately show ?thesis
    using chunkText_plain_count [of "replicate 2500 65" 200 1000]
    by (simp add: chunkText_default_def default_chunkSize_def default_chunkOverlap_def)
qed

end
