(* ===== verification/RAGService.thy ===== *)
theory RAGService
  imports AIService Chunker
begin

text \<open>
  The retrieval orchestrator, \<open>RAGService\<close> (src/backend/src/services/ragService.js):
  storing a document's chunks with their embeddings in the vector collection (one
  embedding call per chunk, in order, then \<open>insertMany\<close> in batches of 20), the
  tenant-scoped similarity search with its 0.7 threshold, the answer pipeline that feeds
  the retrieved context to \<open>AIService.generateResponse\<close>, chunk deletion and replacement
  for a document, per-company chunk statistics, and the tenant-agnostic analytics search.
  Each method is a function on the world of \<open>Externals\<close> and returns its thrown
  \<open>Error\<close> as \<open>Inl\<close>; every method rethrows any failure under its own message.
\<close>

subsection \<open>Storing chunks\<close>

definition chunk_id :: "jstr \<Rightarrow> nat \<Rightarrow> jstr" where
  "chunk_id d i = d @ js ''_chunk_'' @ js_of_nat i"

definition mk_vrecord :: "jstr \<Rightarrow> jstr \<Rightarrow> chunk_meta \<Rightarrow> nat \<Rightarrow> jstr \<Rightarrow> vec \<Rightarrow> nat \<Rightarrow> vrecord" where
  "mk_vrecord c d md i ch e t =
     \<lparr>v_id = chunk_id d i, v_content = ch, v_vector = e, v_company = c, v_document = d,
      v_chunk_index = i, v_meta = md, v_created_at = t, v_chunk_size = length ch\<rparr>"

text \<open>The \<open>for\<close> loop of lines 18--39: chunk \<open>i\<close> is embedded, then its record built
  (its \<open>created_at\<close> is read after the embedding call returns).\<close>

fun embed_chunks :: "ext \<Rightarrow> jstr \<Rightarrow> jstr \<Rightarrow> chunk_meta \<Rightarrow> nat \<Rightarrow> jstr list \<Rightarrow> vrecord list eff" where
  "embed_chunks X c d md i [] = returnE []"
| "embed_chunks X c d md i (ch # chs) =
     bindE (generateEmbeddings X ch)
       (\<lambda>e. bindE get_now
          (\<lambda>t. bindE (embed_chunks X c d md (Suc i) chs)
             (\<lambda>rs. returnE (mk_vrecord c d md i ch e t # rs))))"

definition batchSize :: nat where "batchSize = 20"

text \<open>The batch loop of lines 42--46, \<open>documents.slice(i, i + batchSize)\<close> per call.\<close>

function insert_batches :: "ext \<Rightarrow> vrecord list \<Rightarrow> nat \<Rightarrow> unit eff" where
  "insert_batches X docs i =
     (if i < length docs then
        bindE (vec_insertMany X (take batchSize (drop i docs))) (\<lambda>_. insert_batches X docs (i + batchSize))
      else returnE ())"
  by pat_completeness auto
termination
  by (relation "measure (\<lambda>(X, docs, i). length docs - i)") (auto simp: batchSize_def)

declare insert_batches.simps [simp del]

definition storeDocumentChunks :: "ext \<Rightarrow> jstr \<Rightarrow> jstr \<Rightarrow> jstr list \<Rightarrow> chunk_meta \<Rightarrow> nat eff" where
  "storeDocumentChunks X c d chunks md =
     rethrow (js ''Failed to store document chunks'')
       (bindE (embed_chunks X c d md 0 chunks)
          (\<lambda>docs. bindE (insert_batches X docs 0) (\<lambda>_. returnE (length docs))))"

subsection \<open>Search and answer\<close>

record rresult =
  rr_content :: jstr
  rr_similarity :: real
  rr_document :: jstr
  rr_meta :: chunk_meta
  rr_created_at :: nat
  rr_chunk_size :: nat

definition to_result :: "vrecord \<times> real \<Rightarrow> rresult" where
  "to_result p =
     \<lparr>rr_content = v_content (fst p), rr_similarity = snd p, rr_document = v_document (fst p),
      rr_meta = v_meta (fst p), rr_created_at = v_created_at (fst p),
      rr_chunk_size = v_chunk_size (fst p)\<rparr>"

definition similarity_threshold :: real where "similarity_threshold = 7 / 10"

definition searchRelevantContext :: "ext \<Rightarrow> jstr \<Rightarrow> jstr \<Rightarrow> nat \<Rightarrow> rresult list eff" where
  "searchRelevantContext X c q limit =
     rethrow (js ''Failed to search relevant context'')
       (bindE (generateEmbeddings X q)
          (\<lambda>qe. bindE (vec_findSimilar X (VCompany c) qe limit)
             (\<lambda>res. returnE (sort_key (\<lambda>r. - rr_similarity r)
                       (map to_result (filter (\<lambda>p. similarity_threshold < snd p) res))))))"

definition default_search_limit :: nat where "default_search_limit = 5"

record rag_answer =
  ra_response :: jstr
  ra_context :: "rresult list"
  ra_usage :: usage
  ra_model :: jstr
  ra_language :: jstr

definition user_msg :: "jstr \<Rightarrow> msg" where
  "user_msg q = \<lparr>m_role = js ''user'', m_content = q\<rparr>"

definition context_string :: "rresult list \<Rightarrow> jstr" where
  "context_string ctx = js_join (nl @ nl) (map rr_content ctx)"

definition generateRAGResponse ::
  "ext \<Rightarrow> jstr \<Rightarrow> jstr \<Rightarrow> jstr \<Rightarrow> jstr \<Rightarrow> msg list \<Rightarrow> rag_answer eff" where
  "generateRAGResponse X c q model language history =
     rethrow (js ''Failed to generate RAG response'')
       (bindE (searchRelevantContext X c q default_search_limit)
          (\<lambda>ctx. bindE (generateResponse X model (history @ [user_msg q]) (context_string ctx) language)
             (\<lambda>r. returnE \<lparr>ra_response = fst r, ra_context = ctx, ra_usage = snd r,
                            ra_model = model, ra_language = language\<rparr>)))"

subsection \<open>Deleting and replacing a document's chunks\<close>

definition deleteDocumentChunks :: "ext \<Rightarrow> jstr \<Rightarrow> jstr \<Rightarrow> nat eff" where
  "deleteDocumentChunks X c d =
     rethrow (js ''Failed to delete document chunks'') (vec_deleteMany X (VCompanyDoc c d))"

definition updateDocumentChunks :: "ext \<Rightarrow> jstr \<Rightarrow> jstr \<Rightarrow> jstr list \<Rightarrow> chunk_meta \<Rightarrow> nat eff" where
  "updateDocumentChunks X c d chunks md =
     rethrow (js ''Failed to update document chunks'')
       (bindE (deleteDocumentChunks X c d) (\<lambda>_. storeDocumentChunks X c d chunks md))"

subsection \<open>Chunk statistics and the analytics search\<close>

record doc_chunk_stats =
  ds_chunk_count :: nat
  ds_content_length :: nat
  ds_created_at :: nat

record chunk_stats =
  cs_total_chunks :: nat
  cs_documents :: "(jstr \<times> doc_chunk_stats) list"
  cs_total_content_length :: nat

text \<open>\<open>stats.documents\<close> as an association list in first-seen order (the order of a
  JavaScript object's non-numeric keys).\<close>

fun add_doc_stat :: "(jstr \<times> doc_chunk_stats) list \<Rightarrow> vrecord \<Rightarrow> (jstr \<times> doc_chunk_stats) list" where
  "add_doc_stat [] r =
     [(v_document r, \<lparr>ds_chunk_count = 1, ds_content_length = length (v_content r),
                       ds_created_at = v_created_at r\<rparr>)]"
| "add_doc_stat ((k, s) # ss) r =
     (if k = v_document r then
        (k, s\<lparr>ds_chunk_count := Suc (ds_chunk_count s),
              ds_content_length := ds_content_length s + length (v_content r)\<rparr>) # ss
      else (k, s) # add_doc_stat ss r)"

definition stats_limit :: nat where "stats_limit = 1000"

definition stats_filter :: "jstr \<Rightarrow> jstr option \<Rightarrow> vfilter" where
  "stats_filter c dopt =
     (case dopt of Some d \<Rightarrow> if d \<noteq> [] then VCompanyDoc c d else VCompany c | None \<Rightarrow> VCompany c)"

definition rag_getDocumentStats :: "ext \<Rightarrow> jstr \<Rightarrow> jstr option \<Rightarrow> chunk_stats eff" where
  "rag_getDocumentStats X c dopt =
     rethrow (js ''Failed to get document stats'')
       (bindE (vec_find X (stats_filter c dopt) stats_limit)
          (\<lambda>rs. returnE \<lparr>cs_total_chunks = length rs, cs_documents = foldl add_doc_stat [] rs,
                          cs_total_content_length = sum_list (map (\<lambda>r. length (v_content r)) rs)\<rparr>))"

definition searchSimilarQueries :: "ext \<Rightarrow> jstr \<Rightarrow> nat \<Rightarrow> (jstr \<times> real \<times> jstr \<times> jstr) list eff" where
  "searchSimilarQueries X q limit =
     rethrow (js ''Failed to search similar queries'')
       (bindE (generateEmbeddings X q)
          (\<lambda>qe. bindE (vec_findSimilar X VAll qe limit)
             (\<lambda>res. returnE (map (\<lambda>p. (v_content (fst p), snd p, v_company (fst p), v_document (fst p))) res))))"

subsection \<open>Fixtures and the abstract search specification\<close>

text \<open>What a search promises (specification, sections 4.3 and 8): among the company's
  chunks, those whose similarity exceeds the threshold, most similar first, at most
  \<open>limit\<close> of them.\<close>

definition search_spec :: "ext \<Rightarrow> vec \<Rightarrow> jstr \<Rightarrow> nat \<Rightarrow> world \<Rightarrow> rresult list" where
  "search_spec X qe c limit w =
     take limit (map to_result (filter (\<lambda>p. similarity_threshold < snd p) (ranked X qe (VCompany c) (w_vec w))))"

text \<open>A chunk metadata value and a world with one chunk for each of two companies.\<close>

definition meta0 :: chunk_meta where
  "meta0 = \<lparr>md_filename = js ''a.txt'', md_file_type = js ''txt'', md_file_url = None\<rparr>"

definition world1 :: world where
  "world1 = world0\<lparr>w_vec := [mk_vrecord (js ''acme'') (js ''d1'') meta0 0 (js ''hello'') [1] 0,
                             mk_vrecord (js ''beta'') (js ''d2'') meta0 0 (js ''other'') [1] 0]\<rparr>"

definition ext_embed_down :: ext where
  "ext_embed_down = ext_ok\<lparr>x_embed := (\<lambda>_ _. Inl (Error (js ''rate limited'')))\<rparr>"

subsection \<open>Helper lemmas\<close>

lemma filter_take_sorted:
  fixes xs :: "('a \<times> real) list"
  shows "sorted (map (\<lambda>p. - snd p) xs) \<Longrightarrow>
   filter (\<lambda>p. t < snd p) (take n xs) = take n (filter (\<lambda>p. t < snd p) xs)"
proof (induction xs arbitrary: n)
  case Nil
  then show ?case by simp
next
  case (Cons x xs)
  show ?case
  proof (cases "t < snd x")
    case True
    with Cons show ?thesis by (cases n) auto
  next
    case False
    have "\<forall>y\<in>set xs. - snd x \<le> - snd y" using Cons.prems by simp
    then have "\<forall>y\<in>set xs. snd y \<le> snd x" by simp
    with False have "\<forall>y\<in>set xs. \<not> t < snd y" by force
    then have "filter (\<lambda>p. t < snd p) xs = []" and "filter (\<lambda>p. t < snd p) (take m xs) = []" for m
      by (auto simp: filter_empty_conv dest: in_set_takeD)
    with False show ?thesis by (cases n) auto
  qed
qed

lemma sorted_ranked: "sorted (map (\<lambda>p. - snd p) (ranked X q f rs))"
  by (simp add: ranked_def)

lemma rr_similarity_to_result [simp]: "rr_similarity (to_result p) = snd p"
  by (simp add: to_result_def)

lemma search_result:
  assumes "searchRelevantContext X c q limit w = (Inr rs, w')"
  shows "\<exists>qe. x_embed X (now w) q = Inr qe \<and>
    rs = take limit (map to_result (filter (\<lambda>p. similarity_threshold < snd p)
                                     (ranked X qe (VCompany c) (w_vec w))))"
proof -
  obtain qe where qe: "x_embed X (now w) q = Inr qe" and
    res: "rs = sort_key (\<lambda>r. - rr_similarity r) (map to_result (filter (\<lambda>p. similarity_threshold < snd p)
             (take limit (ranked X qe (VCompany c) (w_vec w)))))"
    using assms
    by (auto simp: searchRelevantContext_def generateEmbeddings_def vec_findSimilar_def eff_simps
        ext_call_def store_call_def Let_def returnE_def split: sum.splits option.splits)
  let ?R = "ranked X qe (VCompany c) (w_vec w)"
  let ?P = "\<lambda>p. similarity_threshold < snd p"
  have eq: "filter ?P (take limit ?R) = take limit (filter ?P ?R)"
    by (rule filter_take_sorted [OF sorted_ranked])
  have "sorted (map (\<lambda>p. - snd p) (filter ?P (take limit ?R)))"
  proof -
    have "sorted (map (\<lambda>p. - snd p) (take limit ?R))"
      using sorted_ranked [of X qe "VCompany c" "w_vec w"] by (metis sorted_wrt_take take_map)
    then show ?thesis by (rule sorted_filter)
  qed
  then have "sorted (map (\<lambda>r. - rr_similarity r) (map to_result (filter ?P (take limit ?R))))"
    by (simp add: comp_def)
  then have "rs = map to_result (filter ?P (take limit ?R))"
    by (simp add: res sort_key_id_if_sorted)
  with eq qe show ?thesis by (auto simp: take_map)
qed

lemma embed_chunks_Cons_apply:
  "embed_chunks X c d md i (ch # chs) w =
     (let w1 = w\<lparr>w_log := w_log w @ [CEmbed ch]\<rparr> in
      case x_embed X (now w) ch of
        Inl _ \<Rightarrow> (Inl (Error (js ''Failed to generate embeddings'')), w1)
      | Inr e \<Rightarrow> (case embed_chunks X c d md (Suc i) chs w1 of
                  (Inl err, w2) \<Rightarrow> (Inl err, w2)
                | (Inr rs, w2) \<Rightarrow> (Inr (mk_vrecord c d md i ch e (now w1) # rs), w2)))"
  by (simp add: generateEmbeddings_def ext_call_def eff_simps returnE_def Let_def
      split: sum.splits prod.splits)

lemma read_only_embed_chunks: "read_only (embed_chunks X c d md i chs)"
  by (induction chs arbitrary: i) (simp_all add: generateEmbeddings_def frame_intros)

lemma embed_chunks_fails:
  "j < length chs \<Longrightarrow> x_embed X (now w + j) (chs ! j) = Inl e \<Longrightarrow>
   isl (fst (embed_chunks X c d md i chs w))"
proof (induction chs arbitrary: i j w)
  case Nil
  then show ?case by simp
next
  case (Cons ch chs)
  show ?case
  proof (cases "x_embed X (now w) ch")
    case (Inl e')
    then show ?thesis by (simp add: embed_chunks_Cons_apply Let_def del: embed_chunks.simps)
  next
    case (Inr v)
    with Cons.prems have "j \<noteq> 0" by (cases j) auto
    then obtain k where j: "j = Suc k" by (cases j) auto
    let ?w1 = "w\<lparr>w_log := w_log w @ [CEmbed ch]\<rparr>"
    have "isl (fst (embed_chunks X c d md (Suc i) chs ?w1))"
      using Cons.prems j by (intro Cons.IH) simp_all
    with Inr show ?thesis
      by (auto simp: embed_chunks_Cons_apply Let_def split: prod.splits sum.splits
          simp del: embed_chunks.simps)
  qed
qed

lemma embed_chunks_ok:
  "calls_succeed X (now w) \<Longrightarrow>
   \<exists>rs. embed_chunks X c d md i chs w = (Inr rs, w\<lparr>w_log := w_log w @ map CEmbed chs\<rparr>)
     \<and> map v_id rs = map (chunk_id d) [i..<i + length chs] \<and> map v_content rs = chs
     \<and> map v_chunk_index rs = [i..<i + length chs]
     \<and> (\<forall>r\<in>set rs. v_company r = c \<and> v_document r = d \<and> v_meta r = md)"
proof (induction chs arbitrary: i w)
  case Nil
  then show ?case by (simp add: returnE_def)
next
  case (Cons ch chs)
  have "\<not> isl (x_embed X (now w) ch)" using Cons.prems by (simp add: calls_succeed_def)
  then obtain v where v: "x_embed X (now w) ch = Inr v"
    by (cases "x_embed X (now w) ch") auto
  let ?w1 = "w\<lparr>w_log := w_log w @ [CEmbed ch]\<rparr>"
  have "calls_succeed X (now ?w1)" using Cons.prems calls_succeed_mono by simp
  then obtain rs where rs: "embed_chunks X c d md (Suc i) chs ?w1 = (Inr rs, ?w1\<lparr>w_log := w_log ?w1 @ map CEmbed chs\<rparr>)"
    and p: "map v_id rs = map (chunk_id d) [Suc i..<Suc i + length chs]" "map v_content rs = chs"
      "map v_chunk_index rs = [Suc i..<Suc i + length chs]"
      "\<forall>r\<in>set rs. v_company r = c \<and> v_document r = d \<and> v_meta r = md"
    using Cons.IH by blast
  have up: "[i..<i + length (ch # chs)] = i # [Suc i..<Suc i + length chs]"
    by (simp add: upt_rec)
  have run: "embed_chunks X c d md i (ch # chs) w =
      (Inr (mk_vrecord c d md i ch v (now ?w1) # rs), ?w1\<lparr>w_log := w_log ?w1 @ map CEmbed chs\<rparr>)"
    using v rs by (simp add: embed_chunks_Cons_apply Let_def del: embed_chunks.simps)
  show ?case
    using p unfolding up run by (simp add: mk_vrecord_def del: upt_Suc)
qed

lemma insert_batches_ok:
  "calls_succeed X (now w) \<Longrightarrow> distinct (map v_id (drop i docs)) \<Longrightarrow>
   (\<forall>r\<in>set (drop i docs). v_id r \<notin> vec_ids w) \<Longrightarrow>
   \<exists>w'. insert_batches X docs i w = (Inr (), w') \<and> w_vec w' = w_vec w @ drop i docs
      \<and> w_docs w' = w_docs w \<and> w_bucket w' = w_bucket w \<and> calls_succeed X (now w')"
proof (induction X docs i arbitrary: w rule: insert_batches.induct)
  case (1 X docs i)
  show ?case
  proof (cases "i < length docs")
    case False
    with "1.prems" show ?thesis by (simp add: insert_batches.simps [of X docs i] returnE_def)
  next
    case True
    let ?b = "take batchSize (drop i docs)"
    let ?r = "drop (i + batchSize) docs"
    have split: "drop i docs = ?b @ ?r"
      by (metis add.commute append_take_drop_id drop_drop)
    have dall: "distinct (map v_id (?b @ ?r))" using "1.prems"(2) by (simp only: split [symmetric])
    have fall: "\<forall>r\<in>set (?b @ ?r). v_id r \<notin> vec_ids w" using "1.prems"(3) by (simp only: split [symmetric])
    have nd: "x_down X (now w) = None" using "1.prems"(1) by (simp add: calls_succeed_def)
    have db: "distinct (map v_id ?b)" "\<forall>r\<in>set ?b. v_id r \<notin> vec_ids w"
      using dall fall by auto
    have ins: "insert_new (map v_id (w_vec w)) ?b = ?b"
      using db by (intro insert_new_fresh) (simp_all add: vec_ids_def)
    define w1 where "w1 = w\<lparr>w_log := w_log w @ [CVecInsert (map v_id ?b)], w_vec := w_vec w @ ?b\<rparr>"
    have step: "vec_insertMany X ?b w = (Inr (), w1)"
      using nd db ins by (simp add: vec_insertMany_def w1_def)
    have rest: "distinct (map v_id (drop (i + batchSize) docs))"
      "\<forall>r\<in>set (drop (i + batchSize) docs). v_id r \<notin> vec_ids w1"
      using dall fall by (auto simp: w1_def vec_ids_def)
    have "calls_succeed X (now w1)"
      using "1.prems"(1) by (simp add: w1_def now_def calls_succeed_def)
    with "1.IH" [OF True this rest] obtain w' where
      "insert_batches X docs (i + batchSize) w1 = (Inr (), w')"
      "w_vec w' = w_vec w1 @ drop (i + batchSize) docs" "w_docs w' = w_docs w1"
      "w_bucket w' = w_bucket w1" "calls_succeed X (now w')" by blast
    with step True split show ?thesis
      by (simp add: insert_batches.simps [of X docs i] eff_simps w1_def)
  qed
qed

lemma chunk_id_inj: "chunk_id d i = chunk_id d j \<longleftrightarrow> i = j"
  by (simp add: chunk_id_def js_of_nat_inj)

lemma distinct_chunk_ids: "distinct (map (chunk_id d) [i..<n])"
  by (simp add: distinct_map inj_on_def chunk_id_inj)

lemma vec_ids_log [simp]: "vec_ids (w\<lparr>w_log := l\<rparr>) = vec_ids w"
  by (simp add: vec_ids_def)

lemma search_run1:
  "\<exists>w'. searchRelevantContext ext_ok (js ''acme'') (js ''q'') 5 world1 =
     (Inr [to_result (mk_vrecord (js ''acme'') (js ''d1'') meta0 0 (js ''hello'') [1] 0, 1)], w')"
  by (simp add: searchRelevantContext_def generateEmbeddings_def vec_findSimilar_def eff_simps
      ext_call_def store_call_def ext_ok_def world1_def world0_def ranked_def similarity_threshold_def
      js_def mk_vrecord_def Let_def returnE_def)

lemma read_only_generateEmbeddings [frame_intros]: "read_only (generateEmbeddings X t)"
  by (simp add: generateEmbeddings_def frame_intros)

lemma read_only_generateResponse [frame_intros]: "read_only (generateResponse X m ms c l)"
  by (simp add: generateResponse_def dispatch_model_def generateOpenAIResponse_def
      generateGeminiResponse_def frame_intros)

lemma read_only_search [frame_intros]: "read_only (searchRelevantContext X c q limit)"
  by (simp add: searchRelevantContext_def vec_findSimilar_def frame_intros)

lemma log_grows_generateEmbeddings [frame_intros]: "log_grows (generateEmbeddings X t)"
  by (simp add: generateEmbeddings_def frame_intros)

lemma log_grows_generateResponse [frame_intros]: "log_grows (generateResponse X m ms c l)"
  by (simp add: generateResponse_def dispatch_model_def generateOpenAIResponse_def
      generateGeminiResponse_def frame_intros)

lemma log_grows_vec_insertMany [frame_intros]: "log_grows (vec_insertMany X rs)"
  by (auto simp: log_grows_def vec_insertMany_def Let_def split: option.splits)

lemma log_grows_embed_chunks [frame_intros]: "log_grows (embed_chunks X c d md i chs)"
  by (induction chs arbitrary: i) (simp_all add: frame_intros)

lemma log_grows_insert_batches [frame_intros]: "log_grows (insert_batches X docs i)"
  by (induction X docs i rule: insert_batches.induct) (subst insert_batches.simps, simp add: frame_intros)

lemma log_grows_storeDocumentChunks [frame_intros]: "log_grows (storeDocumentChunks X c d chunks md)"
  by (simp add: storeDocumentChunks_def frame_intros)

lemma prefix_bindE:
  "(\<And>a. log_grows (f a)) \<Longrightarrow> prefix (w_log (snd (m w))) (w_log (snd (bindE m f w)))"
  by (auto simp: bindE_def log_grows_def split: prod.splits sum.splits)

lemma snd_rethrow [simp]: "snd (rethrow msg m w) = snd (m w)"
  by (simp add: rethrow_apply split: prod.splits sum.splits)

lemma store_chunks_ok:
  assumes ok: "calls_succeed X (now w)"
    and fresh: "\<forall>r\<in>set (w_vec w). v_id r \<notin> set (map (chunk_id d) [0..<length chunks])"
  shows "\<exists>w' rs. storeDocumentChunks X c d chunks md w = (Inr (length chunks), w')
    \<and> w_vec w' = w_vec w @ rs \<and> map v_id rs = map (chunk_id d) [0..<length chunks]
    \<and> map v_content rs = chunks \<and> map v_chunk_index rs = [0..<length chunks]
    \<and> (\<forall>r\<in>set rs. v_company r = c \<and> v_document r = d \<and> v_meta r = md)
    \<and> w_docs w' = w_docs w \<and> w_bucket w' = w_bucket w"
proof -
  obtain rs where e: "embed_chunks X c d md 0 chunks w = (Inr rs, w\<lparr>w_log := w_log w @ map CEmbed chunks\<rparr>)"
    and p: "map v_id rs = map (chunk_id d) [0..<length chunks]" "map v_content rs = chunks"
      "map v_chunk_index rs = [0..<length chunks]"
      "\<forall>r\<in>set rs. v_company r = c \<and> v_document r = d \<and> v_meta r = md"
    using embed_chunks_ok [OF ok, of c d md 0 chunks] by auto
  let ?w1 = "w\<lparr>w_log := w_log w @ map CEmbed chunks\<rparr>"
  have ok1: "calls_succeed X (now ?w1)" using ok calls_succeed_mono by simp
  have d1: "distinct (map v_id (drop 0 rs))" using p(1) distinct_chunk_ids by simp
  have f1: "\<forall>r\<in>set (drop 0 rs). v_id r \<notin> vec_ids ?w1"
  proof
    fix r assume "r \<in> set (drop 0 rs)"
    then have "v_id r \<in> set (map v_id rs)" by simp
    then have "v_id r \<in> set (map (chunk_id d) [0..<length chunks])" by (simp only: p(1))
    then show "v_id r \<notin> vec_ids ?w1" using fresh by (force simp: vec_ids_def)
  qed
  obtain w' where b: "insert_batches X rs 0 ?w1 = (Inr (), w')" "w_vec w' = w_vec ?w1 @ rs"
    "w_docs w' = w_docs ?w1" "w_bucket w' = w_bucket ?w1"
    using insert_batches_ok [OF ok1 d1 f1] by auto
  have len: "length rs = length chunks" using p(2) by (metis length_map)
  have run: "storeDocumentChunks X c d chunks md w = (Inr (length chunks), w')"
    unfolding storeDocumentChunks_def rethrow_apply bindE_apply e
    by (simp add: b(1) returnE_def len)
  have "w_vec w' = w_vec w @ rs" "w_docs w' = w_docs w" "w_bucket w' = w_bucket w"
    using b(2-4) by simp_all
  with run p show ?thesis by (intro exI conjI) assumption+
qed


subsection \<open>Properties of the RAG service\<close>

text \<open>C3: A successful search returns exactly what the specification asks for: among the
  company's chunks ranked by similarity to the query's embedding, those above the 0.7
  threshold, at most \<open>limit\<close> of them. The store's top-\<open>limit\<close> cut comes before the
  threshold filter in the code; the two orders agree because the ranking is sorted, and
  the final JavaScript sort leaves the list unchanged.\<close>

theorem searchRelevantContext_refines:
  "searchRelevantContext X c q limit w = (Inr rs, w') \<Longrightarrow>
   \<exists>qe. x_embed X (now w) q = Inr qe \<and> rs = search_spec X qe c limit w"
  unfolding search_spec_def by (rule search_result)

theorem searchRelevantContext_refines_witness:
  "\<exists>qe rs w'. searchRelevantContext ext_ok (js ''acme'') (js ''q'') 5 world1 = (Inr rs, w')
     \<and> x_embed ext_ok (now world1) (js ''q'') = Inr qe \<and> rs = search_spec ext_ok qe (js ''acme'') 5 world1"
proof -
  obtain w' where run: "searchRelevantContext ext_ok (js ''acme'') (js ''q'') 5 world1 =
     (Inr [to_result (mk_vrecord (js ''acme'') (js ''d1'') meta0 0 (js ''hello'') [1] 0, 1)], w')"
    using search_run1 by blast
  show ?thesis using searchRelevantContext_refines [OF run] run by blast
qed

text \<open>C4: A successful search returns at most \<open>limit\<close> results, each strictly above the
  0.7 threshold (a chunk at exactly 0.7 is dropped), most similar first, and each taken
  from a chunk record of the querying company (tenant isolation).\<close>

theorem searchRelevantContext_sound:
  assumes "searchRelevantContext X c q limit w = (Inr rs, w')"
  shows "length rs \<le> limit \<and> (\<forall>r\<in>set rs. similarity_threshold < rr_similarity r)
    \<and> sorted (map (\<lambda>r. - rr_similarity r) rs)
    \<and> (\<forall>r\<in>set rs. \<exists>v\<in>set (w_vec w). v_company v = c \<and> v_document v = rr_document r
                                   \<and> v_content v = rr_content r)"
proof -
  obtain qe where rs: "rs = take limit (map to_result (filter (\<lambda>p. similarity_threshold < snd p)
                                     (ranked X qe (VCompany c) (w_vec w))))"
    using search_result [OF assms] by blast
  let ?F = "filter (\<lambda>p. similarity_threshold < snd p) (ranked X qe (VCompany c) (w_vec w))"
  have s: "sorted (map (\<lambda>r. - rr_similarity r) (map to_result ?F))"
    using sorted_filter [OF sorted_ranked [of X qe "VCompany c" "w_vec w"]] by (simp add: comp_def)
  have m: "\<forall>p\<in>set ?F. similarity_threshold < snd p \<and> fst p \<in> set (w_vec w) \<and> v_company (fst p) = c"
    by (auto simp: ranked_def)
  show ?thesis
  proof (intro conjI)
    show "length rs \<le> limit" by (simp add: rs)
    show "\<forall>r\<in>set rs. similarity_threshold < rr_similarity r"
      using m by (auto simp: rs dest!: in_set_takeD)
    show "sorted (map (\<lambda>r. - rr_similarity r) rs)"
      using s by (metis rs sorted_wrt_take take_map)
    show "\<forall>r\<in>set rs. \<exists>v\<in>set (w_vec w). v_company v = c \<and> v_document v = rr_document r
                                   \<and> v_content v = rr_content r"
      using m by (fastforce simp: rs to_result_def dest!: in_set_takeD)
  qed
qed

theorem searchRelevantContext_sound_witness:
  "\<exists>rs w'. searchRelevantContext ext_ok (js ''acme'') (js ''q'') 5 world1 = (Inr rs, w')
     \<and> length rs \<le> 5 \<and> (\<forall>r\<in>set rs. similarity_threshold < rr_similarity r)"
proof -
  obtain w' where run: "searchRelevantContext ext_ok (js ''acme'') (js ''q'') 5 world1 =
     (Inr [to_result (mk_vrecord (js ''acme'') (js ''d1'') meta0 0 (js ''hello'') [1] 0, 1)], w')"
    using search_run1 by blast
  show ?thesis using searchRelevantContext_sound [OF run] run by blast
qed

text \<open>C17: If the embedding request for any chunk fails, storing the chunks throws
  "Failed to store document chunks" and no store is changed: all embeddings are computed
  before the first insert.\<close>

theorem storeDocumentChunks_embed_failure:
  assumes "j < length chunks" "x_embed X (now w + j) (chunks ! j) = Inl e"
  shows "fst (storeDocumentChunks X c d chunks md w) = Inl (Error (js ''Failed to store document chunks''))
       \<and> same_stores w (snd (storeDocumentChunks X c d chunks md w))"
proof -
  obtain err w1 where run: "embed_chunks X c d md 0 chunks w = (Inl err, w1)"
    using embed_chunks_fails [OF assms, of c d md 0]
    by (cases "embed_chunks X c d md 0 chunks w") (auto simp: isl_def)
  have "same_stores w w1"
    using read_only_embed_chunks [of X c d md 0 chunks] run by (metis read_only_def snd_conv)
  with run show ?thesis by (simp add: storeDocumentChunks_def eff_simps)
qed

theorem storeDocumentChunks_embed_failure_witness:
  "fst (storeDocumentChunks ext_embed_down (js ''acme'') (js ''d1'') [js ''a''] meta0 world0) =
     Inl (Error (js ''Failed to store document chunks''))
   \<and> same_stores world0 (snd (storeDocumentChunks ext_embed_down (js ''acme'') (js ''d1'') [js ''a''] meta0 world0))"
  using storeDocumentChunks_embed_failure [where j = 0 and chunks = "[js ''a'']" and X = ext_embed_down
      and w = world0 and e = "Error (js ''rate limited'')"]
  by (simp add: ext_embed_down_def)

text \<open>C6: When every call succeeds and the chunk ids are fresh, storing \<open>n\<close> chunks
  returns \<open>n\<close> and appends exactly \<open>n\<close> records to the collection, in chunk order, with
  ids \<open>documentId_chunk_i\<close>, indices \<open>0..n-1\<close>, the chunk texts, the company, the
  document and the metadata: the batches of 20 together insert the whole list.\<close>

theorem storeDocumentChunks_stores:
  assumes "calls_succeed X (now w)"
    and "\<forall>r\<in>set (w_vec w). v_id r \<notin> set (map (chunk_id d) [0..<length chunks])"
  shows "\<exists>w' rs. storeDocumentChunks X c d chunks md w = (Inr (length chunks), w')
    \<and> w_vec w' = w_vec w @ rs \<and> map v_id rs = map (chunk_id d) [0..<length chunks]
    \<and> map v_content rs = chunks \<and> map v_chunk_index rs = [0..<length chunks]
    \<and> (\<forall>r\<in>set rs. v_company r = c \<and> v_document r = d \<and> v_meta r = md)
    \<and> w_docs w' = w_docs w \<and> w_bucket w' = w_bucket w"
  using assms by (rule store_chunks_ok)

theorem storeDocumentChunks_stores_witness:
  "\<exists>w' rs. storeDocumentChunks ext_ok (js ''acme'') (js ''d1'') [js ''a'', js ''b''] meta0 world0 =
     (Inr 2, w') \<and> w_vec w' = rs \<and> map v_content rs = [js ''a'', js ''b'']"
proof -
  have ok: "calls_succeed ext_ok (now world0)" by (simp add: calls_succeed_def ext_ok_def)
  have fr: "\<forall>r\<in>set (w_vec world0). v_id r \<notin> set (map (chunk_id (js ''d1'')) [0..<length [js ''a'', js ''b'']])"
    by (simp add: world0_def)
  show ?thesis
    using storeDocumentChunks_stores [OF ok fr, of "js ''acme''" meta0]
    by (auto simp: world0_def numeral_2_eq_2)
qed

text \<open>Replacing a document's chunks (delete, then store) leaves exactly the new chunks
  for that company and document, none of the old ones, and every other record as it was.\<close>

theorem updateDocumentChunks_replaces:
  assumes ok: "calls_succeed X (now w)"
    and fresh: "\<forall>r\<in>set (w_vec w). \<not> (v_company r = c \<and> v_document r = d) \<longrightarrow>
                   v_id r \<notin> set (map (chunk_id d) [0..<length chunks])"
  shows "\<exists>w'. updateDocumentChunks X c d chunks md w = (Inr (length chunks), w')
    \<and> map v_content (filter (vmatch (VCompanyDoc c d)) (w_vec w')) = chunks
    \<and> filter (\<lambda>r. \<not> vmatch (VCompanyDoc c d) r) (w_vec w') =
        filter (\<lambda>r. \<not> vmatch (VCompanyDoc c d) r) (w_vec w)"
proof -
  let ?keep = "filter (\<lambda>r. \<not> vmatch (VCompanyDoc c d) r) (w_vec w)"
  define w1 where "w1 = w\<lparr>w_log := w_log w @ [CVecDelete (VCompanyDoc c d)], w_vec := ?keep\<rparr>"
  have nd: "x_down X (now w) = None" using ok by (simp add: calls_succeed_def)
  have del: "deleteDocumentChunks X c d w = (Inr (length (filter (vmatch (VCompanyDoc c d)) (w_vec w))), w1)"
    using nd by (simp add: deleteDocumentChunks_def vec_deleteMany_def store_call_def Let_def
        eff_simps w1_def)
  have ok1: "calls_succeed X (now w1)" using ok by (simp add: w1_def now_def calls_succeed_def)
  have fresh1: "\<forall>r\<in>set (w_vec w1). v_id r \<notin> set (map (chunk_id d) [0..<length chunks])"
    using fresh by (auto simp: w1_def)
  obtain w' rs where s: "storeDocumentChunks X c d chunks md w1 = (Inr (length chunks), w')"
    "w_vec w' = w_vec w1 @ rs" "map v_content rs = chunks"
    "\<forall>r\<in>set rs. v_company r = c \<and> v_document r = d \<and> v_meta r = md"
    using store_chunks_ok [OF ok1 fresh1, of c md] by blast
  have "filter (vmatch (VCompanyDoc c d)) rs = rs" using s(4) by (simp add: filter_id_conv)
  moreover have "filter (\<lambda>r. \<not> vmatch (VCompanyDoc c d) r) rs = []"
    using s(4) by (simp add: filter_empty_conv)
  ultimately show ?thesis
    using del s by (simp add: updateDocumentChunks_def eff_simps w1_def filter_empty_conv)
qed

theorem updateDocumentChunks_replaces_witness:
  "\<exists>w'. updateDocumentChunks ext_ok (js ''acme'') (js ''d1'') [js ''n1'', js ''n2''] meta0 world1 = (Inr 2, w')
     \<and> map v_content (filter (vmatch (VCompanyDoc (js ''acme'') (js ''d1''))) (w_vec w')) = [js ''n1'', js ''n2'']"
proof -
  have ok: "calls_succeed ext_ok (now world1)" by (simp add: calls_succeed_def ext_ok_def)
  have fr: "\<forall>r\<in>set (w_vec world1). \<not> (v_company r = js ''acme'' \<and> v_document r = js ''d1'') \<longrightarrow>
      v_id r \<notin> set (map (chunk_id (js ''d1'')) [0..<length [js ''n1'', js ''n2'']])"
    by (simp add: world1_def world0_def mk_vrecord_def chunk_id_def js_def upt_rec)
  show ?thesis using updateDocumentChunks_replaces [OF ok fr, of meta0] by (auto simp: numeral_2_eq_2)
qed

text \<open>C18: Deleting a document's chunks never touches a record of another company or
  document; on success no record of that company and document remains; on failure the
  collection is unchanged; the registry and the bucket are never changed.\<close>

theorem deleteDocumentChunks_scoped:
  assumes that: "deleteDocumentChunks X c d w = (r, w')"
  shows "
   filter (\<lambda>v. \<not> (v_company v = c \<and> v_document v = d)) (w_vec w') =
     filter (\<lambda>v. \<not> (v_company v = c \<and> v_document v = d)) (w_vec w)
   \<and> (\<not> isl r \<longrightarrow> (\<forall>v\<in>set (w_vec w'). \<not> (v_company v = c \<and> v_document v = d)))
   \<and> (isl r \<longrightarrow> w_vec w' = w_vec w)
   \<and> w_docs w' = w_docs w \<and> w_bucket w' = w_bucket w"
proof (cases "x_down X (now w)")
  case None
  then show ?thesis
    using that by (auto simp: deleteDocumentChunks_def vec_deleteMany_def store_call_def Let_def rethrow_apply)
next
  case (Some e)
  then show ?thesis
    using that by (auto simp: deleteDocumentChunks_def vec_deleteMany_def store_call_def Let_def rethrow_apply)
qed

theorem deleteDocumentChunks_scoped_witness:
  "\<exists>r w'. deleteDocumentChunks ext_ok (js ''acme'') (js ''d1'') world1 = (r, w') \<and>
     filter (\<lambda>v. \<not> (v_company v = js ''acme'' \<and> v_document v = js ''d1'')) (w_vec w') =
     filter (\<lambda>v. \<not> (v_company v = js ''acme'' \<and> v_document v = js ''d1'')) (w_vec world1)"
proof -
  obtain r w' where run: "deleteDocumentChunks ext_ok (js ''acme'') (js ''d1'') world1 = (r, w')"
    by (cases "deleteDocumentChunks ext_ok (js ''acme'') (js ''d1'') world1") blast
  show ?thesis using deleteDocumentChunks_scoped [OF run] run by blast
qed

text \<open>C36: Answering a query changes no store, whatever the providers do: only the log of
  external calls grows.\<close>

theorem generateRAGResponse_read_only:
  "same_stores w (snd (generateRAGResponse X c q model language history w))"
proof -
  have "read_only (generateRAGResponse X c q model language history)"
    by (simp add: generateRAGResponse_def frame_intros)
  then show ?thesis by (simp add: read_only_def)
qed

text \<open>C37: An unsupported model name makes the answer fail with "Failed to generate RAG
  response" (no typed UnsupportedModelError), and only after the query has been sent to
  the embedding provider: the first external call is the query's embedding.\<close>

theorem generateRAGResponse_unsupported:
  assumes "\<not> js_startsWith model (js ''gpt'')" "model \<noteq> js ''gemini-pro''"
  shows "fst (generateRAGResponse X c q model language history w) =
           Inl (Error (js ''Failed to generate RAG response''))
     \<and> take (Suc (now w)) (w_log (snd (generateRAGResponse X c q model language history w))) =
           w_log w @ [CEmbed q]"
proof
  show "fst (generateRAGResponse X c q model language history w) =
          Inl (Error (js ''Failed to generate RAG response''))"
    using assms
    by (simp add: generateRAGResponse_def generateResponse_def dispatch_model_def eff_simps
        throwE_def split: prod.splits sum.splits)
next
  let ?S = "searchRelevantContext X c q default_search_limit"
  let ?E = "generateEmbeddings X q"
  have e: "w_log (snd (?E w)) = w_log w @ [CEmbed q]"
    by (simp add: generateEmbeddings_def ext_call_def)
  have p1: "prefix (w_log (snd (?E w))) (w_log (snd (?S w)))"
    unfolding searchRelevantContext_def snd_rethrow
    by (rule prefix_bindE) (simp add: vec_findSimilar_def frame_intros)
  have p2: "prefix (w_log (snd (?S w))) (w_log (snd (generateRAGResponse X c q model language history w)))"
    unfolding generateRAGResponse_def snd_rethrow
    by (rule prefix_bindE) (simp add: frame_intros)
  from p1 p2 e have "prefix (w_log w @ [CEmbed q]) (w_log (snd (generateRAGResponse X c q model language history w)))"
    by (metis prefix_order.trans)
  then show "take (Suc (now w)) (w_log (snd (generateRAGResponse X c q model language history w))) =
           w_log w @ [CEmbed q]"
    by (auto simp: prefix_def now_def)
qed


theorem generateRAGResponse_unsupported_witness:
  "fst (generateRAGResponse ext_ok (js ''acme'') (js ''q'') (js ''foo-bar'') (js ''en'') [] world0) =
     Inl (Error (js ''Failed to generate RAG response''))
   \<and> take 1 (w_log (snd (generateRAGResponse ext_ok (js ''acme'') (js ''q'') (js ''foo-bar'') (js ''en'') [] world0)))
       = [CEmbed (js ''q'')]"
  using generateRAGResponse_unsupported [of "js ''foo-bar''" ext_ok "js ''acme''" "js ''q''" "js ''en''" "[]" world0]
  by (simp add: js_startsWith_def js_def world0_def now_def)
end
