(* ===== verification/DocumentService.thy ===== *)
theory DocumentService
  imports RAGService
begin

text \<open>
  The ingestion pipeline, \<open>DocumentService\<close> (src/backend/src/services/documentService.js):
  file validation, text extraction, the registry row, the upload to the bucket, and the
  composed operations \<open>processDocument\<close>, \<open>getDocuments\<close>, \<open>deleteDocument\<close>,
  \<open>getDocumentStats\<close> and \<open>reprocessDocument\<close>, which call the RAG service for the
  chunks. The instance state is the record \<open>doc_service\<close> (the constructor's
  \<open>allowedTypes\<close> and \<open>maxFileSize\<close>). Node's \<open>path.extname\<close> is translated from
  its loop, since the file type the whole pipeline relies on is computed by it.
\<close>

subsection \<open>The service instance and the uploaded file\<close>

record doc_service =
  allowedTypes :: "jstr list"
  maxFileSize :: int

definition default_maxFileSize :: int where
  "default_maxFileSize = 10 * 1024 * 1024"

text \<open>The constructor: \<open>parseInt(process.env.MAX_FILE_SIZE) || 10 * 1024 * 1024\<close>. The
  argument is the value \<open>parseInt\<close> reads, \<open>None\<close> for \<open>NaN\<close> (variable unset or not a
  number); \<open>0\<close> and \<open>NaN\<close> are falsy and give the default.\<close>

definition docservice_new :: "int option \<Rightarrow> doc_service" where
  "docservice_new env =
     \<lparr>allowedTypes = [js ''pdf'', js ''docx'', js ''txt''],
      maxFileSize = (case env of Some n \<Rightarrow> if n = 0 then default_maxFileSize else n
                                | None \<Rightarrow> default_maxFileSize)\<rparr>"

text \<open>The multer file object the routes pass in.\<close>

record upload_file =
  f_originalname :: jstr
  f_size :: nat
  f_buffer :: bytes
  f_mimetype :: jstr

subsection \<open>File names and types\<close>

definition slash_cu :: cu where "slash_cu = 47"

text \<open>Node's \<open>path.posix.extname\<close>, its backward scan written out: \<open>sd\<close> is
  \<open>startDot\<close>, \<open>sp\<close> \<open>startPart\<close>, \<open>e\<close> \<open>end\<close>, \<open>ms\<close> \<open>matchedSlash\<close> and
  \<open>pds\<close> \<open>preDotState\<close>; the scan visits the indices below \<open>k\<close> from the top and stops
  at the first slash before the last component.\<close>

primrec extname_scan :: "jstr \<Rightarrow> nat \<Rightarrow> int \<Rightarrow> nat \<Rightarrow> int \<Rightarrow> bool \<Rightarrow> int \<Rightarrow> int \<times> nat \<times> int \<times> int" where
  "extname_scan p 0 sd sp e ms pds = (sd, sp, e, pds)"
| "extname_scan p (Suc i) sd sp e ms pds =
     (if p ! i = slash_cu then
        (if \<not> ms then (sd, Suc i, e, pds) else extname_scan p i sd sp e ms pds)
      else
        (let e' = (if e = -1 then int (Suc i) else e); ms' = (if e = -1 then False else ms) in
         if p ! i = dot_cu then
           (if sd = -1 then extname_scan p i (int i) sp e' ms' pds
            else extname_scan p i sd sp e' ms' (if pds \<noteq> 1 then 1 else pds))
         else extname_scan p i sd sp e' ms' (if sd \<noteq> -1 then -1 else pds)))"

definition node_extname :: "jstr \<Rightarrow> jstr" where
  "node_extname p =
     (case extname_scan p (length p) (-1) 0 (-1) True 0 of
        (sd, sp, e, pds) \<Rightarrow>
          if sd = -1 \<or> e = -1 \<or> pds = 0 \<or> (pds = 1 \<and> sd = e - 1 \<and> sd = int sp + 1) then []
          else js_slice p sd e)"

definition getFileExtension :: "jstr \<Rightarrow> jstr" where
  "getFileExtension filename = js_substring_from (js_toLowerCase (node_extname filename)) 1"

text \<open>\<open>mimeTypes[extension] || 'application/octet-stream'\<close>: a plain object lookup, so
  an \<open>Object.prototype\<close> name finds the inherited member (printed as its source text).\<close>

definition mime_table :: "(jstr \<times> jstr) list" where
  "mime_table =
     [(js ''pdf'', js ''application/pdf''),
      (js ''docx'', js ''application/vnd.openxmlformats-officedocument.wordprocessingml.document''),
      (js ''txt'', js ''text/plain'')]"

definition getMimeType :: "jstr \<Rightarrow> jstr" where
  "getMimeType ext =
     (case map_of mime_table ext of
        Some m \<Rightarrow> m
      | None \<Rightarrow> (case object_proto_value ext of Some v \<Rightarrow> v | None \<Rightarrow> js ''application/octet-stream''))"

subsection \<open>Validation\<close>

text \<open>The text of \<open>maxFileSize / 1024 / 1024\<close> in the size message: the exact decimal
  expansion of the quotient (a multiple of \<open>2^-20\<close>, so at most twenty fraction digits).
  For a whole number of megabytes, the default included, this is JavaScript's text; for
  other limits JavaScript prints the shortest decimal that reads back to the same double,
  which is this expansion whenever it has at most 15 significant digits.\<close>

definition mb_text :: "int \<Rightarrow> jstr" where
  "mb_text n =
     (let a = nat \<bar>n\<bar>; q = a div 1048576; r = a mod 1048576;
          ds = js_of_nat (r * 5 ^ 20);
          fr = rev (dropWhile (\<lambda>c. c = 48) (rev (replicate (20 - length ds) 48 @ ds)))
      in (if n < 0 then [45] else []) @ js_of_nat q @ (if r = 0 then [] else 46 # fr))"

definition size_error :: "doc_service \<Rightarrow> error" where
  "size_error S = Error (js ''File size exceeds maximum limit of '' @ mb_text (maxFileSize S) @ js ''MB'')"

definition type_error :: "doc_service \<Rightarrow> jstr \<Rightarrow> error" where
  "type_error S e =
     Error (js ''File type '' @ e @ js '' not supported. Allowed types: '' @ js_join (js '', '') (allowedTypes S))"

definition validateFile :: "doc_service \<Rightarrow> upload_file option \<Rightarrow> unit eff" where
  "validateFile S fo =
     (case fo of
        None \<Rightarrow> throwE (Error (js ''No file provided''))
      | Some f \<Rightarrow>
          if maxFileSize S < int (f_size f) then throwE (size_error S)
          else (let e = getFileExtension (f_originalname f) in
                if e \<notin> set (allowedTypes S) then throwE (type_error S e) else returnE ()))"

subsection \<open>Text extraction\<close>

text \<open>\<open>extractFromPDF\<close>: the extractor's callback error rejects the promise, which the
  method's own \<open>try\<close> catches, so every PDF failure ends as \<open>PDF parsing failed\<close>.\<close>

definition extractFromPDF :: "ext \<Rightarrow> bytes \<Rightarrow> jstr eff" where
  "extractFromPDF X buf =
     rethrow (js ''PDF parsing failed'')
       (bindE (ext_call (CExtract (js ''pdf'')) (\<lambda>i. x_pdf X i buf)) (\<lambda>pages. returnE (js_join nl pages)))"

definition extractFromDOCX :: "ext \<Rightarrow> bytes \<Rightarrow> jstr eff" where
  "extractFromDOCX X buf =
     rethrow (js ''Failed to extract text from DOCX'') (ext_call (CExtract (js ''docx'')) (\<lambda>i. x_docx X i buf))"

definition extractText :: "ext \<Rightarrow> upload_file \<Rightarrow> jstr eff" where
  "extractText X f =
     (let e = getFileExtension (f_originalname f) in
      if e = js ''pdf'' then extractFromPDF X (f_buffer f)
      else if e = js ''docx'' then extractFromDOCX X (f_buffer f)
      else if e = js ''txt'' then returnE (x_utf8 X (f_buffer f))
      else throwE (Error (js ''Unsupported file type: '' @ e)))"

subsection \<open>Registry and bucket\<close>

definition new_row :: "jstr \<Rightarrow> jstr \<Rightarrow> jstr \<Rightarrow> jstr \<Rightarrow> nat \<Rightarrow> nat \<Rightarrow> jstr \<Rightarrow> nat \<Rightarrow> doc_row" where
  "new_row c u fn ft sz cl i t =
     \<lparr>d_id = i, d_company = c, d_user = u, d_filename = fn, d_file_type = ft, d_file_size = sz,
      d_content_length = cl, d_status = Processing, d_chunk_count = None, d_file_url = None,
      d_created_at = t, d_updated_at = t\<rparr>"

definition storeDocumentMetadata ::
  "ext \<Rightarrow> jstr \<Rightarrow> jstr \<Rightarrow> jstr \<Rightarrow> jstr \<Rightarrow> nat \<Rightarrow> nat \<Rightarrow> doc_row eff" where
  "storeDocumentMetadata X c u fn ft sz cl =
     rethrow (js ''Failed to store document metadata'') (db_insert X (new_row c u fn ft sz cl))"

definition storage_key :: "jstr \<Rightarrow> jstr \<Rightarrow> jstr \<Rightarrow> jstr" where
  "storage_key c d fn = c @ js ''/'' @ d @ js ''/'' @ fn"

text \<open>\<open>getPublicUrl\<close> builds the URL locally; it makes no request.\<close>

definition uploadToStorage :: "ext \<Rightarrow> upload_file \<Rightarrow> jstr \<Rightarrow> jstr \<Rightarrow> jstr eff" where
  "uploadToStorage X f c d =
     rethrow (js ''Failed to upload file to storage'')
       (bindE (blob_upload X (storage_key c d (f_originalname f)) (f_buffer f))
          (\<lambda>_. returnE (x_url X (storage_key c d (f_originalname f)))))"

text \<open>\<open>updateDocumentStatus(id, status, additionalData)\<close>: \<open>add\<close> writes the extra
  columns. The update is filtered by the id alone.\<close>

definition updateDocumentStatus :: "ext \<Rightarrow> jstr \<Rightarrow> status \<Rightarrow> (doc_row \<Rightarrow> doc_row) \<Rightarrow> doc_row eff" where
  "updateDocumentStatus X i st add =
     rethrow (js ''Failed to update document status'') (db_update X i st add)"

subsection \<open>The composed operations\<close>

text \<open>\<open>ragService.chunkText(extractedText)\<close> with the constructor's defaults; the loop
  returns on every text with these defaults (the termination theorem of \<open>Chunker\<close>), so this is the
  loop's result.\<close>

definition ragChunk :: "jstr \<Rightarrow> jstr list" where
  "ragChunk tx = the (chunkText_default tx)"

record processed_doc =
  pd_id :: jstr
  pd_filename :: jstr
  pd_status :: status
  pd_chunk_count :: nat
  pd_content_length :: nat
  pd_file_url :: jstr

definition file_meta :: "upload_file \<Rightarrow> jstr \<Rightarrow> chunk_meta" where
  "file_meta f url =
     \<lparr>md_filename = f_originalname f, md_file_type = getFileExtension (f_originalname f),
      md_file_url = Some url\<rparr>"

text \<open>The body of \<open>processDocument\<close> after \<open>validateFile\<close>.\<close>

definition process_steps :: "ext \<Rightarrow> upload_file \<Rightarrow> jstr \<Rightarrow> jstr \<Rightarrow> processed_doc eff" where
  "process_steps X f c u =
     bindE (extractText X f) (\<lambda>tx.
     bindE (storeDocumentMetadata X c u (f_originalname f) (getFileExtension (f_originalname f))
              (f_size f) (length tx)) (\<lambda>row.
     bindE (uploadToStorage X f c (d_id row)) (\<lambda>url.
     (let chunks = ragChunk tx in
      bindE (storeDocumentChunks X c (d_id row) chunks (file_meta f url)) (\<lambda>_.
      bindE (updateDocumentStatus X (d_id row) Processed
               (\<lambda>r. r\<lparr>d_chunk_count := Some (length chunks), d_file_url := Some url\<rparr>)) (\<lambda>_.
      returnE \<lparr>pd_id = d_id row, pd_filename = f_originalname f, pd_status = Processed,
               pd_chunk_count = length chunks, pd_content_length = length tx, pd_file_url = url\<rparr>))))))"

definition processDocument ::
  "doc_service \<Rightarrow> ext \<Rightarrow> upload_file option \<Rightarrow> jstr \<Rightarrow> jstr \<Rightarrow> processed_doc eff" where
  "processDocument S X fo c u =
     catchE (bindE (validateFile S fo) (\<lambda>_. process_steps X (the fo) c u))
       (\<lambda>e. throwE (Error (js ''Failed to process document: '' @ err_msg e)))"

definition getDocuments :: "ext \<Rightarrow> jstr \<Rightarrow> nat \<Rightarrow> nat \<Rightarrow> doc_row list eff" where
  "getDocuments X c limit offset = rethrow (js ''Failed to get documents'') (db_page X c offset limit)"

definition deleteDocument :: "ext \<Rightarrow> jstr \<Rightarrow> jstr \<Rightarrow> bool eff" where
  "deleteDocument X d c =
     rethrow (js ''Failed to delete document'')
       (bindE (deleteDocumentChunks X c d) (\<lambda>_.
        bindE (attempt (db_select_one X d c)) (\<lambda>doc.
        bindE (case doc of
                 Some r \<Rightarrow> bindE (attempt (blob_remove X (storage_key c d (d_filename r)))) (\<lambda>_. returnE ())
               | None \<Rightarrow> returnE ()) (\<lambda>_.
        bindE (db_delete X d c) (\<lambda>_. returnE True)))))"

record doc_stats =
  total_documents :: nat
  processed_documents :: nat
  processing_documents :: nat
  failed_documents :: nat
  total_size :: nat
  total_chunks :: nat

definition count_status :: "status \<Rightarrow> doc_row list \<Rightarrow> nat" where
  "count_status st rows = length (filter (\<lambda>d. d_status d = st) rows)"

definition stats_of :: "doc_row list \<Rightarrow> doc_stats" where
  "stats_of rows =
     \<lparr>total_documents = length rows,
      processed_documents = count_status Processed rows,
      processing_documents = count_status Processing rows,
      failed_documents = count_status Failed rows,
      total_size = foldl (\<lambda>s d. s + d_file_size d) 0 rows,
      total_chunks = foldl (\<lambda>s d. s + (case d_chunk_count d of Some n \<Rightarrow> n | None \<Rightarrow> 0)) 0 rows\<rparr>"

definition getDocumentStats :: "ext \<Rightarrow> jstr \<Rightarrow> doc_stats eff" where
  "getDocumentStats X c =
     rethrow (js ''Failed to get document stats'') (bindE (db_list X c) (\<lambda>rows. returnE (stats_of rows)))"

definition reprocess_meta :: "doc_row \<Rightarrow> chunk_meta" where
  "reprocess_meta doc =
     \<lparr>md_filename = d_filename doc, md_file_type = d_file_type doc, md_file_url = d_file_url doc\<rparr>"

definition reprocess_file :: "doc_row \<Rightarrow> bytes \<Rightarrow> upload_file" where
  "reprocess_file doc b =
     \<lparr>f_originalname = d_filename doc, f_size = d_file_size doc, f_buffer = b,
      f_mimetype = getMimeType (d_file_type doc)\<rparr>"

text \<open>The \<open>try\<close> block of \<open>reprocessDocument\<close>.\<close>

definition reprocess_steps :: "ext \<Rightarrow> jstr \<Rightarrow> jstr \<Rightarrow> bool eff" where
  "reprocess_steps X d c =
     bindE (db_select_one X d c) (\<lambda>doc.
     bindE (blob_download X (storage_key c d (d_filename doc))) (\<lambda>b.
     bindE (extractText X (reprocess_file doc b)) (\<lambda>tx.
     bindE (updateDocumentStatus X d Processing id) (\<lambda>_.
     bindE (deleteDocumentChunks X c d) (\<lambda>_.
     (let chunks = ragChunk tx in
      bindE (storeDocumentChunks X c d chunks (reprocess_meta doc)) (\<lambda>_.
      bindE (updateDocumentStatus X d Processed
               (\<lambda>r. r\<lparr>d_chunk_count := Some (length chunks), d_content_length := length tx\<rparr>)) (\<lambda>_.
      returnE True))))))))"

text \<open>The \<open>catch\<close> block awaits \<open>updateDocumentStatus(documentId, 'failed')\<close> before
  throwing: if that update fails, its own error is what the caller sees.\<close>

definition reprocessDocument :: "ext \<Rightarrow> jstr \<Rightarrow> jstr \<Rightarrow> bool eff" where
  "reprocessDocument X d c =
     catchE (reprocess_steps X d c)
       (\<lambda>_. bindE (updateDocumentStatus X d Failed id) (\<lambda>_. throwE (Error (js ''Failed to reprocess document''))))"

subsection \<open>Status updates and fixtures\<close>

text \<open>The row update \<open>updateDocumentStatus\<close> applies: the row with the id gets the
  status, the timestamp and the extra columns.\<close>

definition set_status :: "jstr \<Rightarrow> status \<Rightarrow> nat \<Rightarrow> (doc_row \<Rightarrow> doc_row) \<Rightarrow> doc_row \<Rightarrow> doc_row" where
  "set_status i st t add x = (if d_id x = i then add (x\<lparr>d_status := st, d_updated_at := t\<rparr>) else x)"

text \<open>Fixtures for concrete runs: a registry with a processed text document \<open>d1\<close> (two
  chunks) and a processed PDF \<open>d3\<close> of company \<open>acme\<close>, their files in the bucket, an
  oracle whose PDF extractor fails, and an uploaded text file.\<close>

definition bytes_hello :: bytes where "bytes_hello = [104, 101, 108, 108, 111]"

definition row_d1 :: doc_row where
  "row_d1 = \<lparr>d_id = js ''d1'', d_company = js ''acme'', d_user = js ''u1'', d_filename = js ''a.txt'',
     d_file_type = js ''txt'', d_file_size = 5, d_content_length = 5, d_status = Processed,
     d_chunk_count = Some 2, d_file_url = Some (js ''https://store/acme/d1/a.txt''),
     d_created_at = 0, d_updated_at = 0\<rparr>"

definition row_d3 :: doc_row where
  "row_d3 = row_d1\<lparr>d_id := js ''d3'', d_filename := js ''b.pdf'', d_file_type := js ''pdf'', d_chunk_count := Some 0\<rparr>"

definition world2 :: world where
  "world2 = \<lparr>w_vec = [mk_vrecord (js ''acme'') (js ''d1'') meta0 0 (js ''old0'') [1] 0,
                      mk_vrecord (js ''acme'') (js ''d1'') meta0 1 (js ''old1'') [1] 0],
             w_docs = [row_d1, row_d3],
             w_bucket = [storage_key (js ''acme'') (js ''d1'') (js ''a.txt'') \<mapsto> bytes_hello,
                         storage_key (js ''acme'') (js ''d3'') (js ''b.pdf'') \<mapsto> bytes_hello],
             w_log = []\<rparr>"

definition ext_pdf_down :: ext where
  "ext_pdf_down = ext_ok\<lparr>x_pdf := (\<lambda>_ _. Inl (Error (js ''bad xref table'')))\<rparr>"

definition file_txt :: upload_file where
  "file_txt = \<lparr>f_originalname = js ''a.txt'', f_size = 5, f_buffer = bytes_hello, f_mimetype = js ''text/plain''\<rparr>"

subsection \<open>Lemmas: file names and validation\<close>


lemma extname_scan_plain:
  assumes "k \<le> length p" "i \<le> k" "\<forall>j. i \<le> j \<and> j < k \<longrightarrow> p ! j \<noteq> slash_cu \<and> p ! j \<noteq> dot_cu"
  shows "extname_scan p k (-1) sp e ms pds =
    extname_scan p i (-1) sp (if e = -1 \<and> i < k then int k else e) (if e = -1 \<and> i < k then False else ms) pds"
  using assms
proof (induction k arbitrary: e ms)
  case 0
  then show ?case by simp
next
  case (Suc k)
  show ?case
  proof (cases "i = Suc k")
    case True
    then show ?thesis by simp
  next
    case False
    with Suc.prems have ik: "i \<le> k" and nd: "p ! k \<noteq> slash_cu" "p ! k \<noteq> dot_cu" by auto
    have "extname_scan p (Suc k) (-1) sp e ms pds =
        extname_scan p k (-1) sp (if e = -1 then int (Suc k) else e) (if e = -1 then False else ms) pds"
      using nd by (simp add: Let_def)
    also have "\<dots> = extname_scan p i (-1) sp (if e = -1 \<and> i < Suc k then int (Suc k) else e)
        (if e = -1 \<and> i < Suc k then False else ms) pds"
      using Suc.IH [of "if e = -1 then int (Suc k) else e" "if e = -1 then False else ms"] Suc.prems ik
      by (cases "i < k") auto
    finally show ?thesis .
  qed
qed

lemma extname_scan_name:
  assumes "k \<le> length p" "sd \<noteq> -1" "e \<noteq> -1" "\<forall>j<k. p ! j \<noteq> slash_cu"
  shows "\<exists>pds'. extname_scan p k sd sp e False pds = (sd, sp, e, pds') \<and> (0 < k \<or> pds \<noteq> 0 \<longrightarrow> pds' \<noteq> 0)"
  using assms
proof (induction k arbitrary: pds)
  case 0
  then show ?case by simp
next
  case (Suc k)
  have ns: "p ! k \<noteq> slash_cu" using Suc.prems by simp
  let ?q = "if p ! k = dot_cu then (if pds \<noteq> 1 then 1 else pds) else -1"
  have step: "extname_scan p (Suc k) sd sp e False pds = extname_scan p k sd sp e False ?q"
    using ns Suc.prems(2,3) by (simp add: Let_def)
  obtain pds' where "extname_scan p k sd sp e False ?q = (sd, sp, e, pds')" "0 < k \<or> ?q \<noteq> 0 \<longrightarrow> pds' \<noteq> 0"
    using Suc.IH [of ?q] Suc.prems by auto
  moreover have "?q \<noteq> 0" by auto
  ultimately show ?case using step by auto
qed

lemma getFileExtension_split:
  assumes "name \<noteq> []" "ext \<noteq> []" "slash_cu \<notin> set name" "slash_cu \<notin> set ext" "dot_cu \<notin> set ext"
  shows "getFileExtension (name @ dot_cu # ext) = js_toLowerCase ext"
proof -
  let ?p = "name @ dot_cu # ext"
  let ?n = "length name"
  have pl: "length ?p = Suc ?n + length ext" by simp
  have "\<forall>j. Suc ?n \<le> j \<and> j < length ?p \<longrightarrow> ?p ! j \<noteq> slash_cu \<and> ?p ! j \<noteq> dot_cu"
  proof (intro allI impI)
    fix j assume j: "Suc ?n \<le> j \<and> j < length ?p"
    then have "?p ! j = ext ! (j - Suc ?n)" by (simp add: nth_append)
    moreover have "j - Suc ?n < length ext" using j pl by linarith
    ultimately show "?p ! j \<noteq> slash_cu \<and> ?p ! j \<noteq> dot_cu" using assms(4,5) nth_mem by metis
  qed
  then have s1: "extname_scan ?p (length ?p) (-1) 0 (-1) True 0 =
      extname_scan ?p (Suc ?n) (-1) 0 (int (length ?p)) False 0"
    using extname_scan_plain [of "length ?p" ?p "Suc ?n" 0 "-1" True 0] assms(2) by simp
  have dotp: "?p ! ?n = dot_cu" "dot_cu \<noteq> slash_cu" by (simp_all add: nth_append dot_cu_def slash_cu_def)
  have s2: "extname_scan ?p (Suc ?n) (-1) 0 (int (length ?p)) False 0 =
      extname_scan ?p ?n (int ?n) 0 (int (length ?p)) False 0"
    using dotp by (simp add: Let_def)
  have "\<forall>j<?n. ?p ! j \<noteq> slash_cu" using assms(3) by (auto simp: nth_append dest: nth_mem)
  then obtain pds' where s3: "extname_scan ?p ?n (int ?n) 0 (int (length ?p)) False 0 = (int ?n, 0, int (length ?p), pds')"
    and nz: "pds' \<noteq> 0"
    using extname_scan_name [of ?n ?p "int ?n" "int (length ?p)" 0 0] assms(1) by auto
  have "node_extname ?p = js_slice ?p (int ?n) (int (length ?p))"
    using s1 s2 s3 nz assms(2) by (simp add: node_extname_def)
  also have "\<dots> = dot_cu # ext" by (simp add: js_slice_to_end)
  finally show ?thesis
    by (simp add: getFileExtension_def js_toLowerCase_def js_substring_from_def js_lower_cu_def dot_cu_def)
qed

lemma validateFile_world [simp]: "snd (validateFile S fo w) = w"
  by (simp add: validateFile_def throwE_def returnE_def Let_def split: option.splits)

lemma validateFile_ok: "fst (validateFile S fo w) = Inr () \<Longrightarrow> validateFile S fo w = (Inr (), w)"
  by (metis prod.collapse validateFile_world)

lemma js_ext_distinct [simp]:
  "js ''txt'' \<noteq> js ''pdf''" "js ''txt'' \<noteq> js ''docx''" "js ''pdf'' \<noteq> js ''docx''"
  "js ''pdf'' \<noteq> js ''txt''" "js ''docx'' \<noteq> js ''txt''" "js ''docx'' \<noteq> js ''pdf''"
  by (simp_all add: js_def)

lemma mb_text_default: "mb_text default_maxFileSize = js ''10''"
  by (simp add: mb_text_def default_maxFileSize_def js_of_nat.simps js_def)


subsection \<open>Lemmas: the store steps of the pipeline\<close>

lemma filter_id_company:
  "filter (\<lambda>x. d_id x = d) rows = [r] \<Longrightarrow>
   filter (\<lambda>x. d_id x = d \<and> d_company x = c) rows = (if d_company r = c then [r] else [])"
proof -
  assume h: "filter (\<lambda>x. d_id x = d) rows = [r]"
  have "filter (\<lambda>x. d_id x = d \<and> d_company x = c) rows = filter (\<lambda>x. d_company x = c) (filter (\<lambda>x. d_id x = d) rows)"
    by (simp add: filter_filter conj_commute)
  then show ?thesis using h by simp
qed

lemma db_select_one_ok:
  "x_down X (now w) = None \<Longrightarrow> filter (\<lambda>x. d_id x = i \<and> d_company x = c) (w_docs w) = [r] \<Longrightarrow>
   db_select_one X i c w = (Inr r, w\<lparr>w_log := w_log w @ [CDbSelect i]\<rparr>)"
  by (simp add: db_select_one_def store_call_def Let_def)

lemma blob_download_ok:
  "x_down X (now w) = None \<Longrightarrow> w_bucket w k = Some b \<Longrightarrow>
   blob_download X k w = (Inr b, w\<lparr>w_log := w_log w @ [CDownload k]\<rparr>)"
  by (simp add: blob_download_def store_call_def Let_def)

lemma updateDocumentStatus_ok:
  "x_down X (now w) = None \<Longrightarrow> filter (\<lambda>x. d_id x = i) (w_docs w) = [r] \<Longrightarrow>
   updateDocumentStatus X i st add w =
     (Inr (set_status i st (now w) add r),
      w\<lparr>w_log := w_log w @ [CDbUpdate i st], w_docs := map (set_status i st (now w) add) (w_docs w)\<rparr>)"
  by (simp add: updateDocumentStatus_def db_update_def store_call_def Let_def rethrow_apply set_status_def
      del: now_log_append)

lemma deleteDocumentChunks_ok:
  "x_down X (now w) = None \<Longrightarrow>
   deleteDocumentChunks X c d w =
     (Inr (length (filter (vmatch (VCompanyDoc c d)) (w_vec w))),
      w\<lparr>w_log := w_log w @ [CVecDelete (VCompanyDoc c d)],
        w_vec := filter (\<lambda>v. \<not> vmatch (VCompanyDoc c d) v) (w_vec w)\<rparr>)"
  by (simp add: deleteDocumentChunks_def vec_deleteMany_def store_call_def Let_def rethrow_apply)

lemma filter_set_status:
  "(\<And>x. d_id (add x) = d_id x) \<Longrightarrow>
   filter (\<lambda>x. d_id x = i) (map (set_status i st t add) rows) =
     map (set_status i st t add) (filter (\<lambda>x. d_id x = i) rows)"
  by (induction rows) (auto simp: set_status_def)

lemma calls_succeed_down: "calls_succeed X n \<Longrightarrow> n \<le> i \<Longrightarrow> x_down X i = None"
  by (simp add: calls_succeed_def)

lemma deleteDocument_ok:
  assumes ok: "calls_succeed X (now w)"
  shows "deleteDocument X d c w =
    (Inr True,
     w\<lparr>w_vec := filter (\<lambda>v. \<not> vmatch (VCompanyDoc c d) v) (w_vec w),
       w_bucket := (case filter (\<lambda>r. d_id r = d \<and> d_company r = c) (w_docs w) of
                      [r] \<Rightarrow> (w_bucket w)(storage_key c d (d_filename r) := None)
                    | _ \<Rightarrow> w_bucket w),
       w_docs := filter (\<lambda>r. \<not> (d_id r = d \<and> d_company r = c)) (w_docs w),
       w_log := w_log w @ [CVecDelete (VCompanyDoc c d), CDbSelect d] @
                (case filter (\<lambda>r. d_id r = d \<and> d_company r = c) (w_docs w) of
                   [r] \<Rightarrow> [CRemove (storage_key c d (d_filename r))]
                 | _ \<Rightarrow> []) @ [CDbDelete d]\<rparr>)"
proof -
  have nd: "\<And>i. now w \<le> i \<Longrightarrow> x_down X i = None" using ok by (simp add: calls_succeed_def)
  then have n0: "x_down X (length (w_log w)) = None" "x_down X (Suc (length (w_log w))) = None"
    "x_down X (Suc (Suc (length (w_log w)))) = None" "x_down X (Suc (Suc (Suc (length (w_log w))))) = None"
    by (simp_all add: now_def)
  show ?thesis
  proof (cases "filter (\<lambda>r. d_id r = d \<and> d_company r = c) (w_docs w)" rule: remdups_adj.cases)
    case 1
    then show ?thesis using n0
      by (simp add: deleteDocument_def deleteDocumentChunks_def vec_deleteMany_def db_select_one_def
          db_delete_def store_call_def Let_def eff_simps returnE_def now_def)
  next
    case (2 r)
    then show ?thesis using n0
      by (simp add: deleteDocument_def deleteDocumentChunks_def vec_deleteMany_def db_select_one_def
          db_delete_def blob_remove_def store_call_def Let_def eff_simps returnE_def now_def)
  next
    case (3 r r' rs)
    then show ?thesis using n0
      by (simp add: deleteDocument_def deleteDocumentChunks_def vec_deleteMany_def db_select_one_def
          db_delete_def store_call_def Let_def eff_simps returnE_def now_def)
  qed
qed

lemma count_status_total:
  "length rows = count_status Processed rows + count_status Processing rows + count_status Failed rows"
proof (induction rows)
  case Nil
  then show ?case by (simp add: count_status_def)
next
  case (Cons r rows)
  then show ?case by (cases "d_status r") (simp_all add: count_status_def)
qed

lemma db_insert_ok:
  "x_down X (now w) = None \<Longrightarrow> d_id (mk (x_newid X (now w)) (now w)) \<notin> row_ids w \<Longrightarrow>
   db_insert X mk w = (Inr (mk (x_newid X (now w)) (now w)),
     w\<lparr>w_log := w_log w @ [CDbInsert], w_docs := w_docs w @ [mk (x_newid X (now w)) (now w)]\<rparr>)"
  by (simp add: db_insert_def store_call_def Let_def)

lemma blob_upload_ok:
  "x_down X (now w) = None \<Longrightarrow> w_bucket w k = None \<Longrightarrow>
   blob_upload X k b w = (Inr (), w\<lparr>w_log := w_log w @ [CUpload k], w_bucket := (w_bucket w)(k \<mapsto> b)\<rparr>)"
  by (simp add: blob_upload_def store_call_def Let_def)

lemma ext_a_txt: "getFileExtension (js ''a.txt'') = js ''txt''"
  using getFileExtension_split [of "js ''a''" "js ''txt''"]
  by (simp add: js_def slash_cu_def dot_cu_def js_toLowerCase_def js_lower_cu_def)

lemma ext_b_pdf: "getFileExtension (js ''b.pdf'') = js ''pdf''"
  using getFileExtension_split [of "js ''b''" "js ''pdf''"]
  by (simp add: js_def slash_cu_def dot_cu_def js_toLowerCase_def js_lower_cu_def)

lemma ragChunk_hello: "ragChunk (map ucast bytes_hello) = [js ''hello'']"
proof -
  have t: "map ucast bytes_hello = js ''hello''" by (simp add: bytes_hello_def js_def)
  have go: "0 < int (length (js ''hello''))" by (simp add: js_def)
  have e: "chunk_end (js ''hello'') 1000 0 = 1000" by (simp add: chunk_end_tail js_def)
  have p: "chunk_piece (js ''hello'') 1000 0 = js ''hello''"
  proof -
    have sl: "js_slice (js ''hello'') 0 1000 = js ''hello''" by (simp add: js_slice_def clamp_index_def js_def)
    show ?thesis by (simp add: chunk_piece_def e sl) (simp add: js_trim_def js_is_space_def js_def)
  qed
  have n: "\<not> 800 < int (length (js ''hello''))" by (simp add: js_def)
  show ?thesis
    unfolding t ragChunk_def chunkText_default_def chunkText_def default_chunkSize_def default_chunkOverlap_def
    by (simp add: chunk_loop_step [OF go] e p chunk_loop_stop [OF n]) (simp add: js_def)
qed

lemma world2_rows:
  "filter (\<lambda>x. d_id x = js ''d1'') (w_docs world2) = [row_d1]"
  "filter (\<lambda>x. d_id x = js ''d3'') (w_docs world2) = [row_d3]"
  "filter (\<lambda>x. d_id x = js ''d1'' \<and> d_company x = js ''acme'') (w_docs world2) = [row_d1]"
  by (simp_all add: world2_def row_d1_def row_d3_def js_def)

lemma calls_ok_ext_ok: "calls_succeed ext_ok n"
  by (simp add: calls_succeed_def ext_ok_def)

subsection \<open>Properties of the ingestion pipeline\<close>

text \<open>C7: A file that fails validation (missing, larger
  than \<open>maxFileSize\<close>, or of a type outside \<open>allowedTypes\<close>) is refused before any
  extraction, registry, storage or vector call: the world is unchanged and the error is
  the validation message behind "Failed to process document: ".\<close>

theorem processDocument_rejects_invalid:
  assumes "fst (validateFile S fo w) = Inl e"
  shows "processDocument S X fo c u w = (Inl (Error (js ''Failed to process document: '' @ err_msg e)), w)"
proof -
  have "validateFile S fo w = (Inl e, w)" using assms by (metis prod.collapse validateFile_world)
  then show ?thesis by (simp add: processDocument_def eff_simps throwE_def)
qed

theorem processDocument_rejects_invalid_witness:
  "processDocument (docservice_new None) ext_ok
     (Some \<lparr>f_originalname = js ''big.pdf'', f_size = 20971520, f_buffer = [], f_mimetype = js ''application/pdf''\<rparr>)
     (js ''acme'') (js ''u1'') world0 =
   (Inl (Error (js ''Failed to process document: File size exceeds maximum limit of 10MB'')), world0)"
proof -
  have "fst (validateFile (docservice_new None)
     (Some \<lparr>f_originalname = js ''big.pdf'', f_size = 20971520, f_buffer = [], f_mimetype = js ''application/pdf''\<rparr>) world0)
     = Inl (Error (js ''File size exceeds maximum limit of 10MB''))"
    by (simp add: validateFile_def docservice_new_def size_error_def mb_text_default throwE_def)
       (simp add: default_maxFileSize_def js_def)
  from processDocument_rejects_invalid [OF this] show ?thesis by (simp add: js_def)
qed

text \<open>For a file named \<open>name.ext\<close> (no slash, no dot in the
  extension, both parts non-empty), validation accepts exactly when the size is within
  \<open>maxFileSize\<close> and the lower-cased extension is an allowed type: the type check is
  case-insensitive and reads the part after the last dot.\<close>

theorem validateFile_named:
  assumes "f_originalname f = name @ dot_cu # ext"
    and "name \<noteq> []" "ext \<noteq> []" "slash_cu \<notin> set name" "slash_cu \<notin> set ext" "dot_cu \<notin> set ext"
  shows "fst (validateFile S (Some f) w) = Inr () \<longleftrightarrow>
    int (f_size f) \<le> maxFileSize S \<and> js_toLowerCase ext \<in> set (allowedTypes S)"
  using getFileExtension_split [OF assms(2-6)] assms(1)
  by (simp add: validateFile_def throwE_def returnE_def Let_def)

theorem validateFile_named_witness:
  "fst (validateFile (docservice_new None)
     (Some \<lparr>f_originalname = js ''Report.PDF'', f_size = 100, f_buffer = [], f_mimetype = js ''application/pdf''\<rparr>) world0) = Inr ()"
proof -
  have "js ''Report.PDF'' = js ''Report'' @ dot_cu # js ''PDF''" by (simp add: js_def dot_cu_def)
  moreover have "js ''Report'' \<noteq> [] \<and> js ''PDF'' \<noteq> [] \<and> slash_cu \<notin> set (js ''Report'') \<and> slash_cu \<notin> set (js ''PDF'')
     \<and> dot_cu \<notin> set (js ''PDF'')" by (simp add: js_def slash_cu_def dot_cu_def)
  ultimately have "fst (validateFile (docservice_new None)
     (Some \<lparr>f_originalname = js ''Report.PDF'', f_size = 100, f_buffer = [], f_mimetype = js ''application/pdf''\<rparr>) world0) = Inr () \<longleftrightarrow>
     int 100 \<le> maxFileSize (docservice_new None) \<and> js_toLowerCase (js ''PDF'') \<in> set (allowedTypes (docservice_new None))"
    using validateFile_named [of "\<lparr>f_originalname = js ''Report.PDF'', f_size = 100, f_buffer = [], f_mimetype = js ''application/pdf''\<rparr>"
        "js ''Report''" "js ''PDF''" "docservice_new None" world0] by simp
  then show ?thesis
    by (simp add: docservice_new_def default_maxFileSize_def js_toLowerCase_def js_lower_cu_def js_def)
qed
text \<open>C5: When the file is a valid text file, every call succeeds and the new id, its storage key and its chunk ids are fresh, ingestion returns the processed document, and afterwards the registry row is processed with the chunk count and the file's URL, the file is in the bucket under company/id/filename, and the vector store holds exactly the text's chunks for that company and document.\<close>

theorem processDocument_success:
  assumes v: "fst (validateFile S (Some f) w) = Inr ()"
    and ty: "getFileExtension (f_originalname f) = js ''txt''"
    and ok: "calls_succeed X (now w)"
    and fid: "x_newid X (now w) \<notin> row_ids w"
    and key: "w_bucket w (storage_key c (x_newid X (now w)) (f_originalname f)) = None"
    and fresh: "\<forall>v\<in>set (w_vec w). v_document v \<noteq> x_newid X (now w) \<and>
       v_id v \<notin> set (map (chunk_id (x_newid X (now w))) [0..<length (ragChunk (x_utf8 X (f_buffer f)))])"
  shows "\<exists>w'. processDocument S X (Some f) c u w =
      (Inr \<lparr>pd_id = x_newid X (now w), pd_filename = f_originalname f, pd_status = Processed,
            pd_chunk_count = length (ragChunk (x_utf8 X (f_buffer f))),
            pd_content_length = length (x_utf8 X (f_buffer f)),
            pd_file_url = x_url X (storage_key c (x_newid X (now w)) (f_originalname f))\<rparr>, w')
    \<and> map d_status (filter (\<lambda>r. d_id r = x_newid X (now w)) (w_docs w')) = [Processed]
    \<and> map d_chunk_count (filter (\<lambda>r. d_id r = x_newid X (now w)) (w_docs w')) =
        [Some (length (ragChunk (x_utf8 X (f_buffer f))))]
    \<and> map d_file_url (filter (\<lambda>r. d_id r = x_newid X (now w)) (w_docs w')) =
        [Some (x_url X (storage_key c (x_newid X (now w)) (f_originalname f)))]
    \<and> w_bucket w' (storage_key c (x_newid X (now w)) (f_originalname f)) = Some (f_buffer f)
    \<and> map v_content (filter (vmatch (VCompanyDoc c (x_newid X (now w)))) (w_vec w')) =
        ragChunk (x_utf8 X (f_buffer f))"
proof -
  let ?i = "x_newid X (now w)"
  let ?tx = "x_utf8 X (f_buffer f)"
  let ?chunks = "ragChunk ?tx"
  let ?k = "storage_key c ?i (f_originalname f)"
  let ?url = "x_url X ?k"
  let ?row = "new_row c u (f_originalname f) (js ''txt'') (f_size f) (length ?tx) ?i (now w)"
  let ?add = "\<lambda>r. r\<lparr>d_chunk_count := Some (length ?chunks), d_file_url := Some ?url\<rparr>"
  define w1 where "w1 = w\<lparr>w_log := w_log w @ [CDbInsert], w_docs := w_docs w @ [?row]\<rparr>"
  define w2 where "w2 = w1\<lparr>w_log := w_log w1 @ [CUpload ?k], w_bucket := (w_bucket w1)(?k \<mapsto> f_buffer f)\<rparr>"
  have s0: "extractText X f w = (Inr ?tx, w)" using ty by (simp add: extractText_def returnE_def)
  have s1: "storeDocumentMetadata X c u (f_originalname f) (getFileExtension (f_originalname f)) (f_size f)
      (length ?tx) w = (Inr ?row, w1)"
    unfolding storeDocumentMetadata_def w1_def rethrow_apply ty
    using db_insert_ok [of X w "new_row c u (f_originalname f) (js ''txt'') (f_size f) (length ?tx)"]
      calls_succeed_down [OF ok] fid
    by (simp add: new_row_def)
  have s2: "uploadToStorage X f c ?i w1 = (Inr ?url, w2)"
    unfolding uploadToStorage_def w2_def rethrow_apply bindE_apply
    using blob_upload_ok [of X w1 ?k "f_buffer f"] calls_succeed_down [OF ok] key
    by (simp add: w1_def returnE_def)
  have ok2: "calls_succeed X (now w2)"
    by (rule calls_succeed_mono [OF ok]) (simp add: w2_def w1_def now_def)
  have fresh2: "\<forall>v\<in>set (w_vec w2). v_id v \<notin> set (map (chunk_id ?i) [0..<length ?chunks])"
    using fresh by (simp add: w2_def w1_def)
  obtain w3 rs where s3: "storeDocumentChunks X c ?i ?chunks (file_meta f ?url) w2 = (Inr (length ?chunks), w3)"
    and v3: "w_vec w3 = w_vec w2 @ rs" "map v_content rs = ?chunks"
      "\<forall>v\<in>set rs. v_company v = c \<and> v_document v = ?i \<and> v_meta v = file_meta f ?url"
    and d3: "w_docs w3 = w_docs w2" and b3: "w_bucket w3 = w_bucket w2"
    using store_chunks_ok [OF ok2 fresh2, of c "file_meta f ?url"] by blast
  have ok3: "calls_succeed X (now w3)"
    using calls_succeed_log_grows [OF ok2 log_grows_storeDocumentChunks, of X c ?i ?chunks "file_meta f ?url"] s3
    by simp
  have rid: "filter (\<lambda>r. d_id r = ?i) (w_docs w) = []"
    using fid by (force simp: row_ids_def filter_empty_conv)
  have f3: "filter (\<lambda>r. d_id r = ?i) (w_docs w3) = [?row]"
    using rid by (simp add: d3 w2_def w1_def new_row_def)
  define w4 where "w4 = w3\<lparr>w_log := w_log w3 @ [CDbUpdate ?i Processed],
                            w_docs := map (set_status ?i Processed (now w3) ?add) (w_docs w3)\<rparr>"
  have s4: "updateDocumentStatus X ?i Processed ?add w3 = (Inr (set_status ?i Processed (now w3) ?add ?row), w4)"
    unfolding w4_def using calls_succeed_down [OF ok3] f3 by (intro updateDocumentStatus_ok) simp_all
  have run: "processDocument S X (Some f) c u w =
      (Inr \<lparr>pd_id = ?i, pd_filename = f_originalname f, pd_status = Processed,
            pd_chunk_count = length ?chunks, pd_content_length = length ?tx, pd_file_url = ?url\<rparr>, w4)"
    using validateFile_ok [OF v] s0 s1 s2 s3 s4
    by (simp add: processDocument_def process_steps_def eff_simps returnE_def Let_def new_row_def)
  have "filter (vmatch (VCompanyDoc c ?i)) rs = rs" using v3(3) by (simp add: filter_id_conv)
  moreover have "filter (vmatch (VCompanyDoc c ?i)) (w_vec w) = []" using fresh by (auto simp: filter_empty_conv)
  moreover have "filter (\<lambda>r. d_id r = ?i) (w_docs w4) = [set_status ?i Processed (now w3) ?add ?row]"
    using f3 by (simp add: w4_def filter_set_status)
  ultimately show ?thesis
    using run v3(1,2) b3 by (simp add: w4_def w2_def w1_def set_status_def new_row_def)
qed

theorem processDocument_success_witness:
  "\<exists>w'. processDocument (docservice_new None) ext_ok (Some file_txt) (js ''acme'') (js ''u1'') world0 =
      (Inr \<lparr>pd_id = js ''doc0'', pd_filename = js ''a.txt'', pd_status = Processed, pd_chunk_count = 1,
            pd_content_length = 5, pd_file_url = js ''https://store/acme/doc0/a.txt''\<rparr>, w')
    \<and> map v_content (filter (vmatch (VCompanyDoc (js ''acme'') (js ''doc0''))) (w_vec w')) = [js ''hello'']"
proof -
  have v: "fst (validateFile (docservice_new None) (Some file_txt) world0) = Inr ()"
    by (simp add: validateFile_def file_txt_def ext_a_txt docservice_new_def default_maxFileSize_def returnE_def)
  have t: "getFileExtension (f_originalname file_txt) = js ''txt''" by (simp add: file_txt_def ext_a_txt)
  have i: "x_newid ext_ok (now world0) \<notin> row_ids world0" by (simp add: world0_def row_ids_def)
  have k: "w_bucket world0 (storage_key (js ''acme'') (x_newid ext_ok (now world0)) (f_originalname file_txt)) = None"
    by (simp add: world0_def)
  have f: "\<forall>v\<in>set (w_vec world0). v_document v \<noteq> x_newid ext_ok (now world0) \<and>
       v_id v \<notin> set (map (chunk_id (x_newid ext_ok (now world0))) [0..<length (ragChunk (x_utf8 ext_ok (f_buffer file_txt)))])"
    by (simp add: world0_def)
  have n: "x_newid ext_ok (now world0) = js ''doc0''" by (simp add: ext_ok_def world0_def now_def js_of_nat.simps js_def)
  have x: "x_utf8 ext_ok (f_buffer file_txt) = map ucast bytes_hello" by (simp add: ext_ok_def file_txt_def)
  have u: "x_url ext_ok (storage_key (js ''acme'') (js ''doc0'') (js ''a.txt'')) = js ''https://store/acme/doc0/a.txt''"
    by (simp add: ext_ok_def storage_key_def js_def)
  have l: "length (map ucast bytes_hello :: jstr) = 5" by (simp add: bytes_hello_def)
  from processDocument_success [OF v t calls_ok_ext_ok i k f, of "js ''u1''"] show ?thesis
    unfolding n x ragChunk_hello by (auto simp: file_txt_def u l bytes_hello_def)
qed

text \<open>C8: When every call succeeds, deleting a registered document makes its calls in the order chunks, registry read, blob, registry row, and afterwards no chunk, no blob and no row of that company and document remains.\<close>

theorem deleteDocument_order:
  assumes "calls_succeed X (now w)" "filter (\<lambda>r. d_id r = d \<and> d_company r = c) (w_docs w) = [r]"
  shows "\<exists>w'. deleteDocument X d c w = (Inr True, w')
    \<and> w_log w' = w_log w @ [CVecDelete (VCompanyDoc c d), CDbSelect d,
                            CRemove (storage_key c d (d_filename r)), CDbDelete d]
    \<and> (\<forall>v\<in>set (w_vec w'). \<not> vmatch (VCompanyDoc c d) v)
    \<and> w_bucket w' (storage_key c d (d_filename r)) = None
    \<and> (\<forall>x\<in>set (w_docs w'). \<not> (d_id x = d \<and> d_company x = c))"
  using deleteDocument_ok [OF assms(1), of d c] assms(2) by simp

theorem deleteDocument_order_witness:
  "\<exists>w'. deleteDocument ext_ok (js ''d1'') (js ''acme'') world2 = (Inr True, w')
    \<and> w_log w' = [CVecDelete (VCompanyDoc (js ''acme'') (js ''d1'')), CDbSelect (js ''d1''),
                  CRemove (storage_key (js ''acme'') (js ''d1'') (js ''a.txt'')), CDbDelete (js ''d1'')]"
proof -
  have "w_log world2 = []" by (simp add: world2_def)
  with deleteDocument_order [OF calls_ok_ext_ok world2_rows(3)] show ?thesis
    by (auto simp: row_d1_def)
qed

text \<open>C19: When every call succeeds, deleting a document twice succeeds both times, and the second delete changes no store.\<close>

theorem deleteDocument_idempotent:
  assumes "calls_succeed X (now w)"
  shows "\<exists>w1 w2. deleteDocument X d c w = (Inr True, w1) \<and> deleteDocument X d c w1 = (Inr True, w2)
    \<and> same_stores w1 w2"
proof -
  let ?F = "\<lambda>r. d_id r = d \<and> d_company r = c"
  obtain w1 where r1: "deleteDocument X d c w = (Inr True, w1)"
    and v1: "w_vec w1 = filter (\<lambda>v. \<not> vmatch (VCompanyDoc c d) v) (w_vec w)"
    and d1: "w_docs w1 = filter (\<lambda>r. \<not> ?F r) (w_docs w)"
    and l1: "now w \<le> now w1"
    using deleteDocument_ok [OF assms, of d c] by (simp add: now_def)
  have ok1: "calls_succeed X (now w1)" using assms l1 by (rule calls_succeed_mono)
  have none: "filter ?F (w_docs w1) = []" using d1 by (simp add: filter_empty_conv)
  show ?thesis
    using r1 deleteDocument_ok [OF ok1, of d c] none v1 d1
    by (simp add: same_stores_def)
qed

theorem deleteDocument_idempotent_witness:
  "\<exists>w1 w2. deleteDocument ext_ok (js ''d1'') (js ''acme'') world2 = (Inr True, w1)
     \<and> deleteDocument ext_ok (js ''d1'') (js ''acme'') w1 = (Inr True, w2) \<and> same_stores w1 w2"
  by (rule deleteDocument_idempotent [OF calls_ok_ext_ok])

text \<open>C16: Reprocessing a registered text document when every call succeeds leaves exactly the chunks of the re-extracted text for that company and document (none of the old ones), every other chunk record unchanged, and the row processed with the new chunk count.\<close>

theorem reprocessDocument_replaces:
  assumes ok: "calls_succeed X (now w)"
    and row: "filter (\<lambda>x. d_id x = d) (w_docs w) = [r]" "d_company r = c"
    and blob: "w_bucket w (storage_key c d (d_filename r)) = Some b"
    and ty: "getFileExtension (d_filename r) = js ''txt''"
    and fresh: "\<forall>v\<in>set (w_vec w). \<not> vmatch (VCompanyDoc c d) v \<longrightarrow>
                  v_id v \<notin> set (map (chunk_id d) [0..<length (ragChunk (x_utf8 X b))])"
  shows "\<exists>w'. reprocessDocument X d c w = (Inr True, w')
    \<and> map v_content (filter (vmatch (VCompanyDoc c d)) (w_vec w')) = ragChunk (x_utf8 X b)
    \<and> filter (\<lambda>v. \<not> vmatch (VCompanyDoc c d) v) (w_vec w') = filter (\<lambda>v. \<not> vmatch (VCompanyDoc c d) v) (w_vec w)
    \<and> map d_status (filter (\<lambda>x. d_id x = d) (w_docs w')) = [Processed]
    \<and> map d_chunk_count (filter (\<lambda>x. d_id x = d) (w_docs w')) = [Some (length (ragChunk (x_utf8 X b)))]"
proof -
  let ?chunks = "ragChunk (x_utf8 X b)"
  let ?k = "storage_key c d (d_filename r)"
  let ?add = "\<lambda>x. x\<lparr>d_chunk_count := Some (length ?chunks), d_content_length := length (x_utf8 X b)\<rparr>"
  define w1 where "w1 = w\<lparr>w_log := w_log w @ [CDbSelect d]\<rparr>"
  define w2 where "w2 = w1\<lparr>w_log := w_log w1 @ [CDownload ?k]\<rparr>"
  define w3 where "w3 = w2\<lparr>w_log := w_log w2 @ [CDbUpdate d Processing],
                            w_docs := map (set_status d Processing (now w2) id) (w_docs w2)\<rparr>"
  define w4 where "w4 = w3\<lparr>w_log := w_log w3 @ [CVecDelete (VCompanyDoc c d)],
                            w_vec := filter (\<lambda>v. \<not> vmatch (VCompanyDoc c d) v) (w_vec w3)\<rparr>"
  have s1: "db_select_one X d c w = (Inr r, w1)"
    unfolding w1_def using calls_succeed_down [OF ok] filter_id_company [OF row(1), of c] row(2)
    by (intro db_select_one_ok) simp_all
  have s2: "blob_download X ?k w1 = (Inr b, w2)"
    unfolding w2_def using calls_succeed_down [OF ok] blob by (intro blob_download_ok) (simp_all add: w1_def)
  have s3: "extractText X (reprocess_file r b) w2 = (Inr (x_utf8 X b), w2)"
    using ty by (simp add: extractText_def reprocess_file_def returnE_def)
  have s4: "updateDocumentStatus X d Processing id w2 = (Inr (set_status d Processing (now w2) id r), w3)"
    unfolding w3_def using calls_succeed_down [OF ok] row(1)
    by (intro updateDocumentStatus_ok) (simp_all add: w2_def w1_def)
  have s5: "deleteDocumentChunks X c d w3 = (Inr (length (filter (vmatch (VCompanyDoc c d)) (w_vec w3))), w4)"
    unfolding w4_def using calls_succeed_down [OF ok]
    by (intro deleteDocumentChunks_ok) (simp add: w3_def w2_def w1_def)
  have ok4: "calls_succeed X (now w4)"
    by (rule calls_succeed_mono [OF ok]) (simp add: w4_def w3_def w2_def w1_def now_def)
  have fresh4: "\<forall>v\<in>set (w_vec w4). v_id v \<notin> set (map (chunk_id d) [0..<length ?chunks])"
    using fresh by (auto simp: w4_def w3_def w2_def w1_def)
  obtain w5 rs where s6: "storeDocumentChunks X c d ?chunks (reprocess_meta r) w4 = (Inr (length ?chunks), w5)"
    and v5: "w_vec w5 = w_vec w4 @ rs" "map v_content rs = ?chunks"
      "\<forall>v\<in>set rs. v_company v = c \<and> v_document v = d \<and> v_meta v = reprocess_meta r"
    and d5: "w_docs w5 = w_docs w4"
    using store_chunks_ok [OF ok4 fresh4, of c "reprocess_meta r"] by blast
  have ok5: "calls_succeed X (now w5)"
    using calls_succeed_log_grows [OF ok4 log_grows_storeDocumentChunks, of X c d ?chunks "reprocess_meta r"] s6
    by simp
  have f4: "filter (\<lambda>x. d_id x = d) (w_docs w5) = [set_status d Processing (now w2) id r]"
    using row(1) d5 by (simp add: w4_def w3_def w2_def w1_def filter_set_status)
  define w6 where "w6 = w5\<lparr>w_log := w_log w5 @ [CDbUpdate d Processed],
                            w_docs := map (set_status d Processed (now w5) ?add) (w_docs w5)\<rparr>"
  have s7: "updateDocumentStatus X d Processed ?add w5 =
      (Inr (set_status d Processed (now w5) ?add (set_status d Processing (now w2) id r)), w6)"
    unfolding w6_def using calls_succeed_down [OF ok5] f4 by (intro updateDocumentStatus_ok) simp_all
  have run: "reprocessDocument X d c w = (Inr True, w6)"
    by (simp add: reprocessDocument_def reprocess_steps_def eff_simps s1 s2 s3 s4 s5 s6 s7 returnE_def Let_def)
  have "filter (vmatch (VCompanyDoc c d)) rs = rs" using v5(3) by (simp add: filter_id_conv)
  moreover have "filter (\<lambda>v. \<not> vmatch (VCompanyDoc c d) v) rs = []" using v5(3) by (simp add: filter_empty_conv)
  moreover have "filter (\<lambda>x. d_id x = d) (w_docs w6) =
      [set_status d Processed (now w5) ?add (set_status d Processing (now w2) id r)]"
    using f4 by (simp add: w6_def filter_set_status)
  moreover have rid: "d_id r = d"
  proof -
    have "r \<in> set (filter (\<lambda>x. d_id x = d) (w_docs w))" using row(1) by simp
    then show ?thesis by simp
  qed
  ultimately show ?thesis
    using run v5(1,2) row(1) by (simp add: w6_def w4_def w3_def w2_def w1_def set_status_def)
qed

theorem reprocessDocument_replaces_witness:
  "\<exists>w'. reprocessDocument ext_ok (js ''d1'') (js ''acme'') world2 = (Inr True, w')
    \<and> map v_content (filter (vmatch (VCompanyDoc (js ''acme'') (js ''d1''))) (w_vec w')) = [js ''hello'']"
proof -
  have c: "d_company row_d1 = js ''acme''" by (simp add: row_d1_def)
  have b: "w_bucket world2 (storage_key (js ''acme'') (js ''d1'') (d_filename row_d1)) = Some bytes_hello"
    by (simp add: world2_def row_d1_def)
  have t: "getFileExtension (d_filename row_d1) = js ''txt''" by (simp add: row_d1_def ext_a_txt)
  have x: "x_utf8 ext_ok bytes_hello = map ucast bytes_hello" by (simp add: ext_ok_def)
  have f: "\<forall>v\<in>set (w_vec world2). \<not> vmatch (VCompanyDoc (js ''acme'') (js ''d1'')) v \<longrightarrow>
      v_id v \<notin> set (map (chunk_id (js ''d1'')) [0..<length (ragChunk (x_utf8 ext_ok bytes_hello))])"
    by (simp add: world2_def mk_vrecord_def)
  from reprocessDocument_replaces [OF calls_ok_ext_ok world2_rows(1) c b t f] show ?thesis
    by (auto simp: x ragChunk_hello)
qed

text \<open>C20: If storing the chunks fails (an embedding request fails) after the row was registered and the file uploaded, ingestion fails with "Failed to process document: Failed to store document chunks" and the new registry row stays at processing: nothing marks it failed.\<close>

theorem processDocument_stuck_processing:
  assumes v: "fst (validateFile S (Some f) w) = Inr ()" and t: "getFileExtension (f_originalname f) = js ''txt''"
    and ch: "ragChunk (x_utf8 X (f_buffer f)) = ch # rest" and e: "isl (x_embed X (now w + 2) ch)"
    and "x_down X (now w) = None" "x_down X (Suc (now w)) = None"
    and "x_newid X (now w) \<notin> row_ids w"
    and "w_bucket w (storage_key c (x_newid X (now w)) (f_originalname f)) = None"
  shows "\<exists>w'. processDocument S X (Some f) c u w =
      (Inl (Error (js ''Failed to process document: '' @ js ''Failed to store document chunks'')), w')
    \<and> w_docs w' = w_docs w @ [new_row c u (f_originalname f) (js ''txt'') (f_size f)
                                 (length (x_utf8 X (f_buffer f))) (x_newid X (now w)) (now w)]
    \<and> d_status (last (w_docs w')) = Processing"
proof -
  obtain err where e': "x_embed X (Suc (Suc (now w))) ch = Inl err" using e by (cases "x_embed X (now w + 2) ch") auto
  show ?thesis
    using validateFile_ok [OF v] t ch e' assms(5-)
    by (simp add: processDocument_def process_steps_def extractText_def storeDocumentMetadata_def
        db_insert_def store_call_def Let_def eff_simps returnE_def throwE_def uploadToStorage_def
        blob_upload_def storeDocumentChunks_def embed_chunks_Cons_apply new_row_def row_ids_def now_def
        del: embed_chunks.simps)
qed

theorem processDocument_stuck_processing_witness:
  "\<exists>w'. processDocument (docservice_new None) ext_embed_down (Some file_txt) (js ''acme'') (js ''u1'') world0 =
      (Inl (Error (js ''Failed to process document: '' @ js ''Failed to store document chunks'')), w')
    \<and> d_status (last (w_docs w')) = Processing"
proof -
  have v: "fst (validateFile (docservice_new None) (Some file_txt) world0) = Inr ()"
    by (simp add: validateFile_def file_txt_def ext_a_txt docservice_new_def default_maxFileSize_def returnE_def)
  have t: "getFileExtension (f_originalname file_txt) = js ''txt''" by (simp add: file_txt_def ext_a_txt)
  have ch: "ragChunk (x_utf8 ext_embed_down (f_buffer file_txt)) = js ''hello'' # []"
    by (simp add: ext_embed_down_def ext_ok_def file_txt_def ragChunk_hello)
  have e: "isl (x_embed ext_embed_down (now world0 + 2) (js ''hello''))" by (simp add: ext_embed_down_def)
  have d: "x_down ext_embed_down (now world0) = None" "x_down ext_embed_down (Suc (now world0)) = None"
    by (simp_all add: ext_embed_down_def ext_ok_def)
  have i: "x_newid ext_embed_down (now world0) \<notin> row_ids world0" by (simp add: world0_def row_ids_def)
  have k: "w_bucket world0 (storage_key (js ''acme'') (x_newid ext_embed_down (now world0)) (f_originalname file_txt)) = None"
    by (simp add: world0_def)
  from processDocument_stuck_processing [OF v t ch e d i k, of "js ''u1''"] show ?thesis by blast
qed

text \<open>C21: A company that asks to reprocess another company's document is refused with "Failed to reprocess document", but the catch block's status update is filtered by the id alone: the other company's row is marked failed.\<close>

theorem reprocessDocument_cross_tenant:
  assumes "filter (\<lambda>x. d_id x = d) (w_docs w) = [r]" "d_company r \<noteq> b"
    and "x_down X (now w) = None" "x_down X (Suc (now w)) = None"
  shows "reprocessDocument X d b w =
    (Inl (Error (js ''Failed to reprocess document'')),
     w\<lparr>w_docs := map (set_status d Failed (Suc (now w)) id) (w_docs w),
       w_log := w_log w @ [CDbSelect d, CDbUpdate d Failed]\<rparr>)"
  using assms filter_id_company [OF assms(1), of b]
  by (simp add: reprocessDocument_def reprocess_steps_def updateDocumentStatus_def db_select_one_def
      db_update_def store_call_def Let_def eff_simps throwE_def set_status_def)

theorem reprocessDocument_cross_tenant_witness:
  "reprocessDocument ext_ok (js ''d1'') (js ''beta'') world2 =
    (Inl (Error (js ''Failed to reprocess document'')),
     world2\<lparr>w_docs := map (set_status (js ''d1'') Failed 1 id) (w_docs world2),
            w_log := [CDbSelect (js ''d1''), CDbUpdate (js ''d1'') Failed]\<rparr>)"
proof -
  have "d_company row_d1 \<noteq> js ''beta''" by (simp add: row_d1_def js_def)
  from reprocessDocument_cross_tenant [OF world2_rows(1) this] show ?thesis
    by (simp add: ext_ok_def world2_def now_def)
qed

text \<open>C22: When re-extraction of a processed PDF fails, its status goes from processed directly to failed: no update to processing is made, and the old chunks stay in the vector store.\<close>

theorem reprocessDocument_extract_failure:
  assumes "filter (\<lambda>x. d_id x = d) (w_docs w) = [r]" "d_company r = c"
    and "w_bucket w (storage_key c d (d_filename r)) = Some b"
    and "getFileExtension (d_filename r) = js ''pdf''" "x_pdf X (Suc (Suc (now w))) b = Inl e"
    and "x_down X (now w) = None" "x_down X (Suc (now w)) = None" "x_down X (now w + 3) = None"
  shows "reprocessDocument X d c w =
    (Inl (Error (js ''Failed to reprocess document'')),
     w\<lparr>w_docs := map (set_status d Failed (now w + 3) id) (w_docs w),
       w_log := w_log w @ [CDbSelect d, CDownload (storage_key c d (d_filename r)), CExtract (js ''pdf''),
                           CDbUpdate d Failed]\<rparr>)"
  using assms filter_id_company [OF assms(1), of c]
  by (simp add: reprocessDocument_def reprocess_steps_def updateDocumentStatus_def db_select_one_def
      db_update_def store_call_def Let_def eff_simps throwE_def set_status_def blob_download_def
      extractText_def reprocess_file_def extractFromPDF_def ext_call_def numeral_3_eq_3)

theorem reprocessDocument_extract_failure_witness:
  "reprocessDocument ext_pdf_down (js ''d3'') (js ''acme'') world2 =
    (Inl (Error (js ''Failed to reprocess document'')),
     world2\<lparr>w_docs := map (set_status (js ''d3'') Failed 3 id) (w_docs world2),
       w_log := [CDbSelect (js ''d3''), CDownload (storage_key (js ''acme'') (js ''d3'') (js ''b.pdf'')),
                 CExtract (js ''pdf''), CDbUpdate (js ''d3'') Failed]\<rparr>)"
proof -
  have c: "d_company row_d3 = js ''acme''" by (simp add: row_d3_def row_d1_def)
  have b: "w_bucket world2 (storage_key (js ''acme'') (js ''d3'') (d_filename row_d3)) = Some bytes_hello"
    by (simp add: world2_def row_d3_def)
  have t: "getFileExtension (d_filename row_d3) = js ''pdf''" by (simp add: row_d3_def ext_b_pdf)
  have p: "x_pdf ext_pdf_down (Suc (Suc (now world2))) bytes_hello = Inl (Error (js ''bad xref table''))"
    by (simp add: ext_pdf_down_def)
  have d: "x_down ext_pdf_down (now world2) = None" "x_down ext_pdf_down (Suc (now world2)) = None"
    "x_down ext_pdf_down (now world2 + 3) = None" by (simp_all add: ext_pdf_down_def ext_ok_def)
  from reprocessDocument_extract_failure [OF world2_rows(2) c b t p d] show ?thesis
    by (simp add: world2_def now_def row_d3_def)
qed

text \<open>The statistics count each row of the company once by status (processed, processing and failed add up to the total), make one registry call and change no store.\<close>

theorem getDocumentStats_counts:
  assumes "getDocumentStats X c w = (Inr s, w')"
  shows "total_documents s = processed_documents s + processing_documents s + failed_documents s
    \<and> total_documents s = length (filter (\<lambda>r. d_company r = c) (w_docs w))
    \<and> w' = w\<lparr>w_log := w_log w @ [CDbList c]\<rparr>"
  using assms count_status_total [of "filter (\<lambda>r. d_company r = c) (w_docs w)"]
  by (auto simp: getDocumentStats_def db_list_def store_call_def Let_def eff_simps returnE_def stats_of_def
      split: option.splits)

theorem getDocumentStats_counts_witness:
  "\<exists>s w'. getDocumentStats ext_ok (js ''acme'') world2 = (Inr s, w') \<and>
     total_documents s = processed_documents s + processing_documents s + failed_documents s \<and>
     total_documents s = 2"
proof -
  obtain s w' where run: "getDocumentStats ext_ok (js ''acme'') world2 = (Inr s, w')"
    by (simp add: getDocumentStats_def db_list_def store_call_def Let_def eff_simps returnE_def ext_ok_def)
  have "length (filter (\<lambda>r. d_company r = js ''acme'') (w_docs world2)) = 2"
    by (simp add: world2_def row_d1_def row_d3_def)
  with getDocumentStats_counts [OF run] run show ?thesis by auto
qed

end
