(* ===== verification/Consistency.thy ===== *)
theory Consistency
  imports EffectLogic DocumentService
begin

text \<open>
  The consistency of the three stores across every operation the backend exposes. The
  operations are the steps of an inductive relation on worlds, each with any oracle, so a
  reachable world is the result of any sequence of service calls with any pattern of
  provider and store failures. The invariant \<open>registry_inv\<close> says that registry ids are
  unique and that every chunk record of the vector store belongs to a registered document
  of the same company. Each operation keeps it on success and on failure; the proofs apply
  the rules of \<open>EffectLogic\<close> along the operation's definition.
\<close>

subsection \<open>The invariant and the reachable worlds\<close>

definition registry_inv :: "world \<Rightarrow> bool" where
  "registry_inv w \<longleftrightarrow> distinct (map d_id (w_docs w)) \<and>
     (\<forall>v\<in>set (w_vec w). \<exists>r\<in>set (w_docs w). d_id r = v_document v \<and> d_company r = v_company v)"

definition has_row :: "jstr \<Rightarrow> jstr \<Rightarrow> world \<Rightarrow> bool" where
  "has_row i c w \<longleftrightarrow> (\<exists>r\<in>set (w_docs w). d_id r = i \<and> d_company r = c)"

definition no_chunks :: "jstr \<Rightarrow> jstr \<Rightarrow> world \<Rightarrow> bool" where
  "no_chunks c d w \<longleftrightarrow> (\<forall>v\<in>set (w_vec w). \<not> vmatch (VCompanyDoc c d) v)"

text \<open>A side condition that survives the registry updates and chunk deletions of the
  pipeline: updates that keep every row's id and company, and removals of chunk records.\<close>

definition keeps_idco :: "(doc_row \<Rightarrow> doc_row) \<Rightarrow> bool" where
  "keeps_idco g \<longleftrightarrow> (\<forall>x. d_id (g x) = d_id x \<and> d_company (g x) = d_company x)"

definition rows_stable :: "(world \<Rightarrow> bool) \<Rightarrow> bool" where
  "rows_stable R \<longleftrightarrow> vd_stable R
     \<and> (\<forall>w g. keeps_idco g \<longrightarrow> R w \<longrightarrow> R (w\<lparr>w_docs := map g (w_docs w)\<rparr>))
     \<and> (\<forall>w f. R w \<longrightarrow> R (w\<lparr>w_vec := filter f (w_vec w)\<rparr>))"

text \<open>One call of a service method, as the routes make them: ingestion, deletion and
  reprocessing of documents, listing and statistics, answering and searching.\<close>

inductive service_step :: "world \<Rightarrow> world \<Rightarrow> bool" where
  ingest: "service_step w (snd (processDocument S X fo c u w))"
| delete: "service_step w (snd (deleteDocument X d c w))"
| reprocess: "service_step w (snd (reprocessDocument X d c w))"
| list: "service_step w (snd (getDocuments X c n off w))"
| stats: "service_step w (snd (getDocumentStats X c w))"
| answer: "service_step w (snd (generateRAGResponse X c q model lang hist w))"
| search: "service_step w (snd (searchRelevantContext X c q n w))"
| chunk_stats: "service_step w (snd (rag_getDocumentStats X c d w))"
| analytics: "service_step w (snd (searchSimilarQueries X q n w))"

inductive reachable :: "world \<Rightarrow> bool" where
  start: "reachable world0"
| step: "reachable w \<Longrightarrow> service_step w w' \<Longrightarrow> reachable w'"

inductive_cases service_stepE: "service_step w w'"

subsection \<open>Store-level facts\<close>

lemma vd_stable_inv [simp]:
  "vd_stable registry_inv" "vd_stable (has_row i c)" "vd_stable (no_chunks c d)"
  by (simp_all add: vd_stable_def registry_inv_def has_row_def no_chunks_def)

lemma vd_stable_conj [simp]: "vd_stable P \<Longrightarrow> vd_stable Q \<Longrightarrow> vd_stable (\<lambda>w. P w \<and> Q w)"
  by (simp add: vd_stable_def)

lemma set_insert_new: "set (insert_new taken rs) \<subseteq> set rs"
  by (induction rs arbitrary: taken) auto

lemma valid_embed_chunks:
  assumes "vd_stable P"
  shows "valid P (embed_chunks X c d md i chs)
           (\<lambda>rs w. P w \<and> (\<forall>r\<in>set rs. v_company r = c \<and> v_document r = d)) P"
proof (induction chs arbitrary: i)
  case Nil
  then show ?case by (simp add: valid_returnE)
next
  case (Cons ch chs)
  have emb: "valid P (generateEmbeddings X ch) (\<lambda>_. P) P"
    unfolding generateEmbeddings_def by (intro valid_intros) (simp add: assms)
  have rest: "valid P (bindE (embed_chunks X c d md (Suc i) chs) (\<lambda>rs. returnE (mk_vrecord c d md i ch e t # rs)))
      (\<lambda>rs w. P w \<and> (\<forall>r\<in>set rs. v_company r = c \<and> v_document r = d)) P" for e t
    by (rule valid_bindE [OF Cons.IH]) (intro valid_intros, simp add: mk_vrecord_def)
  show ?case
    unfolding embed_chunks.simps
    by (rule valid_bindE [OF emb], rule valid_bindE [where R = "\<lambda>_. P"]) (auto intro: valid_get_now rest)
qed

lemma valid_vec_insertMany:
  assumes rs: "\<forall>r\<in>set rs. v_company r = c \<and> v_document r = d"
  shows "valid (\<lambda>w. registry_inv w \<and> has_row d c w) (vec_insertMany X rs)
     (\<lambda>_ w. registry_inv w \<and> has_row d c w) (\<lambda>w. registry_inv w \<and> has_row d c w)"
  unfolding valid_def
proof (intro allI impI)
  fix w assume h: "registry_inv w \<and> has_row d c w"
  have new: "registry_inv (w\<lparr>w_log := l, w_vec := w_vec w @ insert_new t rs\<rparr>) \<and>
      has_row d c (w\<lparr>w_log := l, w_vec := w_vec w @ insert_new t rs\<rparr>)" for l t
  proof -
    have "\<forall>v\<in>set (insert_new t rs). v_company v = c \<and> v_document v = d"
      using rs set_insert_new [of t rs] by blast
    with h show ?thesis unfolding registry_inv_def has_row_def by fastforce
  qed
  have old: "registry_inv (w\<lparr>w_log := l\<rparr>) \<and> has_row d c (w\<lparr>w_log := l\<rparr>)" for l
    using h by simp
  show "case vec_insertMany X rs w of (Inr a, w') \<Rightarrow> registry_inv w' \<and> has_row d c w'
      | (Inl e, w') \<Rightarrow> registry_inv w' \<and> has_row d c w'"
    using new old by (simp add: vec_insertMany_def Let_def split: option.splits)
qed

lemma valid_insert_batches:
  assumes "\<forall>r\<in>set rs. v_company r = c \<and> v_document r = d"
  shows "valid (\<lambda>w. registry_inv w \<and> has_row d c w) (insert_batches X rs i)
     (\<lambda>_ w. registry_inv w \<and> has_row d c w) (\<lambda>w. registry_inv w \<and> has_row d c w)"
  using assms
proof (induction X rs i rule: insert_batches.induct)
  case (1 X rs i)
  have b: "\<forall>r\<in>set (take batchSize (drop i rs)). v_company r = c \<and> v_document r = d"
    using "1.prems" by (meson in_set_dropD in_set_takeD)
  show ?case
    by (subst insert_batches.simps)
       (auto intro!: valid_intros valid_bindE [OF valid_vec_insertMany [OF b]] "1.IH" "1.prems")
qed

lemma valid_storeDocumentChunks:
  "valid (\<lambda>w. registry_inv w \<and> has_row d c w) (storeDocumentChunks X c d chs md)
     (\<lambda>_ w. registry_inv w \<and> has_row d c w) (\<lambda>w. registry_inv w \<and> has_row d c w)"
  unfolding storeDocumentChunks_def
  apply (rule valid_rethrow, rule valid_bindE [OF valid_embed_chunks], simp)
  apply (rule valid_const, rule valid_bindE [OF valid_insert_batches], assumption)
  apply (rule valid_returnE, assumption)
  done

lemma valid_same: "(\<And>w. P w \<Longrightarrow> P (snd (m w))) \<Longrightarrow> valid P m (\<lambda>_. P) P"
  unfolding valid_def by (metis (mono_tags, lifting) case_prod_beta sum.case_eq_if)

lemma has_row_map_rows: "keeps_idco g \<Longrightarrow> has_row i c w \<Longrightarrow> has_row i c (w\<lparr>w_docs := map g (w_docs w)\<rparr>)"
proof -
  assume g: "keeps_idco g" and "has_row i c w"
  then obtain r where r: "r \<in> set (w_docs w)" "d_id r = i" "d_company r = c" by (auto simp: has_row_def)
  then have "g r \<in> set (map g (w_docs w))" by simp
  with r g show ?thesis by (auto simp: has_row_def keeps_idco_def)
qed

lemma rows_stable_has_row [simp]: "rows_stable (has_row i c)"
  unfolding rows_stable_def
proof (intro conjI allI impI)
  show "vd_stable (has_row i c)" by simp
next
  fix w g assume "keeps_idco g" "has_row i c w"
  then show "has_row i c (w\<lparr>w_docs := map g (w_docs w)\<rparr>)" by (rule has_row_map_rows)
next
  fix w f assume "has_row i c w"
  then show "has_row i c (w\<lparr>w_vec := filter f (w_vec w)\<rparr>)" by (simp add: has_row_def)
qed

lemma rows_stable_True [simp]: "rows_stable (\<lambda>_. True)"
  by (simp add: rows_stable_def vd_stable_def)

lemma rows_stable_vd: "rows_stable R \<Longrightarrow> vd_stable R"
  by (simp add: rows_stable_def)

lemma registry_inv_map_rows:
  assumes "keeps_idco g" "registry_inv w"
  shows "registry_inv (w\<lparr>w_docs := map g (w_docs w)\<rparr>)"
proof -
  have e: "map (d_id \<circ> g) (w_docs w) = map d_id (w_docs w)" using assms(1) by (simp add: keeps_idco_def)
  have ids: "distinct (map (d_id \<circ> g) (w_docs w))" unfolding e using assms(2) by (simp add: registry_inv_def)
  have "\<exists>r'\<in>set (map g (w_docs w)). d_id r' = v_document v \<and> d_company r' = v_company v"
    if "v \<in> set (w_vec w)" for v
  proof -
    from that assms(2) have "has_row (v_document v) (v_company v) w" by (auto simp: registry_inv_def has_row_def)
    then have "has_row (v_document v) (v_company v) (w\<lparr>w_docs := map g (w_docs w)\<rparr>)"
      by (rule has_row_map_rows [OF assms(1)])
    then show ?thesis by (simp add: has_row_def)
  qed
  then show ?thesis using assms(2) ids unfolding registry_inv_def by simp
qed

lemma db_update_world:
  "snd (db_update X i st add w) = w\<lparr>w_log := w_log w @ [CDbUpdate i st]\<rparr> \<or>
   snd (db_update X i st add w) = w\<lparr>w_log := w_log w @ [CDbUpdate i st],
     w_docs := map (\<lambda>r. if d_id r = i then add (r\<lparr>d_status := st, d_updated_at := now w\<rparr>) else r) (w_docs w)\<rparr>"
  by (auto simp: db_update_def store_call_def Let_def split: option.splits list.splits)

lemma valid_updateDocumentStatus:
  assumes R: "rows_stable R" and k: "keeps_idco add"
  shows "valid (\<lambda>w. registry_inv w \<and> R w) (updateDocumentStatus X i st add)
           (\<lambda>_ w. registry_inv w \<and> R w) (\<lambda>w. registry_inv w \<and> R w)"
proof (rule valid_same)
  fix w assume h: "registry_inv w \<and> R w"
  let ?g = "\<lambda>r. if d_id r = i then add (r\<lparr>d_status := st, d_updated_at := now w\<rparr>) else r"
  let ?w1 = "w\<lparr>w_log := w_log w @ [CDbUpdate i st]\<rparr>"
  have kg: "keeps_idco ?g" using k by (simp add: keeps_idco_def)
  have h1: "registry_inv ?w1 \<and> R ?w1" using h rows_stable_vd [OF R] by simp
  moreover have "registry_inv (?w1\<lparr>w_docs := map ?g (w_docs ?w1)\<rparr>) \<and> R (?w1\<lparr>w_docs := map ?g (w_docs ?w1)\<rparr>)"
    using h1 registry_inv_map_rows [OF kg] R kg unfolding rows_stable_def by blast
  ultimately show "registry_inv (snd (updateDocumentStatus X i st add w)) \<and> R (snd (updateDocumentStatus X i st add w))"
    using db_update_world [of X i st add w] by (auto simp: updateDocumentStatus_def)
qed

lemma valid_frame:
  "(\<And>w. w_vec (snd (m w)) = w_vec w \<and> w_docs (snd (m w)) = w_docs w) \<Longrightarrow> vd_stable P \<Longrightarrow>
   valid P m (\<lambda>_. P) P"
  by (rule valid_same) (auto simp: vd_stable_def)

lemma upload_frame: "w_vec (snd (uploadToStorage X f c i w)) = w_vec w \<and> w_docs (snd (uploadToStorage X f c i w)) = w_docs w"
  by (simp add: uploadToStorage_def blob_upload_def store_call_def Let_def eff_simps returnE_def
      split: option.splits prod.splits sum.splits)

lemma remove_frame:
  "w_vec (snd (attempt (blob_remove X k) w)) = w_vec w \<and> w_docs (snd (attempt (blob_remove X k) w)) = w_docs w"
  by (simp add: blob_remove_def store_call_def Let_def eff_simps split: option.splits prod.splits sum.splits)

lemma read_only_validateFile: "read_only (validateFile S fo)"
  by (simp add: validateFile_def Let_def frame_intros split: option.splits)

lemma read_only_extractText: "read_only (extractText X f)"
  by (simp add: extractText_def extractFromPDF_def extractFromDOCX_def Let_def frame_intros)

lemma read_only_blob_download: "read_only (blob_download X k)"
  by (simp add: blob_download_def frame_intros)

lemma read_only_db_select_one: "read_only (db_select_one X i c)"
  by (simp add: db_select_one_def frame_intros)

lemma valid_db_insert:
  assumes "\<And>i t. d_company (mk i t) = c"
  shows "valid registry_inv (db_insert X mk) (\<lambda>r w. registry_inv w \<and> has_row (d_id r) c w) registry_inv"
  unfolding valid_def
proof (intro allI impI)
  fix w assume h: "registry_inv w"
  let ?r = "mk (x_newid X (now w)) (now w)"
  have "d_id ?r \<notin> row_ids w \<Longrightarrow> registry_inv (w\<lparr>w_log := l, w_docs := w_docs w @ [?r]\<rparr>) \<and>
      has_row (d_id ?r) c (w\<lparr>w_log := l, w_docs := w_docs w @ [?r]\<rparr>)" for l
    using h assms by (auto simp: registry_inv_def has_row_def row_ids_def)
  then show "case db_insert X mk w of (Inr a, w') \<Rightarrow> registry_inv w' \<and> has_row (d_id a) c w'
      | (Inl e, w') \<Rightarrow> registry_inv w'"
    using h by (auto simp: db_insert_def store_call_def Let_def split: option.splits)
qed

lemma valid_db_select_one:
  "valid registry_inv (db_select_one X i c) (\<lambda>_ w. registry_inv w \<and> has_row i c w) registry_inv"
  unfolding valid_def
proof (intro allI impI)
  fix w assume h: "registry_inv w"
  have "filter (\<lambda>r. d_id r = i \<and> d_company r = c) (w_docs w) = [r] \<Longrightarrow> has_row i c w" for r
  proof -
    assume "filter (\<lambda>r. d_id r = i \<and> d_company r = c) (w_docs w) = [r]"
    then have "r \<in> set (filter (\<lambda>r. d_id r = i \<and> d_company r = c) (w_docs w))" by simp
    then show ?thesis by (auto simp: has_row_def)
  qed
  then show "case db_select_one X i c w of (Inr a, w') \<Rightarrow> registry_inv w' \<and> has_row i c w'
      | (Inl e, w') \<Rightarrow> registry_inv w'"
    using h by (auto simp: db_select_one_def store_call_def Let_def split: option.splits list.splits)
qed

lemma valid_deleteDocumentChunks:
  assumes R: "rows_stable R"
  shows "valid (\<lambda>w. registry_inv w \<and> R w) (deleteDocumentChunks X c d)
           (\<lambda>_ w. (registry_inv w \<and> R w) \<and> no_chunks c d w) registry_inv"
  unfolding valid_def
proof (intro allI impI)
  fix w assume h: "registry_inv w \<and> R w"
  let ?w1 = "w\<lparr>w_log := w_log w @ [CVecDelete (VCompanyDoc c d)]\<rparr>"
  have h1: "registry_inv ?w1 \<and> R ?w1" using h rows_stable_vd [OF R] by simp
  then have "R (?w1\<lparr>w_vec := filter (\<lambda>v. \<not> vmatch (VCompanyDoc c d) v) (w_vec ?w1)\<rparr>)"
    using R unfolding rows_stable_def by blast
  moreover have "registry_inv (?w1\<lparr>w_vec := filter (\<lambda>v. \<not> vmatch (VCompanyDoc c d) v) (w_vec ?w1)\<rparr>)"
    using h1 by (auto simp: registry_inv_def)
  ultimately show "case deleteDocumentChunks X c d w of
      (Inr a, w') \<Rightarrow> (registry_inv w' \<and> R w') \<and> no_chunks c d w' | (Inl e, w') \<Rightarrow> registry_inv w'"
    using h1 by (auto simp: deleteDocumentChunks_def vec_deleteMany_def store_call_def Let_def rethrow_apply
        no_chunks_def split: option.splits)
qed

lemma valid_db_delete:
  "valid (\<lambda>w. registry_inv w \<and> no_chunks c d w) (db_delete X d c) (\<lambda>_. registry_inv) registry_inv"
  unfolding valid_def
proof (intro allI impI)
  fix w assume h: "registry_inv w \<and> no_chunks c d w"
  have "registry_inv (w\<lparr>w_log := l, w_docs := filter (\<lambda>r. \<not> (d_id r = d \<and> d_company r = c)) (w_docs w)\<rparr>)" for l
  proof -
    have "\<exists>r\<in>set (filter (\<lambda>r. \<not> (d_id r = d \<and> d_company r = c)) (w_docs w)).
        d_id r = v_document v \<and> d_company r = v_company v" if v: "v \<in> set (w_vec w)" for v
    proof -
      obtain r where r: "r \<in> set (w_docs w)" "d_id r = v_document v" "d_company r = v_company v"
        using h v by (auto simp: registry_inv_def)
      have "\<not> (v_company v = c \<and> v_document v = d)" using h v by (auto simp: no_chunks_def)
      with r show ?thesis by auto
    qed
    then show ?thesis using h by (simp add: registry_inv_def distinct_map_filter)
  qed
  then show "case db_delete X d c w of (Inr a, w') \<Rightarrow> registry_inv w' | (Inl e, w') \<Rightarrow> registry_inv w'"
    using h by (auto simp: db_delete_def store_call_def Let_def split: option.splits)
qed

subsection \<open>Each operation keeps the invariant\<close>

lemma valid_store_inv:
  "valid (\<lambda>w. registry_inv w \<and> has_row d c w) (storeDocumentChunks X c d chs md)
     (\<lambda>_ w. registry_inv w \<and> has_row d c w) registry_inv"
  by (rule valid_post [OF valid_storeDocumentChunks]) simp_all

lemma valid_update_inv:
  "rows_stable R \<Longrightarrow> keeps_idco add \<Longrightarrow>
   valid (\<lambda>w. registry_inv w \<and> R w) (updateDocumentStatus X i st add) (\<lambda>_ w. registry_inv w \<and> R w) registry_inv"
  by (rule valid_post [OF valid_updateDocumentStatus]) simp_all

lemma valid_frame_inv:
  "(\<And>w. w_vec (snd (m w)) = w_vec w \<and> w_docs (snd (m w)) = w_docs w) \<Longrightarrow> rows_stable R \<Longrightarrow>
   valid (\<lambda>w. registry_inv w \<and> R w) m (\<lambda>_ w. registry_inv w \<and> R w) registry_inv"
  by (rule valid_post [OF valid_frame]) (simp_all add: rows_stable_vd)

lemma valid_read_only_inv:
  "read_only m \<Longrightarrow> rows_stable R \<Longrightarrow>
   valid (\<lambda>w. registry_inv w \<and> R w) m (\<lambda>_ w. registry_inv w \<and> R w) registry_inv"
  by (rule valid_post [OF valid_read_only]) (simp_all add: rows_stable_vd)

lemma keeps_idco_adds [simp]:
  "keeps_idco id"
  "keeps_idco (\<lambda>r. r\<lparr>d_chunk_count := n, d_file_url := u\<rparr>)"
  "keeps_idco (\<lambda>r. r\<lparr>d_chunk_count := n, d_content_length := l\<rparr>)"
  by (simp_all add: keeps_idco_def)

lemma valid_processDocument:
  "valid registry_inv (processDocument S X fo c u) (\<lambda>_. registry_inv) registry_inv"
proof -
  have meta: "valid registry_inv (storeDocumentMetadata X c u fn ft sz cl)
      (\<lambda>r w. registry_inv w \<and> has_row (d_id r) c w) registry_inv" for fn ft sz cl
    unfolding storeDocumentMetadata_def by (rule valid_rethrow, rule valid_db_insert) (simp add: new_row_def)
  have steps: "valid registry_inv (process_steps X f c u) (\<lambda>_. registry_inv) registry_inv" for f
    unfolding process_steps_def Let_def
    by (rule valid_bindE [OF valid_read_only [OF read_only_extractText]], simp,
        rule valid_bindE [OF meta], rule valid_bindE [OF valid_frame_inv [OF upload_frame rows_stable_has_row]],
        rule valid_bindE [OF valid_store_inv], rule valid_bindE [OF valid_update_inv])
       (auto intro: valid_returnE simp: keeps_idco_def)
  show ?thesis
    unfolding processDocument_def
    by (rule valid_catchE, rule valid_bindE [OF valid_read_only [OF read_only_validateFile]], simp)
       (rule steps, rule valid_throwE)
qed

lemma valid_deleteDocument:
  "valid registry_inv (deleteDocument X d c) (\<lambda>_. registry_inv) registry_inv"
proof -
  let ?P = "\<lambda>w. registry_inv w \<and> no_chunks c d w"
  have sel: "valid ?P (attempt (db_select_one X d c)) (\<lambda>_. ?P) registry_inv"
    by (rule valid_post [OF valid_read_only]) (simp_all add: read_only_db_select_one frame_intros)
  have rm: "valid ?P (case doc of Some r \<Rightarrow> bindE (attempt (blob_remove X (storage_key c d (d_filename r)))) (\<lambda>_. returnE ())
                                | None \<Rightarrow> returnE ()) (\<lambda>_. ?P) registry_inv" for doc
  proof (cases doc)
    case None
    then show ?thesis by (auto intro: valid_returnE)
  next
    case (Some r)
    have rm0: "valid ?P (attempt (blob_remove X k)) (\<lambda>_. ?P) registry_inv" for k
      by (rule valid_post [OF valid_frame [OF remove_frame]]) simp_all
    show ?thesis using Some by (auto intro: valid_bindE [OF rm0] valid_returnE)
  qed
  have del: "valid ?P (bindE (db_delete X d c) (\<lambda>_. returnE True)) (\<lambda>_. registry_inv) registry_inv"
    by (rule valid_bindE [OF valid_db_delete]) (auto intro: valid_returnE)
  show ?thesis
    unfolding deleteDocument_def
    apply (rule valid_rethrow, rule valid_pre [OF valid_bindE [OF valid_deleteDocumentChunks [OF rows_stable_True]]])
      apply (rule valid_pre [OF valid_bindE [OF sel]])
       apply (rule valid_bindE [OF rm del])
    by simp_all
qed

lemma valid_reprocessDocument:
  "valid registry_inv (reprocessDocument X d c) (\<lambda>_. registry_inv) registry_inv"
proof -
  let ?P = "\<lambda>w. registry_inv w \<and> has_row d c w"
  have tail: "valid (\<lambda>w. ?P w \<and> no_chunks c d w)
      (bindE (storeDocumentChunks X c d chs md) (\<lambda>_.
       bindE (updateDocumentStatus X d Processed add) (\<lambda>_. returnE True))) (\<lambda>_. registry_inv) registry_inv"
    if "keeps_idco add" for chs md add
    by (rule valid_pre [OF valid_bindE [OF valid_store_inv]], rule valid_bindE [OF valid_update_inv])
       (auto intro: valid_returnE that)
  have steps: "valid registry_inv (reprocess_steps X d c) (\<lambda>_. registry_inv) registry_inv"
    unfolding reprocess_steps_def Let_def
    apply (rule valid_bindE [OF valid_db_select_one])
    apply (rule valid_bindE [OF valid_read_only_inv [OF read_only_blob_download rows_stable_has_row]])
    apply (rule valid_bindE [OF valid_read_only_inv [OF read_only_extractText rows_stable_has_row]])
    apply (rule valid_bindE [OF valid_update_inv [OF rows_stable_has_row keeps_idco_adds(1)]])
    apply (rule valid_bindE [OF valid_deleteDocumentChunks [OF rows_stable_has_row]])
    by (rule tail) simp
  have handler: "valid registry_inv (bindE (updateDocumentStatus X d Failed id) (\<lambda>_. throwE e))
      (\<lambda>_. registry_inv) registry_inv" for e
    by (rule valid_pre [OF valid_bindE [OF valid_update_inv [OF rows_stable_True keeps_idco_adds(1)]]])
       (auto intro: valid_throwE)
  show ?thesis
    unfolding reprocessDocument_def by (rule valid_catchE [OF steps handler])
qed

lemma read_only_services:
  "read_only (getDocuments X c n off)" "read_only (getDocumentStats X c)"
  "read_only (generateRAGResponse X c q model lang hist)" "read_only (searchRelevantContext X c q n)"
  "read_only (rag_getDocumentStats X c d)" "read_only (searchSimilarQueries X q n)"
  by (simp_all add: getDocuments_def db_page_def getDocumentStats_def db_list_def generateRAGResponse_def
      rag_getDocumentStats_def vec_find_def searchSimilarQueries_def vec_findSimilar_def frame_intros)

lemma valid_step: "valid P m (\<lambda>_. P) P \<Longrightarrow> P w \<Longrightarrow> P (snd (m w))"
  unfolding valid_def by (metis (mono_tags, lifting) case_prod_beta sum.case_eq_if)

lemma service_step_inv: "service_step w w' \<Longrightarrow> registry_inv w \<Longrightarrow> registry_inv w'"
proof (induction rule: service_step.induct)
  case (ingest w S X fo c u)
  then show ?case by (rule valid_step [OF valid_processDocument])
next
  case (delete w X d c)
  then show ?case by (rule valid_step [OF valid_deleteDocument])
next
  case (reprocess w X d c)
  then show ?case by (rule valid_step [OF valid_reprocessDocument])
qed (auto intro: valid_step [OF valid_read_only] simp: read_only_services)

subsection \<open>Properties of the reachable worlds\<close>

text \<open>C2: In every world reachable from the empty stores by
  any sequence of service calls, with any pattern of provider and store failures, registry
  ids are unique and every chunk record of the vector store belongs to a registered
  document of the same company: no chunk is orphaned and none is filed under another
  company's document.\<close>

theorem reachable_registry_consistent:
  "reachable w \<Longrightarrow> distinct (map d_id (w_docs w)) \<and>
     (\<forall>v\<in>set (w_vec w). \<exists>r\<in>set (w_docs w). d_id r = v_document v \<and> d_company r = v_company v)"
proof (induction rule: reachable.induct)
  case start
  then show ?case by (simp add: world0_def)
next
  case (step w w')
  then have "registry_inv w'" using service_step_inv by (simp add: registry_inv_def)
  then show ?case by (simp add: registry_inv_def)
qed

theorem reachable_registry_consistent_witness:
  "reachable (snd (processDocument (docservice_new None) ext_ok (Some file_txt) (js ''acme'') (js ''u1'') world0))
   \<and> list_all (\<lambda>v. list_ex (\<lambda>r. d_id r = v_document v \<and> d_company r = v_company v)
         (w_docs (snd (processDocument (docservice_new None) ext_ok (Some file_txt) (js ''acme'') (js ''u1'') world0))))
       (w_vec (snd (processDocument (docservice_new None) ext_ok (Some file_txt) (js ''acme'') (js ''u1'') world0)))"
proof -
  have r: "reachable (snd (processDocument (docservice_new None) ext_ok (Some file_txt) (js ''acme'') (js ''u1'') world0))"
    by (rule reachable.step [OF reachable.start service_step.ingest])
  with reachable_registry_consistent [OF r] show ?thesis by (simp add: list_all_iff list_ex_iff)
qed

end
