(* ===== verification/FileUpload.thy ===== *)
theory FileUpload
  imports Prelude
begin

text \<open>
  The upload dialog of the frontend, \<open>FileUpload\<close> (src/project/src/components/FileUpload.tsx).
  Its state is the list \<open>uploadedFiles\<close>; dropping files appends them at progress 0 and
  starts one interval timer per file, which every 200 ms looks the file up \<^emph>\<open>by name\<close>
  (\<open>findIndex\<close>), adds 10 to its progress and, at 100 or more, marks it a success and
  clears itself. The model is a state machine: the React state, the set of running
  intervals (each with the name it looks up), and the events drop, fire (one interval
  firing) and remove. Which interval fires when is left open: a run is any sequence of
  events. The files accepted by the dropzone (type and 10 MB limit) are the argument of
  the drop event; the dropzone's own filtering is the library's.
\<close>

datatype ustatus = UUploading | USuccess | UError

record upload_item =
  it_name :: jstr
  it_size :: nat
  it_status :: ustatus
  it_progress :: int

record upload_ui =
  items :: "upload_item list"
  timers :: "(nat \<times> jstr) list"
  next_timer :: nat

text \<open>\<open>Array.prototype.findIndex\<close>: the first index satisfying the predicate, or -1.\<close>

fun findIndex :: "('a \<Rightarrow> bool) \<Rightarrow> 'a list \<Rightarrow> int" where
  "findIndex P [] = -1"
| "findIndex P (x # xs) = (if P x then 0 else (let i = findIndex P xs in if i = -1 then -1 else i + 1))"

definition ui_init :: upload_ui where
  "ui_init = \<lparr>items = [], timers = [], next_timer = 0\<rparr>"

definition new_item :: "jstr \<times> nat \<Rightarrow> upload_item" where
  "new_item f = \<lparr>it_name = fst f, it_size = snd f, it_status = UUploading, it_progress = 0\<rparr>"

text \<open>\<open>onDrop\<close>: the accepted files are appended, and one interval is started per file,
  capturing that file's name.\<close>

definition onDrop :: "(jstr \<times> nat) list \<Rightarrow> upload_ui \<Rightarrow> upload_ui" where
  "onDrop fs s =
     s\<lparr>items := items s @ map new_item fs,
       timers := timers s @ zip [next_timer s..<next_timer s + length fs] (map fst fs),
       next_timer := next_timer s + length fs\<rparr>"

text \<open>The body of interval \<open>k\<close>, started for a file named \<open>n\<close>.\<close>

definition tick :: "nat \<Rightarrow> jstr \<Rightarrow> upload_ui \<Rightarrow> upload_ui" where
  "tick k n s =
     (let i = findIndex (\<lambda>f. it_name f = n) (items s) in
      if i \<noteq> -1 then
        (let it = (items s ! nat i)\<lparr>it_progress := it_progress (items s ! nat i) + 10\<rparr> in
         if 100 \<le> it_progress it then
           s\<lparr>items := (items s)[nat i := it\<lparr>it_status := USuccess, it_progress := 100\<rparr>],
             timers := filter (\<lambda>t. fst t \<noteq> k) (timers s)\<rparr>
         else s\<lparr>items := (items s)[nat i := it]\<rparr>)
      else s)"

text \<open>What the interval does to the file it finds.\<close>

definition item_tick :: "upload_item \<Rightarrow> upload_item" where
  "item_tick f = (if 100 \<le> it_progress f + 10 then f\<lparr>it_status := USuccess, it_progress := 100\<rparr>
                  else f\<lparr>it_progress := it_progress f + 10\<rparr>)"

text \<open>An interval fires only while it runs.\<close>

definition fire :: "nat \<Rightarrow> upload_ui \<Rightarrow> upload_ui" where
  "fire k s = (case map_of (timers s) k of Some n \<Rightarrow> tick k n s | None \<Rightarrow> s)"

definition removeFile :: "jstr \<Rightarrow> upload_ui \<Rightarrow> upload_ui" where
  "removeFile n s = s\<lparr>items := filter (\<lambda>f. it_name f \<noteq> n) (items s)\<rparr>"

datatype ui_event = Drop "(jstr \<times> nat) list" | Fire nat | Remove jstr

fun ui_step :: "upload_ui \<Rightarrow> ui_event \<Rightarrow> upload_ui" where
  "ui_step s (Drop fs) = onDrop fs s"
| "ui_step s (Fire k) = fire k s"
| "ui_step s (Remove n) = removeFile n s"

definition ui_run :: "upload_ui \<Rightarrow> ui_event list \<Rightarrow> upload_ui" where
  "ui_run s es = foldl ui_step s es"

text \<open>The \<open>disabled\<close> condition of the "Process Documents" button, negated.\<close>

definition process_enabled :: "upload_ui \<Rightarrow> bool" where
  "process_enabled s \<longleftrightarrow> items s \<noteq> [] \<and> \<not> list_ex (\<lambda>f. it_status f = UUploading) (items s)"

text \<open>One round of the timers: every interval running at the start of the round fires
  once, in the order they were started (all run at the same 200 ms period).\<close>

definition ui_round :: "upload_ui \<Rightarrow> upload_ui" where
  "ui_round s = foldl (\<lambda>s k. fire k s) s (map fst (timers s))"

definition is_drop :: "ui_event \<Rightarrow> bool" where
  "is_drop e \<longleftrightarrow> (case e of Drop _ \<Rightarrow> True | _ \<Rightarrow> False)"

inductive ui_reach :: "upload_ui \<Rightarrow> bool" where
  init: "ui_reach ui_init"
| step: "ui_reach s \<Longrightarrow> ui_reach (ui_step s e)"

text \<open>What every item of the list satisfies in every reachable state.\<close>

definition item_ok :: "upload_item \<Rightarrow> bool" where
  "item_ok f \<longleftrightarrow> 0 \<le> it_progress f \<and> it_progress f \<le> 100 \<and> it_progress f mod 10 = 0
     \<and> (it_status f = USuccess \<longleftrightarrow> it_progress f = 100) \<and> it_status f \<noteq> UError"

subsection \<open>The interval body\<close>

lemma findIndex_found:
  "\<not> list_ex P xs \<Longrightarrow> P x \<Longrightarrow> findIndex P (xs @ x # ys) = int (length xs)"
  by (induction xs) (auto simp: Let_def)

lemma findIndex_none: "\<not> list_ex P xs \<Longrightarrow> findIndex P xs = -1"
  by (induction xs) auto

lemma findIndex_range: "findIndex P xs \<noteq> -1 \<Longrightarrow> 0 \<le> findIndex P xs \<and> nat (findIndex P xs) < length xs"
  by (induction xs) (auto simp: Let_def split: if_splits)

lemma findIndex_distinct:
  assumes "distinct (map g xs)" "i < length xs"
  shows "findIndex (\<lambda>f. g f = g (xs ! i)) xs = int i"
proof -
  have xs: "xs = take i xs @ xs ! i # drop (Suc i) xs" using assms(2) by (simp add: id_take_nth_drop)
  have "\<not> list_ex (\<lambda>f. g f = g (xs ! i)) (take i xs)"
    using assms by (auto simp: list_ex_iff in_set_conv_nth distinct_conv_nth)
  then show ?thesis using assms(2) by (subst xs) (simp add: findIndex_found)
qed

lemma tick_found:
  assumes "findIndex (\<lambda>f. it_name f = n) (items s) = int i"
  shows "tick k n s = s\<lparr>items := (items s)[i := item_tick (items s ! i)],
            timers := (if 100 \<le> it_progress (items s ! i) + 10 then filter (\<lambda>t. fst t \<noteq> k) (timers s) else timers s)\<rparr>"
  using assms by (simp add: tick_def item_tick_def Let_def)

lemma tick_missing: "\<not> list_ex (\<lambda>f. it_name f = n) (items s) \<Longrightarrow> tick k n s = s"
  by (simp add: tick_def findIndex_none)

lemma item_tick_name [simp]: "it_name (item_tick f) = it_name f"
  by (simp add: item_tick_def)

lemma drop_timer_zip:
  "m < length ys \<Longrightarrow> drop m (zip [0..<length ys] ys) = (m, ys ! m) # drop (Suc m) (zip [0..<length ys] ys)"
  using Cons_nth_drop_Suc [of m "zip [0..<length ys] ys"] by simp

lemma filter_drop_timer_zip:
  "filter (\<lambda>t. fst t \<noteq> m) (drop (Suc m) (zip [0..<length ys] ys)) = drop (Suc m) (zip [0..<length ys] ys)"
  by (auto simp: drop_zip filter_id_conv dest: set_zip_leftD)

lemma map_of_timer_zip:
  "distinct [0..<length ys] \<Longrightarrow> m < length ys \<Longrightarrow> map_of (zip [0..<length ys] ys) m = Some (ys ! m)"
  using map_of_zip_nth [of "[0..<length ys]" ys m] by simp

lemma round_prefix:
  assumes d: "distinct (map it_name xs)" and p: "list_all (\<lambda>f. it_progress f = p) xs"
    and s: "items s = xs" "timers s = zip [0..<length xs] (map it_name xs)"
    and m: "m \<le> length xs"
  shows "foldl (\<lambda>s k. fire k s) s [0..<m] =
           s\<lparr>items := map item_tick (take m xs) @ drop m xs,
             timers := (if 100 \<le> p + 10 then drop m (timers s) else timers s)\<rparr>"
  using m
proof (induction m)
  case 0
  then show ?case using s(1) by (cases s) simp
next
  case (Suc m)
  let ?T = "zip [0..<length xs] (map it_name xs)"
  let ?X = "map item_tick (take m xs) @ drop m xs"
  have ml: "m < length xs" using Suc.prems by simp
  have xm: "?X ! m = xs ! m" using ml by (simp add: nth_append min_def)
  have names: "map it_name ?X = map it_name xs"
  proof -
    have "map it_name (map item_tick (take m xs)) = map it_name (take m xs)" by (simp add: comp_def)
    then show ?thesis by (metis append_take_drop_id map_append)
  qed
  have lenX: "length ?X = length xs" by simp
  have dX: "distinct (map it_name ?X)" unfolding names by (rule d)
  have fi: "findIndex (\<lambda>f. it_name f = it_name (xs ! m)) ?X = int m"
    using findIndex_distinct [OF dX, of m, unfolded xm lenX] ml by blast
  have pm: "it_progress (xs ! m) = p" using p ml by (simp add: list_all_length)
  have tm: "map_of (if 100 \<le> p + 10 then drop m ?T else ?T) m = Some (it_name (xs ! m))"
    using drop_timer_zip [of m "map it_name xs"] map_of_timer_zip [of "map it_name xs" m] ml by simp
  have upd: "?X[m := item_tick (xs ! m)] = map item_tick (take (Suc m) xs) @ drop (Suc m) xs"
    by (subst Cons_nth_drop_Suc [OF ml, symmetric]) (simp add: list_update_append take_Suc_conv_app_nth ml)
  have tl: "filter (\<lambda>t. fst t \<noteq> m) (drop m ?T) = drop (Suc m) ?T"
    using drop_timer_zip [of m "map it_name xs"] filter_drop_timer_zip [of m "map it_name xs"] ml by simp
  let ?st = "s\<lparr>items := ?X, timers := (if 100 \<le> p + 10 then drop m (timers s) else timers s)\<rparr>"
  have "foldl (\<lambda>s k. fire k s) s [0..<Suc m] = fire m ?st"
    using Suc ml by simp
  also have "\<dots> = tick m (it_name (xs ! m)) ?st"
  proof -
    have e: "timers ?st = (if 100 \<le> p + 10 then drop m ?T else ?T)" using s(2) by simp
    have "map_of (timers ?st) m = Some (it_name (xs ! m))" unfolding e by (rule tm)
    then show ?thesis by (simp only: fire_def option.case)
  qed
  also have "\<dots> = ?st\<lparr>items := ?X[m := item_tick (xs ! m)],
      timers := (if 100 \<le> p + 10 then filter (\<lambda>t. fst t \<noteq> m) (timers ?st) else timers ?st)\<rparr>"
    using tick_found [of "it_name (xs ! m)" ?st m m] fi xm pm by simp
  also have "\<dots> = s\<lparr>items := map item_tick (take (Suc m) xs) @ drop (Suc m) xs,
      timers := (if 100 \<le> p + 10 then drop (Suc m) (timers s) else timers s)\<rparr>"
    using upd tl s(2) by (cases "100 \<le> p + 10") simp_all
  finally show ?case .
qed

subsection \<open>Rounds of the timers\<close>

lemma round_sync:
  assumes d: "distinct (map it_name xs)" and p: "list_all (\<lambda>f. it_progress f = p) xs"
    and s: "items s = xs" "timers s = zip [0..<length xs] (map it_name xs)"
  shows "ui_round s = s\<lparr>items := map item_tick xs, timers := (if 100 \<le> p + 10 then [] else timers s)\<rparr>"
proof -
  have "map fst (timers s) = [0..<length xs]" using s(2) by simp
  then show ?thesis
    using round_prefix [OF d p s, of "length xs"] s(2) by (simp add: ui_round_def)
qed

lemma onDrop_init:
  "onDrop fs ui_init = \<lparr>items = map new_item fs, timers = zip [0..<length fs] (map fst fs), next_timer = length fs\<rparr>"
  by (simp add: onDrop_def ui_init_def)

lemma rounds_uploading:
  assumes "distinct (map fst fs)" "j \<le> 9"
  shows "(ui_round ^^ j) (onDrop fs ui_init) =
           \<lparr>items = map (\<lambda>f. (new_item f)\<lparr>it_progress := 10 * int j\<rparr>) fs,
            timers = zip [0..<length fs] (map fst fs), next_timer = length fs\<rparr>"
  using assms(2)
proof (induction j)
  case 0
  then show ?case by (simp add: onDrop_init new_item_def)
next
  case (Suc j)
  let ?xs = "map (\<lambda>f. (new_item f)\<lparr>it_progress := 10 * int j\<rparr>) fs"
  have d: "distinct (map it_name ?xs)" using assms(1) by (simp add: comp_def new_item_def)
  have p: "list_all (\<lambda>f. it_progress f = 10 * int j) ?xs" by (simp add: list_all_iff)
  have t: "zip [0..<length fs] (map fst fs) = zip [0..<length ?xs] (map it_name ?xs)"
    by (simp add: comp_def new_item_def)
  have "map item_tick ?xs = map (\<lambda>f. (new_item f)\<lparr>it_progress := 10 * int (Suc j)\<rparr>) fs"
    using Suc.prems by (simp add: item_tick_def)
  then show ?case
    using Suc round_sync [OF d p, of "(ui_round ^^ j) (onDrop fs ui_init)"] t by simp
qed

lemma rounds_done:
  assumes "distinct (map fst fs)"
  shows "(ui_round ^^ 10) (onDrop fs ui_init) =
           \<lparr>items = map (\<lambda>f. (new_item f)\<lparr>it_status := USuccess, it_progress := 100\<rparr>) fs,
            timers = [], next_timer = length fs\<rparr>"
proof -
  let ?xs = "map (\<lambda>f. (new_item f)\<lparr>it_progress := 90\<rparr>) fs"
  have d: "distinct (map it_name ?xs)" using assms by (simp add: comp_def new_item_def)
  have p: "list_all (\<lambda>f. it_progress f = 90) ?xs" by (simp add: list_all_iff)
  have t: "zip [0..<length fs] (map fst fs) = zip [0..<length ?xs] (map it_name ?xs)"
    by (simp add: comp_def new_item_def)
  have "(ui_round ^^ 10) (onDrop fs ui_init) = ui_round ((ui_round ^^ 9) (onDrop fs ui_init))"
  proof -
    have e: "(10::nat) = Suc 9" by simp
    show ?thesis unfolding e by (simp only: funpow.simps(2) o_apply)
  qed
  moreover have "(ui_round ^^ 9) (onDrop fs ui_init) =
           \<lparr>items = ?xs, timers = zip [0..<length fs] (map fst fs), next_timer = length fs\<rparr>"
    using rounds_uploading [OF assms, of 9] by simp
  moreover have "map item_tick ?xs = map (\<lambda>f. (new_item f)\<lparr>it_status := USuccess, it_progress := 100\<rparr>) fs"
    by (simp add: item_tick_def)
  ultimately show ?thesis
    using round_sync [OF d p, of "(ui_round ^^ 9) (onDrop fs ui_init)"] t by simp
qed

subsection \<open>Single steps\<close>

lemma findIndex_first:
  "findIndex P xs = int i \<Longrightarrow> i < length xs \<and> P (xs ! i) \<and> (\<forall>j<i. \<not> P (xs ! j))"
proof (induction xs arbitrary: i)
  case Nil
  then show ?case by simp
next
  case (Cons x xs)
  show ?case
  proof (cases "P x")
    case True
    then show ?thesis using Cons.prems by simp
  next
    case False
    then obtain i' where i: "i = Suc i'" "findIndex P xs = int i'"
      using Cons.prems by (cases i) (auto simp: Let_def split: if_splits)
    then show ?thesis using Cons.IH [OF i(2)] False by (auto simp: less_Suc_eq_0_disj)
  qed
qed

lemma tick_cases:
  "items (tick k n s) = items s \<or>
   (\<exists>i. findIndex (\<lambda>f. it_name f = n) (items s) = int i \<and>
        items (tick k n s) = (items s)[i := item_tick (items s ! i)])"
proof (cases "findIndex (\<lambda>f. it_name f = n) (items s) = -1")
  case True
  then show ?thesis by (simp add: tick_def)
next
  case False
  then obtain i where "findIndex (\<lambda>f. it_name f = n) (items s) = int i"
    using findIndex_range [OF False] by (metis nonneg_eq_int)
  then show ?thesis by (simp add: tick_found)
qed

lemma fire_cases:
  "items (fire k s) = items s \<or>
   (\<exists>i n. findIndex (\<lambda>f. it_name f = n) (items s) = int i \<and>
          items (fire k s) = (items s)[i := item_tick (items s ! i)])"
proof (cases "map_of (timers s) k")
  case None
  then show ?thesis by (simp add: fire_def)
next
  case (Some n)
  then show ?thesis using tick_cases [of k n s] by (auto simp: fire_def)
qed

lemma fire_timers:
  "timers (fire k s) = timers s \<or> timers (fire k s) = filter (\<lambda>t. fst t \<noteq> k) (timers s)"
  by (auto simp: fire_def tick_def Let_def split: option.splits)

lemma fire_next [simp]: "next_timer (fire k s) = next_timer s"
  by (auto simp: fire_def tick_def Let_def split: option.splits)

lemma fire_names: "map it_name (items (fire k s)) = map it_name (items s)"
  using fire_cases [of k s]
proof (elim disjE exE conjE)
  fix i n
  assume "findIndex (\<lambda>f. it_name f = n) (items s) = int i"
    and e: "items (fire k s) = (items s)[i := item_tick (items s ! i)]"
  then have "i < length (items s)" by (simp add: findIndex_first)
  then show ?thesis unfolding e by (metis item_tick_name list_update_id map_update nth_map)
qed simp

lemma fire_orphan:
  "map_of (timers s) k = Some n \<Longrightarrow> \<not> list_ex (\<lambda>f. it_name f = n) (items s) \<Longrightarrow> fire k s = s"
  by (simp add: fire_def tick_missing)

lemma ui_run_Cons [simp]: "ui_run s (e # es) = ui_run (ui_step s e) es"
  by (simp add: ui_run_def)

lemma ui_run_Nil [simp]: "ui_run s [] = s"
  by (simp add: ui_run_def)

lemma ui_reach_run: "ui_reach s \<Longrightarrow> ui_reach (ui_run s es)"
  by (induction es arbitrary: s) (auto intro: ui_reach.step)

lemma ui_round_run: "ui_round s = ui_run s (map Fire (map fst (timers s)))"
  by (simp add: ui_round_def ui_run_def foldl_map)

lemma list_all_update: "list_all P xs \<Longrightarrow> P y \<Longrightarrow> list_all P (xs[i := y])"
  by (auto simp: list_all_iff dest: set_update_subset_insert [THEN subsetD])

lemma item_ok_tick: "item_ok f \<Longrightarrow> item_ok (item_tick f)"
  by (cases "it_status f") (auto simp: item_ok_def item_tick_def)

lemma item_ok_new [simp]: "item_ok (new_item f)"
  by (simp add: item_ok_def new_item_def)

lemma fire_items_ok: "list_all item_ok (items s) \<Longrightarrow> list_all item_ok (items (fire k s))"
  using fire_cases [of k s]
proof (elim disjE exE conjE)
  fix i n
  assume ok: "list_all item_ok (items s)" and "findIndex (\<lambda>f. it_name f = n) (items s) = int i"
    and e: "items (fire k s) = (items s)[i := item_tick (items s ! i)]"
  then have "i < length (items s)" by (simp add: findIndex_first)
  then have "item_ok (items s ! i)" using ok by (simp add: list_all_length)
  then show ?thesis unfolding e by (intro list_all_update ok item_ok_tick)
qed simp

lemma ui_reach_timers:
  "ui_reach s \<Longrightarrow> distinct (map fst (timers s)) \<and> list_all (\<lambda>t. fst t < next_timer s) (timers s)"
proof (induction rule: ui_reach.induct)
  case init
  then show ?case by (simp add: ui_init_def)
next
  case (step s e)
  then show ?case
  proof (cases e)
    case (Drop fs)
    then show ?thesis using step by (fastforce simp: onDrop_def list_all_iff dest: set_zip_leftD)
  next
    case (Fire k)
    then show ?thesis using step fire_timers [of k s]
      by (auto simp: distinct_map_filter list_all_iff)
  next
    case (Remove n)
    then show ?thesis using step by (simp add: removeFile_def)
  qed
qed

subsection \<open>Properties of the dialog\<close>

lemma list_ex_name: "list_ex (\<lambda>f. it_name f = n) xs \<longleftrightarrow> n \<in> set (map it_name xs)"
  by (auto simp: list_ex_iff)

lemma dup_step:
  assumes "2 \<le> length (items s)" "items s ! 1 = y" "it_name (items s ! 0) = it_name y"
    and "e \<noteq> Remove (it_name y)"
  shows "2 \<le> length (items (ui_step s e)) \<and> items (ui_step s e) ! 1 = y \<and>
         it_name (items (ui_step s e) ! 0) = it_name y"
proof (cases e)
  case (Drop fs)
  then show ?thesis using assms by (auto simp: onDrop_def nth_append)
next
  case (Remove m)
  obtain a zs where xs: "items s = a # y # zs"
    using assms(1,2) by (cases "items s" rule: remdups_adj.cases) auto
  then show ?thesis using Remove assms(3,4) by (simp add: removeFile_def)
next
  case (Fire k)
  show ?thesis using fire_cases [of k s]
  proof (elim disjE exE conjE)
    fix i n
    assume fi: "findIndex (\<lambda>f. it_name f = n) (items s) = int i"
      and e: "items (fire k s) = (items s)[i := item_tick (items s ! i)]"
    have "i \<noteq> 1" using findIndex_first [OF fi] assms(2,3) by auto
    moreover have "0 < length (items s)" using assms(1) by linarith
    ultimately show ?thesis using Fire e assms(1-3) by (cases "i = 0") simp_all
  qed (use Fire assms in simp)
qed

lemma dup_run:
  "2 \<le> length (items s) \<Longrightarrow> items s ! 1 = y \<Longrightarrow> it_name (items s ! 0) = it_name y \<Longrightarrow>
   list_all (\<lambda>e. e \<noteq> Remove (it_name y)) es \<Longrightarrow>
   2 \<le> length (items (ui_run s es)) \<and> items (ui_run s es) ! 1 = y"
proof (induction es arbitrary: s)
  case Nil
  then show ?case by simp
next
  case (Cons e es)
  then show ?case using dup_step [of s y e] by simp
qed

text \<open>C12: In every reachable state of the upload dialog, every file's progress is a multiple of 10 between 0 and 100, a file is a success exactly when its progress is 100, and no file is ever in the error state.\<close>

theorem file_upload_invariant: "ui_reach s \<Longrightarrow> list_all item_ok (items s)"
proof (induction rule: ui_reach.induct)
  case init
  then show ?case by (simp add: ui_init_def)
next
  case (step s e)
  then show ?case
  proof (cases e)
    case (Fire k)
    then show ?thesis using step.IH fire_items_ok by simp
  qed (auto simp: onDrop_def removeFile_def list_all_iff)
qed

text \<open>C10: When the dropped files have distinct names and the intervals fire in rounds, every file is uploading after nine rounds and a success after ten, when all intervals are cleared and the Process Documents button is enabled.\<close>

theorem upload_completes:
  "distinct (map fst fs) \<Longrightarrow> fs \<noteq> [] \<Longrightarrow>
   \<not> process_enabled ((ui_round ^^ 9) (onDrop fs ui_init)) \<and>
   process_enabled ((ui_round ^^ 10) (onDrop fs ui_init)) \<and>
   timers ((ui_round ^^ 10) (onDrop fs ui_init)) = []"
proof -
  assume d: "distinct (map fst fs)" and "fs \<noteq> []"
  then obtain f fs' where "fs = f # fs'" by (cases fs) auto
  then show ?thesis using rounds_uploading [OF d, of 9] rounds_done [OF d]
    by (simp add: process_enabled_def new_item_def list_ex_iff)
qed

text \<open>C15: When two dropped files have the same name, each interval updates the first of them only, so whatever intervals fire and whatever else is dropped, the second file stays at uploading with progress 0 and the Process Documents button stays disabled, until the name is removed.\<close>

theorem duplicate_name_stuck:
  "list_all (\<lambda>e. e \<noteq> Remove n) es \<Longrightarrow>
   items (ui_run ui_init (Drop [(n, a), (n, b)] # es)) ! 1 = new_item (n, b) \<and>
   \<not> process_enabled (ui_run ui_init (Drop [(n, a), (n, b)] # es))"
proof -
  assume es: "list_all (\<lambda>e. e \<noteq> Remove n) es"
  let ?s = "onDrop [(n, a), (n, b)] ui_init"
  have "2 \<le> length (items (ui_run ?s es)) \<and> items (ui_run ?s es) ! 1 = new_item (n, b)"
    using dup_run [of ?s "new_item (n, b)" es] es by (simp add: onDrop_init new_item_def)
  then have "new_item (n, b) \<in> set (items (ui_run ?s es))" by (metis nth_mem one_less_numeral_iff semiring_norm(76) order.strict_trans2)
  moreover have "it_status (new_item (n, b)) = UUploading" by (simp add: new_item_def)
  ultimately show ?thesis using \<open>2 \<le> _ \<and> _\<close>
    by (auto simp: process_enabled_def list_ex_iff)
qed

text \<open>C24: Removing a file does not clear its interval: in a reachable state where an interval runs for a name no file has, it keeps running under every sequence of later fires and removals.\<close>

theorem removed_timer_leaks:
  "ui_reach s \<Longrightarrow> (k, n) \<in> set (timers s) \<Longrightarrow> \<not> list_ex (\<lambda>f. it_name f = n) (items s) \<Longrightarrow>
   list_all (\<lambda>e. \<not> is_drop e) es \<Longrightarrow> (k, n) \<in> set (timers (ui_run s es))"
proof (induction es arbitrary: s)
  case Nil
  then show ?case by simp
next
  case (Cons e es)
  have d: "distinct (map fst (timers s))" using ui_reach_timers [OF Cons.prems(1)] by simp
  have "(k, n) \<in> set (timers (ui_step s e)) \<and> \<not> list_ex (\<lambda>f. it_name f = n) (items (ui_step s e))"
  proof (cases e)
    case (Drop fs)
    then show ?thesis using Cons.prems(4) by (simp add: is_drop_def)
  next
    case (Remove m)
    then show ?thesis using Cons.prems(2,3) by (auto simp: removeFile_def list_ex_iff)
  next
    case (Fire k')
    have names: "\<not> list_ex (\<lambda>f. it_name f = n) (items (fire k' s))"
      using Cons.prems(3) fire_names [of k' s] by (simp add: list_ex_name)
    show ?thesis
    proof (cases "k' = k")
      case True
      then have "fire k' s = s"
        using fire_orphan [of s k n] map_of_is_SomeI [OF d Cons.prems(2)] Cons.prems(3) by simp
      then show ?thesis using Fire Cons.prems(2,3) by simp
    next
      case False
      then show ?thesis using Fire names fire_timers [of k' s] Cons.prems(2) by auto
    qed
  qed
  then show ?case using Cons.IH Cons.prems(1,4) ui_reach.step [OF Cons.prems(1)] by simp
qed

lemma file_upload_invariant_witness:
  "ui_reach (ui_run ui_init [Drop [(js ''a.pdf'', 5), (js ''a.pdf'', 7)], Fire 0, Fire 1, Remove (js ''b'')]) \<and>
   list_all item_ok (items (ui_run ui_init [Drop [(js ''a.pdf'', 5), (js ''a.pdf'', 7)], Fire 0, Fire 1, Remove (js ''b'')]))"
  using file_upload_invariant [OF ui_reach_run [OF ui_reach.init]] ui_reach_run [OF ui_reach.init] by blast

lemma upload_completes_witness:
  "distinct (map fst [(js ''a.pdf'', 5::nat), (js ''b.txt'', 7)]) \<and> [(js ''a.pdf'', 5::nat), (js ''b.txt'', 7)] \<noteq> [] \<and>
   \<not> process_enabled ((ui_round ^^ 9) (onDrop [(js ''a.pdf'', 5), (js ''b.txt'', 7)] ui_init)) \<and>
   process_enabled ((ui_round ^^ 10) (onDrop [(js ''a.pdf'', 5), (js ''b.txt'', 7)] ui_init)) \<and>
   timers ((ui_round ^^ 10) (onDrop [(js ''a.pdf'', 5), (js ''b.txt'', 7)] ui_init)) = []"
  using upload_completes [of "[(js ''a.pdf'', 5), (js ''b.txt'', 7)]"] by (simp add: js_def)

lemma duplicate_name_stuck_witness:
  "list_all (\<lambda>e. e \<noteq> Remove (js ''a.pdf'')) [Fire 0, Fire 1, Drop [(js ''b.pdf'', 3)], Remove (js ''b.pdf''), Fire 2] \<and>
   items (ui_run ui_init (Drop [(js ''a.pdf'', 5), (js ''a.pdf'', 7)] #
     [Fire 0, Fire 1, Drop [(js ''b.pdf'', 3)], Remove (js ''b.pdf''), Fire 2])) ! 1 = new_item (js ''a.pdf'', 7) \<and>
   \<not> process_enabled (ui_run ui_init (Drop [(js ''a.pdf'', 5), (js ''a.pdf'', 7)] #
     [Fire 0, Fire 1, Drop [(js ''b.pdf'', 3)], Remove (js ''b.pdf''), Fire 2]))"
  using duplicate_name_stuck [where es = "[Fire 0, Fire 1, Drop [(js ''b.pdf'', 3)], Remove (js ''b.pdf''), Fire 2]"
      and n = "js ''a.pdf''" and a = 5 and b = 7]
  by (simp add: js_def)

lemma removed_timer_leaks_witness:
  "ui_reach (ui_run ui_init [Drop [(js ''a.pdf'', 5)], Remove (js ''a.pdf'')]) \<and>
   (0, js ''a.pdf'') \<in> set (timers (ui_run ui_init [Drop [(js ''a.pdf'', 5)], Remove (js ''a.pdf'')])) \<and>
   \<not> list_ex (\<lambda>f. it_name f = js ''a.pdf'') (items (ui_run ui_init [Drop [(js ''a.pdf'', 5)], Remove (js ''a.pdf'')])) \<and>
   list_all (\<lambda>e. \<not> is_drop e) [Fire 0, Fire 0, Remove (js ''b'')] \<and>
   (0, js ''a.pdf'') \<in> set (timers (ui_run (ui_run ui_init [Drop [(js ''a.pdf'', 5)], Remove (js ''a.pdf'')])
      [Fire 0, Fire 0, Remove (js ''b'')]))"
proof -
  let ?s = "ui_run ui_init [Drop [(js ''a.pdf'', 5)], Remove (js ''a.pdf'')]"
  have r: "ui_reach ?s" by (rule ui_reach_run [OF ui_reach.init])
  have t: "(0, js ''a.pdf'') \<in> set (timers ?s)" by (simp add: ui_init_def onDrop_def removeFile_def)
  have i: "\<not> list_ex (\<lambda>f. it_name f = js ''a.pdf'') (items ?s)"
    by (simp add: ui_init_def onDrop_def removeFile_def new_item_def)
  have e: "list_all (\<lambda>e. \<not> is_drop e) [Fire 0, Fire 0, Remove (js ''b'')]" by (simp add: is_drop_def)
  show ?thesis using removed_timer_leaks [OF r t i e] r t i e by blast
qed

end
