(* ===== verification/ChatbotSchema.thy ===== *)
theory ChatbotSchema
  imports AIService
begin

text \<open>
  The request schemas of the chatbot routes, \<open>chatbotSchemas\<close>
  (src/backend/src/schemas/chatbotSchemas.js). The file is data: two Joi object schemas.
  They are written here as values of a small schema language (\<open>jfield list\<close>), and
  Joi's validation of a parsed JSON body against such a schema is the function
  \<open>joi_validate\<close>, with Joi's default options: keys are checked in schema order, then
  unknown keys are rejected, and the first error is returned (\<open>abortEarly\<close>); an allowed
  value list (\<open>valid\<close>) is checked before the type; a string is rejected when empty,
  then its rules run in the order written; an array's items are checked in order before
  its \<open>min\<close>; a missing key with a default gets the default, appended to the object.
  An error carries its Joi code, its path and the schema's custom message for that code
  when it has one (Joi's built-in message templates are not modelled). Joi's URI grammar
  is a parameter \<open>uri_ok\<close> of the validator. JSON numbers are integers here; a body
  is an association list with distinct keys, as \<open>JSON.parse\<close> produces.
\<close>

datatype jval = JStr jstr | JNum int | JBool bool | JNull | JArr "jval list" | JObj "(jstr \<times> jval) list"

datatype jcode = AnyRequired | AnyOnly | StringBase | StringEmpty | StringMin | StringMax
  | StringPatternBase | StringUri | ArrayBase | ArrayMin | ArrayMax | ObjectUnknown

datatype pseg = PKey jstr | PIdx nat

record jerr =
  je_code :: jcode
  je_path :: "pseg list"
  je_message :: "jstr option"

datatype jrule = RMin nat | RMax nat | RPattern "jstr \<Rightarrow> bool" | RUri

text \<open>A string schema with its allowed values (\<open>valid\<close>, which makes them the only ones)
  and rules, or an array schema with its item schema and rules.\<close>

datatype jtype = TString "jstr list option" "jrule list" | TArray jtype "jrule list"

datatype presence = Required | Optional | Default jval

record jfield =
  f_key :: jstr
  f_type :: jtype
  f_presence :: presence
  f_messages :: "(jcode \<times> jstr) list"

subsection \<open>Joi validation\<close>

fun first_error :: "('a \<Rightarrow> 'b option) \<Rightarrow> 'a list \<Rightarrow> 'b option" where
  "first_error f [] = None"
| "first_error f (x # xs) = (case f x of Some e \<Rightarrow> Some e | None \<Rightarrow> first_error f xs)"

fun str_rule :: "(jstr \<Rightarrow> bool) \<Rightarrow> jrule \<Rightarrow> jstr \<Rightarrow> jcode option" where
  "str_rule u (RMin n) s = (if length s < n then Some StringMin else None)"
| "str_rule u (RMax n) s = (if n < length s then Some StringMax else None)"
| "str_rule u (RPattern p) s = (if p s then None else Some StringPatternBase)"
| "str_rule u RUri s = (if u s then None else Some StringUri)"

fun arr_rule :: "jrule \<Rightarrow> jval list \<Rightarrow> jcode option" where
  "arr_rule (RMin n) xs = (if length xs < n then Some ArrayMin else None)"
| "arr_rule (RMax n) xs = (if n < length xs then Some ArrayMax else None)"
| "arr_rule _ xs = None"

definition here :: "jcode option \<Rightarrow> (jcode \<times> pseg list) option" where
  "here c = map_option (\<lambda>c. (c, [])) c"

primrec check_val :: "jtype \<Rightarrow> (jstr \<Rightarrow> bool) \<Rightarrow> jval \<Rightarrow> (jcode \<times> pseg list) option" where
  "check_val (TString vs rs) u v =
     (case vs of
        Some ok \<Rightarrow> (case v of JStr s \<Rightarrow> if s \<in> set ok then None else Some (AnyOnly, []) | _ \<Rightarrow> Some (AnyOnly, []))
      | None \<Rightarrow> (case v of
                   JStr s \<Rightarrow> if s = [] then Some (StringEmpty, []) else here (first_error (\<lambda>r. str_rule u r s) rs)
                 | _ \<Rightarrow> Some (StringBase, [])))"
| "check_val (TArray t rs) u v =
     (case v of
        JArr xs \<Rightarrow>
          (case first_error (\<lambda>(i, x). map_option (\<lambda>(c, p). (c, PIdx i # p)) (check_val t u x)) (enumerate 0 xs) of
             Some e \<Rightarrow> Some e
           | None \<Rightarrow> here (first_error (\<lambda>r. arr_rule r xs) rs))
      | _ \<Rightarrow> Some (ArrayBase, []))"

definition field_error :: "jfield \<Rightarrow> jcode \<Rightarrow> pseg list \<Rightarrow> jerr" where
  "field_error f c p =
     \<lparr>je_code = c, je_path = PKey (f_key f) # p,
      je_message = (if p = [] then map_of (f_messages f) c else None)\<rparr>"

text \<open>The loop over the schema's keys, threading the value being built.\<close>

fun validate_fields ::
  "(jstr \<Rightarrow> bool) \<Rightarrow> jfield list \<Rightarrow> (jstr \<times> jval) list \<Rightarrow> (jstr \<times> jval) list \<Rightarrow> jerr + (jstr \<times> jval) list" where
  "validate_fields u [] inp acc = Inr acc"
| "validate_fields u (f # fs) inp acc =
     (case map_of inp (f_key f) of
        None \<Rightarrow> (case f_presence f of
                   Required \<Rightarrow> Inl (field_error f AnyRequired [])
                 | Optional \<Rightarrow> validate_fields u fs inp acc
                 | Default d \<Rightarrow> validate_fields u fs inp (acc @ [(f_key f, d)]))
      | Some v \<Rightarrow> (case check_val (f_type f) u v of
                     Some (c, p) \<Rightarrow> Inl (field_error f c p)
                   | None \<Rightarrow> validate_fields u fs inp acc))"

definition joi_validate ::
  "jfield list \<Rightarrow> (jstr \<Rightarrow> bool) \<Rightarrow> (jstr \<times> jval) list \<Rightarrow> jerr + (jstr \<times> jval) list" where
  "joi_validate S u inp =
     (case validate_fields u S inp inp of
        Inl e \<Rightarrow> Inl e
      | Inr out \<Rightarrow>
          (case find (\<lambda>kv. fst kv \<notin> set (map f_key S)) inp of
             Some kv \<Rightarrow> Inl \<lparr>je_code = ObjectUnknown, je_path = [PKey (fst kv)], je_message = None\<rparr>
           | None \<Rightarrow> Inr out))"

subsection \<open>The two schemas\<close>

definition ai_model_names :: "jstr list" where
  "ai_model_names = [js ''gpt-4'', js ''gpt-3.5-turbo'', js ''gemini-pro'']"

definition language_codes :: "jstr list" where
  "language_codes = [js ''en'', js ''es'', js ''fr'', js ''de'', js ''hi'', js ''ne'', js ''zh'', js ''ja'']"

definition is_hex_digit :: "cu \<Rightarrow> bool" where
  "is_hex_digit c \<longleftrightarrow> (48 \<le> c \<and> c \<le> 57) \<or> (65 \<le> c \<and> c \<le> 70) \<or> (97 \<le> c \<and> c \<le> 102)"

text \<open>The pattern \<open>/^#[0-9A-Fa-f]{6}$/\<close> (no multiline flag: \<open>$\<close> is the end of the string).\<close>

definition hex_color :: "jstr \<Rightarrow> bool" where
  "hex_color s \<longleftrightarrow> length s = 7 \<and> hd s = 35 \<and> list_all is_hex_digit (tl s)"

definition createChatbot_schema :: "jfield list" where
  "createChatbot_schema =
    [\<lparr>f_key = js ''name'', f_type = TString None [RMin 2, RMax 100], f_presence = Required,
      f_messages = [(StringMin, js ''Chatbot name must be at least 2 characters long''),
                    (StringMax, js ''Chatbot name cannot exceed 100 characters''),
                    (AnyRequired, js ''Chatbot name is required'')]\<rparr>,
     \<lparr>f_key = js ''description'', f_type = TString None [RMax 500], f_presence = Optional, f_messages = []\<rparr>,
     \<lparr>f_key = js ''ai_model'', f_type = TString (Some ai_model_names) [],
      f_presence = Default (JStr (js ''gpt-3.5-turbo'')), f_messages = []\<rparr>,
     \<lparr>f_key = js ''welcome_message'', f_type = TString None [RMax 500], f_presence = Optional, f_messages = []\<rparr>,
     \<lparr>f_key = js ''primary_color'', f_type = TString None [RPattern hex_color],
      f_presence = Default (JStr (js ''#2563eb'')),
      f_messages = [(StringPatternBase, js ''Primary color must be a valid hex color code'')]\<rparr>,
     \<lparr>f_key = js ''supported_languages'', f_type = TArray (TString (Some language_codes) []) [RMin 1],
      f_presence = Default (JArr [JStr (js ''en'')]), f_messages = []\<rparr>,
     \<lparr>f_key = js ''logo_url'', f_type = TString None [RUri], f_presence = Optional, f_messages = []\<rparr>]"

definition updateChatbot_schema :: "jfield list" where
  "updateChatbot_schema =
    [\<lparr>f_key = js ''name'', f_type = TString None [RMin 2, RMax 100], f_presence = Optional, f_messages = []\<rparr>,
     \<lparr>f_key = js ''description'', f_type = TString None [RMax 500], f_presence = Optional, f_messages = []\<rparr>,
     \<lparr>f_key = js ''ai_model'', f_type = TString (Some ai_model_names) [], f_presence = Optional, f_messages = []\<rparr>,
     \<lparr>f_key = js ''welcome_message'', f_type = TString None [RMax 500], f_presence = Optional, f_messages = []\<rparr>,
     \<lparr>f_key = js ''primary_color'', f_type = TString None [RPattern hex_color], f_presence = Optional, f_messages = []\<rparr>,
     \<lparr>f_key = js ''supported_languages'', f_type = TArray (TString (Some language_codes) []) [RMin 1],
      f_presence = Optional, f_messages = []\<rparr>,
     \<lparr>f_key = js ''logo_url'', f_type = TString None [RUri], f_presence = Optional, f_messages = []\<rparr>,
     \<lparr>f_key = js ''status'', f_type = TString (Some [js ''active'', js ''inactive'']) [], f_presence = Optional,
      f_messages = []\<rparr>]"

subsection \<open>What a schema accepts\<close>

text \<open>The specification of validation, one key at a time: a present key's value passes its
  schema, a missing key is not required; the result is the body with the defaults of the
  missing keys appended in schema order.\<close>

definition field_ok :: "(jstr \<Rightarrow> bool) \<Rightarrow> (jstr \<times> jval) list \<Rightarrow> jfield \<Rightarrow> bool" where
  "field_ok u inp f \<longleftrightarrow>
     (case map_of inp (f_key f) of
        Some v \<Rightarrow> check_val (f_type f) u v = None
      | None \<Rightarrow> f_presence f \<noteq> Required)"

definition missing_defaults :: "jfield list \<Rightarrow> (jstr \<times> jval) list \<Rightarrow> (jstr \<times> jval) list" where
  "missing_defaults S inp =
     concat (map (\<lambda>f. case (map_of inp (f_key f), f_presence f) of
                         (None, Default d) \<Rightarrow> [(f_key f, d)]
                       | _ \<Rightarrow> []) S)"

text \<open>The contract of the create schema, key by key, in plain terms.\<close>

definition str_ok :: "nat \<Rightarrow> nat \<Rightarrow> jval \<Rightarrow> bool" where
  "str_ok lo hi v = (case v of JStr s \<Rightarrow> s \<noteq> [] \<and> lo \<le> length s \<and> length s \<le> hi | _ \<Rightarrow> False)"

definition one_of :: "jstr list \<Rightarrow> jval \<Rightarrow> bool" where
  "one_of vs v = (case v of JStr s \<Rightarrow> s \<in> set vs | _ \<Rightarrow> False)"

definition langs_ok :: "jval \<Rightarrow> bool" where
  "langs_ok v = (case v of JArr xs \<Rightarrow> xs \<noteq> [] \<and> list_all (one_of language_codes) xs | _ \<Rightarrow> False)"

definition color_ok :: "jval \<Rightarrow> bool" where
  "color_ok v = (case v of JStr s \<Rightarrow> hex_color s | _ \<Rightarrow> False)"

definition uri_val :: "(jstr \<Rightarrow> bool) \<Rightarrow> jval \<Rightarrow> bool" where
  "uri_val u v = (case v of JStr s \<Rightarrow> s \<noteq> [] \<and> u s | _ \<Rightarrow> False)"

definition opt_key :: "(jval \<Rightarrow> bool) \<Rightarrow> jstr \<Rightarrow> (jstr \<times> jval) list \<Rightarrow> bool" where
  "opt_key P k inp = (case map_of inp k of None \<Rightarrow> True | Some v \<Rightarrow> P v)"

definition create_contract :: "(jstr \<Rightarrow> bool) \<Rightarrow> (jstr \<times> jval) list \<Rightarrow> bool" where
  "create_contract u inp \<longleftrightarrow>
     (case map_of inp (js ''name'') of None \<Rightarrow> False | Some v \<Rightarrow> str_ok 2 100 v) \<and>
     opt_key (str_ok 0 500) (js ''description'') inp \<and>
     opt_key (one_of ai_model_names) (js ''ai_model'') inp \<and>
     opt_key (str_ok 0 500) (js ''welcome_message'') inp \<and>
     opt_key color_ok (js ''primary_color'') inp \<and>
     opt_key langs_ok (js ''supported_languages'') inp \<and>
     opt_key (uri_val u) (js ''logo_url'') inp \<and>
     list_all (\<lambda>kv. fst kv \<in> set (map f_key createChatbot_schema)) inp"


subsection \<open>The validator against its specification\<close>

lemma first_error_None: "first_error f xs = None \<longleftrightarrow> list_all (\<lambda>x. f x = None) xs"
  by (induction xs) (auto split: option.splits)

lemma here_None [simp]: "here c = None \<longleftrightarrow> c = None"
  by (simp add: here_def)

lemma validate_fields_ok:
  "validate_fields u S inp acc = Inr out \<longleftrightarrow>
   list_all (field_ok u inp) S \<and> out = acc @ missing_defaults S inp"
proof (induction S arbitrary: acc)
  case Nil
  then show ?case by (auto simp: missing_defaults_def)
next
  case (Cons f S)
  then show ?case
    by (auto simp: field_ok_def missing_defaults_def split: option.splits presence.splits)
qed

lemma missing_defaults_SomeD:
  "map_of (missing_defaults S inp) k = Some d \<Longrightarrow>
   \<exists>f\<in>set S. f_key f = k \<and> f_presence f = Default d \<and> map_of inp k = None"
proof (induction S)
  case Nil
  then show ?case by (simp add: missing_defaults_def)
next
  case (Cons f S)
  then show ?case
    by (auto simp: missing_defaults_def split: option.splits presence.splits if_splits)
qed

lemma missing_defaults_keys: "fst ` set (missing_defaults S inp) \<subseteq> f_key ` set S"
  by (auto simp: missing_defaults_def split: option.splits presence.splits)

lemma missing_defaults_field:
  "distinct (map f_key S) \<Longrightarrow> f \<in> set S \<Longrightarrow>
   map_of (missing_defaults S inp) (f_key f) =
     (case (map_of inp (f_key f), f_presence f) of (None, Default d) \<Rightarrow> Some d | _ \<Rightarrow> None)"
proof (induction S)
  case Nil
  then show ?case by simp
next
  case (Cons g S)
  show ?case
  proof (cases "g = f")
    case True
    then have "map_of (missing_defaults S inp) (f_key f) = None"
      using Cons.prems missing_defaults_keys [of S inp] by (auto simp: map_of_eq_None_iff)
    then show ?thesis using True
      by (auto simp: missing_defaults_def split: option.splits presence.splits)
  next
    case False
    then have "f_key g \<noteq> f_key f" using Cons.prems by (auto simp: image_iff)
    then show ?thesis using Cons False
      by (auto simp: missing_defaults_def split: option.splits presence.splits)
  qed
qed

lemma joi_validate_refines:
  "joi_validate S u inp = Inr out \<longleftrightarrow>
   list_all (field_ok u inp) S \<and> list_all (\<lambda>kv. fst kv \<in> set (map f_key S)) inp \<and>
   out = inp @ missing_defaults S inp"
proof (cases "validate_fields u S inp inp")
  case (Inl e)
  then have "\<not> list_all (field_ok u inp) S"
    using validate_fields_ok [of u S inp inp "inp @ missing_defaults S inp"] by auto
  then show ?thesis using Inl by (simp add: joi_validate_def)
next
  case (Inr r)
  then show ?thesis using validate_fields_ok [of u S inp inp r]
    by (auto simp: joi_validate_def list_all_iff find_None_iff find_Some_iff split: option.splits)
qed

lemma validate_field:
  assumes ok: "joi_validate S u inp = Inr out" and d: "distinct (map f_key S)" and f: "f \<in> set S"
  shows "field_ok u inp f \<and>
    map_of out (f_key f) =
      (case map_of inp (f_key f) of Some v \<Rightarrow> Some v
       | None \<Rightarrow> (case f_presence f of Default d \<Rightarrow> Some d | _ \<Rightarrow> None))"
proof -
  have "list_all (field_ok u inp) S" "out = inp @ missing_defaults S inp"
    using ok by (simp_all add: joi_validate_refines)
  then show ?thesis using missing_defaults_field [OF d f, of inp] f
    by (auto simp: list_all_iff map_add_def split: option.splits presence.splits)
qed

subsection \<open>The two schemas and the AI service\<close>

lemma list_all_enumerate: "list_all (\<lambda>(i, x). Q x) (enumerate n xs) \<longleftrightarrow> list_all Q xs"
  by (induction xs arbitrary: n) auto

lemma first_error_items:
  "first_error (\<lambda>(i, x). map_option (\<lambda>(c, p). (c, PIdx i # p)) (g x)) (enumerate n xs) = None \<longleftrightarrow>
   list_all (\<lambda>x. g x = None) xs"
  by (induction xs arbitrary: n) (auto split: option.splits)

lemma check_val_only:
  "check_val (TString (Some ok) rs) u v = None \<longleftrightarrow> (\<exists>s. v = JStr s \<and> s \<in> set ok)"
  by (cases v) auto

lemma check_val_array:
  "check_val (TArray t rs) u v = None \<longleftrightarrow>
   (\<exists>xs. v = JArr xs \<and> list_all (\<lambda>x. check_val t u x = None) xs \<and> first_error (\<lambda>r. arr_rule r xs) rs = None)"
  by (cases v) (auto simp: first_error_items option.case_eq_if)

lemma create_keys_distinct: "distinct (map f_key createChatbot_schema)"
  by (simp add: createChatbot_schema_def js_def)

lemma update_keys_distinct: "distinct (map f_key updateChatbot_schema)"
  by (simp add: updateChatbot_schema_def js_def)

lemma language_table_keys: "map fst language_table = language_codes"
  by (simp add: language_table_def language_codes_def)

lemma create_field_ai:
  "createChatbot_schema ! 2 =
     \<lparr>f_key = js ''ai_model'', f_type = TString (Some ai_model_names) [],
      f_presence = Default (JStr (js ''gpt-3.5-turbo'')), f_messages = []\<rparr>"
  by (simp add: createChatbot_schema_def)

lemma create_field_languages:
  "createChatbot_schema ! 5 =
     \<lparr>f_key = js ''supported_languages'', f_type = TArray (TString (Some language_codes) []) [RMin 1],
      f_presence = Default (JArr [JStr (js ''en'')]), f_messages = []\<rparr>"
  by (simp add: createChatbot_schema_def)

lemma default_color_hex: "hex_color (js ''#2563eb'')"
  by (simp add: hex_color_def is_hex_digit_def js_def)

lemma default_color_nonempty: "js ''#2563eb'' \<noteq> []"
  by (simp add: js_def)

lemma en_language: "js ''en'' \<in> set language_codes"
  by (simp add: language_codes_def)

lemma gpt35_model: "js ''gpt-3.5-turbo'' \<in> set ai_model_names"
  by (simp add: ai_model_names_def)

text \<open>Every model name the schemas allow is one the AI service dispatches to a provider
  under its own id, and every language code they allow has its own prompt directive.\<close>

lemma model_dispatched:
  assumes "m \<in> set ai_model_names"
  shows "ai_models m = Some m \<and>
         dispatch_model X m full =
           (if m = js ''gemini-pro'' then generateGeminiResponse X full else generateOpenAIResponse X m full)"
proof -
  have m3: "m = js ''gpt-4'' \<or> m = js ''gpt-3.5-turbo'' \<or> m = js ''gemini-pro''"
    using assms by (simp add: ai_model_names_def)
  have "ai_models m = Some m" using m3 by (elim disjE) (simp_all add: ai_models_def js_def)
  moreover have "dispatch_model X m full =
             (if m = js ''gemini-pro'' then generateGeminiResponse X full else generateOpenAIResponse X m full)"
    using m3 by (elim disjE) (simp_all add: dispatch_model_def js_startsWith_def js_def)
  ultimately show ?thesis by blast
qed

lemma language_code_directive:
  assumes "l \<in> set language_codes"
  shows "\<exists>d. map_of language_table l = Some d \<and> language_instruction l = d"
proof -
  have "l \<in> fst ` set language_table" using assms language_table_keys by (metis set_map)
  then show ?thesis
    by (cases "map_of language_table l") (auto simp: map_of_eq_None_iff language_instruction_def)
qed

lemma create_model_dispatched:
  assumes "joi_validate createChatbot_schema u inp = Inr out"
  shows "\<exists>m. map_of out (js ''ai_model'') = Some (JStr m) \<and> ai_models m = Some m \<and>
           dispatch_model X m full =
             (if m = js ''gemini-pro'' then generateGeminiResponse X full else generateOpenAIResponse X m full)"
proof -
  have mem: "createChatbot_schema ! 2 \<in> set createChatbot_schema" by (simp add: createChatbot_schema_def)
  obtain m where m: "map_of out (js ''ai_model'') = Some (JStr m)" "m \<in> set ai_model_names"
    using validate_field [OF assms create_keys_distinct mem] unfolding create_field_ai
    by (auto simp add: field_ok_def check_val_only gpt35_model simp del: check_val.simps split: option.splits)
  then show ?thesis using model_dispatched [OF m(2)] by blast
qed

lemma create_languages_directive:
  assumes "joi_validate createChatbot_schema u inp = Inr out"
  shows "\<exists>ls. map_of out (js ''supported_languages'') = Some (JArr ls) \<and> ls \<noteq> [] \<and>
           list_all (\<lambda>v. \<exists>l d. v = JStr l \<and> map_of language_table l = Some d \<and> language_instruction l = d) ls"
proof -
  have mem: "createChatbot_schema ! 5 \<in> set createChatbot_schema" by (simp add: createChatbot_schema_def)
  obtain ls where ls: "map_of out (js ''supported_languages'') = Some (JArr ls)" "ls \<noteq> []"
    "list_all (\<lambda>v. \<exists>l. v = JStr l \<and> l \<in> set language_codes) ls"
    using validate_field [OF assms create_keys_distinct mem] unfolding create_field_languages
    by (auto simp add: field_ok_def check_val_array check_val_only list_all_iff en_language
        simp del: check_val.simps split: option.splits if_splits)
  have "list_all (\<lambda>v. \<exists>l d. v = JStr l \<and> map_of language_table l = Some d \<and> language_instruction l = d) ls"
    using ls(3) by (fastforce simp: list_all_iff dest: language_code_directive)
  then show ?thesis using ls(1,2) by blast
qed

lemma map_of_map_key:
  "distinct (map k xs) \<Longrightarrow> x \<in> set xs \<Longrightarrow> map_of (map (\<lambda>x. (k x, h x)) xs) (k x) = Some (h x)"
  by (induction xs) (auto simp: image_iff)

lemma accepted_by_weaker:
  assumes ok: "joi_validate S u inp = Inr out" and d: "distinct (map f_key S)"
    and keys: "set (map f_key S) \<subseteq> set (map f_key T)"
    and opt: "list_all (\<lambda>g. f_presence g = Optional) T"
    and dT: "distinct (map f_key T)"
    and ty: "list_all (\<lambda>f. map_of (map (\<lambda>g. (f_key g, f_type g)) T) (f_key f) = Some (f_type f)) S"
    and dflt: "\<And>f d. f \<in> set S \<Longrightarrow> f_presence f = Default d \<Longrightarrow> check_val (f_type f) u d = None"
  shows "joi_validate T u out = Inr out"
proof -
  have S: "list_all (field_ok u inp) S" "list_all (\<lambda>kv. fst kv \<in> set (map f_key S)) inp"
    and out: "out = inp @ missing_defaults S inp"
    using ok by (simp_all add: joi_validate_refines)
  have fo: "field_ok u out g" if g: "g \<in> set T" for g
  proof (cases "map_of out (f_key g)")
    case None
    then show ?thesis using opt g by (simp add: field_ok_def list_all_iff)
  next
    case (Some v)
    have "f_key g \<in> fst ` set out" using map_of_SomeD [OF Some] by force
    then have "f_key g \<in> f_key ` set S"
      using S(2) out missing_defaults_keys [of S inp] by (auto simp: list_all_iff)
    then obtain f where f: "f \<in> set S" "f_key f = f_key g" by auto
    have cv: "check_val (f_type f) u v = None"
      using validate_field [OF ok d f(1)] Some f(2) dflt [OF f(1)]
      by (auto simp: field_ok_def split: option.splits presence.splits)
    have "map_of (map (\<lambda>g. (f_key g, f_type g)) T) (f_key g) = Some (f_type g)"
      using dT g by (rule map_of_map_key)
    moreover have "map_of (map (\<lambda>g. (f_key g, f_type g)) T) (f_key f) = Some (f_type f)"
      using ty f(1) by (simp add: list_all_iff)
    ultimately have "f_type f = f_type g" using f(2) by simp
    then show ?thesis using Some cv by (simp add: field_ok_def)
  qed
  have md: "missing_defaults T out = []"
    using opt by (auto simp: missing_defaults_def list_all_iff split: option.splits presence.splits)
  have "list_all (\<lambda>kv. fst kv \<in> set (map f_key T)) out"
    using S(2) out missing_defaults_keys [of S inp] keys by (force simp: list_all_iff)
  then show ?thesis using fo md by (simp add: joi_validate_refines list_all_iff)
qed

text \<open>C23: Every chatbot body the create schema accepts, with its defaults filled in, is accepted unchanged by the update schema.\<close>

theorem created_accepted_by_update:
  "joi_validate createChatbot_schema u inp = Inr out \<Longrightarrow> joi_validate updateChatbot_schema u out = Inr out"
proof (erule accepted_by_weaker)
  show "distinct (map f_key createChatbot_schema)" by (rule create_keys_distinct)
  show "set (map f_key createChatbot_schema) \<subseteq> set (map f_key updateChatbot_schema)"
    by (simp add: createChatbot_schema_def updateChatbot_schema_def)
  show "list_all (\<lambda>g. f_presence g = Optional) updateChatbot_schema"
    by (simp add: updateChatbot_schema_def)
  show "distinct (map f_key updateChatbot_schema)" by (rule update_keys_distinct)
  show "list_all (\<lambda>f. map_of (map (\<lambda>g. (f_key g, f_type g)) updateChatbot_schema) (f_key f) = Some (f_type f))
          createChatbot_schema"
    by (simp add: createChatbot_schema_def updateChatbot_schema_def js_def)
  show "check_val (f_type f) u d = None"
    if "f \<in> set createChatbot_schema" "f_presence f = Default d" for f d
    using that by (auto simp: createChatbot_schema_def gpt35_model default_color_hex default_color_nonempty en_language)
qed

text \<open>C9: Every chatbot the create schema accepts is one the AI service can serve: its model, given or defaulted, is in the models table and is dispatched to Gemini for gemini-pro and to OpenAI otherwise, never to the unsupported-model error; and its non-empty list of supported languages, given or defaulted, has for each language its own directive in the system prompt table, never the English fallback or an inherited Object property.\<close>

theorem create_chatbot_served:
  assumes "joi_validate createChatbot_schema u inp = Inr out"
  shows "(\<exists>m. map_of out (js ''ai_model'') = Some (JStr m) \<and> ai_models m = Some m \<and>
           dispatch_model X m full =
             (if m = js ''gemini-pro'' then generateGeminiResponse X full else generateOpenAIResponse X m full)) \<and>
         (\<exists>ls. map_of out (js ''supported_languages'') = Some (JArr ls) \<and> ls \<noteq> [] \<and>
           list_all (\<lambda>v. \<exists>l d. v = JStr l \<and> map_of language_table l = Some d \<and> language_instruction l = d) ls)"
  using create_model_dispatched [OF assms] create_languages_directive [OF assms] by blast

text \<open>A chatbot name that is a non-empty string shorter than 2 or longer than 100 code units is rejected first, at the key name, with the schema's own message for the bound it breaks.\<close>

theorem create_name_length:
  "map_of inp (js ''name'') = Some (JStr n) \<Longrightarrow> n \<noteq> [] \<Longrightarrow> \<not> (2 \<le> length n \<and> length n \<le> 100) \<Longrightarrow>
   joi_validate createChatbot_schema u inp =
     Inl \<lparr>je_code = (if length n < 2 then StringMin else StringMax), je_path = [PKey (js ''name'')],
          je_message = Some (if length n < 2 then js ''Chatbot name must be at least 2 characters long''
                             else js ''Chatbot name cannot exceed 100 characters'')\<rparr>"
  by (auto simp: joi_validate_def createChatbot_schema_def field_error_def here_def)

lemma create_bot_ok:
  "joi_validate createChatbot_schema u
     [(js ''name'', JStr (js ''Support bot'')), (js ''ai_model'', JStr (js ''gemini-pro'')),
      (js ''supported_languages'', JArr [JStr (js ''ne''), JStr (js ''ja'')])] =
   Inr [(js ''name'', JStr (js ''Support bot'')), (js ''ai_model'', JStr (js ''gemini-pro'')),
        (js ''supported_languages'', JArr [JStr (js ''ne''), JStr (js ''ja'')]),
        (js ''primary_color'', JStr (js ''#2563eb''))]"
  by (simp add: joi_validate_def createChatbot_schema_def ai_model_names_def language_codes_def here_def js_def)

lemma create_chatbot_served_witness:
  "joi_validate createChatbot_schema (\<lambda>_. True)
     [(js ''name'', JStr (js ''Support bot'')), (js ''ai_model'', JStr (js ''gemini-pro'')),
      (js ''supported_languages'', JArr [JStr (js ''ne''), JStr (js ''ja'')])] =
   Inr [(js ''name'', JStr (js ''Support bot'')), (js ''ai_model'', JStr (js ''gemini-pro'')),
        (js ''supported_languages'', JArr [JStr (js ''ne''), JStr (js ''ja'')]),
        (js ''primary_color'', JStr (js ''#2563eb''))] \<and>
   (\<exists>m. map_of [(js ''name'', JStr (js ''Support bot'')), (js ''ai_model'', JStr (js ''gemini-pro'')),
        (js ''supported_languages'', JArr [JStr (js ''ne''), JStr (js ''ja'')]),
        (js ''primary_color'', JStr (js ''#2563eb''))] (js ''ai_model'') = Some (JStr m) \<and> ai_models m = Some m \<and>
           dispatch_model ext_ok m [] =
             (if m = js ''gemini-pro'' then generateGeminiResponse ext_ok [] else generateOpenAIResponse ext_ok m [])) \<and>
   (\<exists>ls. map_of [(js ''name'', JStr (js ''Support bot'')), (js ''ai_model'', JStr (js ''gemini-pro'')),
        (js ''supported_languages'', JArr [JStr (js ''ne''), JStr (js ''ja'')]),
        (js ''primary_color'', JStr (js ''#2563eb''))] (js ''supported_languages'') = Some (JArr ls) \<and> ls \<noteq> [] \<and>
     list_all (\<lambda>v. \<exists>l d. v = JStr l \<and> map_of language_table l = Some d \<and> language_instruction l = d) ls)"
  using create_chatbot_served [OF create_bot_ok, of ext_ok "[]"] create_bot_ok by blast

lemma create_name_length_witness:
  "map_of [(js ''name'', JStr (js ''B''))] (js ''name'') = Some (JStr (js ''B'')) \<and> js ''B'' \<noteq> [] \<and>
   \<not> (2 \<le> length (js ''B'') \<and> length (js ''B'') \<le> 100) \<and>
   joi_validate createChatbot_schema (\<lambda>_. True) [(js ''name'', JStr (js ''B''))] =
     Inl \<lparr>je_code = StringMin, je_path = [PKey (js ''name'')],
          je_message = Some (js ''Chatbot name must be at least 2 characters long'')\<rparr>"
  using create_name_length [of "[(js ''name'', JStr (js ''B''))]" "js ''B''" "\<lambda>_. True"]
  by (simp add: js_def)

lemma created_accepted_by_update_witness:
  "joi_validate createChatbot_schema (\<lambda>_. True)
     [(js ''name'', JStr (js ''Support bot'')), (js ''ai_model'', JStr (js ''gemini-pro'')),
      (js ''supported_languages'', JArr [JStr (js ''ne''), JStr (js ''ja'')])] =
   Inr [(js ''name'', JStr (js ''Support bot'')), (js ''ai_model'', JStr (js ''gemini-pro'')),
        (js ''supported_languages'', JArr [JStr (js ''ne''), JStr (js ''ja'')]),
        (js ''primary_color'', JStr (js ''#2563eb''))] \<and>
   joi_validate updateChatbot_schema (\<lambda>_. True)
     [(js ''name'', JStr (js ''Support bot'')), (js ''ai_model'', JStr (js ''gemini-pro'')),
      (js ''supported_languages'', JArr [JStr (js ''ne''), JStr (js ''ja'')]),
      (js ''primary_color'', JStr (js ''#2563eb''))] =
   Inr [(js ''name'', JStr (js ''Support bot'')), (js ''ai_model'', JStr (js ''gemini-pro'')),
        (js ''supported_languages'', JArr [JStr (js ''ne''), JStr (js ''ja'')]),
        (js ''primary_color'', JStr (js ''#2563eb''))]"
  using created_accepted_by_update [OF create_bot_ok] create_bot_ok by simp


subsection \<open>The contract of the create schema\<close>

lemma hex_color_nonempty: "hex_color s \<Longrightarrow> s \<noteq> []"
  by (auto simp: hex_color_def)

lemma check_str_range: "check_val (TString None [RMin lo, RMax hi]) u v = None \<longleftrightarrow> str_ok lo hi v"
  by (cases v) (auto simp: str_ok_def here_def)

lemma check_str_max: "check_val (TString None [RMax hi]) u v = None \<longleftrightarrow> str_ok 0 hi v"
  by (cases v) (auto simp: str_ok_def here_def)

lemma check_str_only: "check_val (TString (Some vs) []) u v = None \<longleftrightarrow> one_of vs v"
  by (cases v) (auto simp: one_of_def)

lemma check_color: "check_val (TString None [RPattern hex_color]) u v = None \<longleftrightarrow> color_ok v"
  by (cases v) (auto simp: color_ok_def here_def dest: hex_color_nonempty)

lemma check_uri: "check_val (TString None [RUri]) u v = None \<longleftrightarrow> uri_val u v"
  by (cases v) (auto simp: uri_val_def here_def)

lemma check_langs: "check_val (TArray (TString (Some language_codes) []) [RMin (Suc 0)]) u v = None \<longleftrightarrow> langs_ok v"
  by (auto simp: check_val_array langs_ok_def check_str_only here_def list_all_iff simp del: check_val.simps
      split: jval.splits)

lemma field_ok_optional:
  "f_presence f \<noteq> Required \<Longrightarrow> (\<And>v. check_val (f_type f) u v = None \<longleftrightarrow> P v) \<Longrightarrow>
   field_ok u inp f \<longleftrightarrow> opt_key P (f_key f) inp"
  by (simp add: field_ok_def opt_key_def split: option.splits)

lemma field_ok_required:
  "f_presence f = Required \<Longrightarrow> (\<And>v. check_val (f_type f) u v = None \<longleftrightarrow> P v) \<Longrightarrow>
   field_ok u inp f \<longleftrightarrow> (case map_of inp (f_key f) of None \<Rightarrow> False | Some v \<Rightarrow> P v)"
  by (simp add: field_ok_def split: option.splits)

text \<open>C11: The create schema accepts a body exactly when its name is a string of 2 to 100 code units; its description and welcome message, when given, are non-empty strings of at most 500; its model, when given, is gpt-4, gpt-3.5-turbo or gemini-pro; its colour, when given, is # and six hex digits; its languages, when given, are a non-empty list of the eight codes; its logo URL, when given, is a non-empty URI; and it has no other key. The result is then the body with the defaults of the missing keys appended.\<close>

theorem create_validate_contract:
  "joi_validate createChatbot_schema u inp = Inr out \<longleftrightarrow>
   create_contract u inp \<and> out = inp @ missing_defaults createChatbot_schema inp"
proof -
  have "list_all (field_ok u inp) createChatbot_schema \<longleftrightarrow>
        (case map_of inp (js ''name'') of None \<Rightarrow> False | Some v \<Rightarrow> str_ok 2 100 v) \<and>
        opt_key (str_ok 0 500) (js ''description'') inp \<and>
        opt_key (one_of ai_model_names) (js ''ai_model'') inp \<and>
        opt_key (str_ok 0 500) (js ''welcome_message'') inp \<and>
        opt_key color_ok (js ''primary_color'') inp \<and>
        opt_key langs_ok (js ''supported_languages'') inp \<and>
        opt_key (uri_val u) (js ''logo_url'') inp"
    unfolding createChatbot_schema_def list.pred_inject
    by (simp add: field_ok_optional field_ok_required check_str_range check_str_max check_str_only
        check_color check_uri check_langs del: check_val.simps)
  then show ?thesis
    unfolding joi_validate_refines create_contract_def by blast
qed

subsection \<open>Types of the validated body\<close>




end
