(* ===== verification/ChatbotPage.thy ===== *)
theory ChatbotPage
  imports ChatbotSchema
begin

text \<open>
  The chatbot configuration page of the frontend, \<open>ChatbotPage\<close>
  (src/project/src/pages/ChatbotPage.tsx). Its state is seven \<open>useState\<close> hooks; the
  controls change them: the company name and welcome message inputs, the model select
  (offering the ids of \<open>aiModels\<close>), the language buttons (offering the codes of
  \<open>languages\<close>, toggled by \<open>handleLanguageToggle\<close>), the colour picker (whose
  \<open>color.hex\<close> is a hex colour code), and the logo upload (a data URL read from the file).
  The deployment box shows \<open>chatbotUrl\<close>, derived from the company name. The Save button
  has no handler, so the configuration never leaves the page; the theorems relate it to
  the request schema and the AI service's tables it would have to meet.
  \<open>toLowerCase\<close> is the ASCII lowering of \<open>Prelude\<close>.
\<close>

definition page_models :: "jstr list" where
  "page_models = [js ''gpt-4'', js ''gpt-3.5-turbo'', js ''gemini-pro'']"

definition page_languages :: "jstr list" where
  "page_languages = [js ''en'', js ''es'', js ''fr'', js ''de'', js ''hi'', js ''ne'', js ''zh'', js ''ja'']"

record page_state =
  selectedModel :: jstr
  selectedLanguages :: "jstr list"
  companyName :: jstr
  welcomeMessage :: jstr
  primaryColor :: jstr
  showColorPicker :: bool
  logo :: "jstr option"

definition page_init :: page_state where
  "page_init =
     \<lparr>selectedModel = js ''gpt-4'', selectedLanguages = [js ''en''], companyName = js ''Your Company'',
      welcomeMessage = js ''Hi! How can I help you today?'', primaryColor = js ''#2563eb'',
      showColorPicker = False, logo = None\<rparr>"

definition handleLanguageToggle :: "jstr \<Rightarrow> jstr list \<Rightarrow> jstr list" where
  "handleLanguageToggle l prev = (if l \<in> set prev then filter (\<lambda>c. c \<noteq> l) prev else prev @ [l])"


datatype page_event =
    SetCompany jstr | SetModel jstr | SetWelcome jstr | ToggleLang jstr
  | TogglePicker | ClosePicker | SetColor jstr | SetLogo jstr

fun page_step :: "page_state \<Rightarrow> page_event \<Rightarrow> page_state" where
  "page_step s (SetCompany c) = s\<lparr>companyName := c\<rparr>"
| "page_step s (SetModel m) = s\<lparr>selectedModel := m\<rparr>"
| "page_step s (SetWelcome w) = s\<lparr>welcomeMessage := w\<rparr>"
| "page_step s (ToggleLang l) = s\<lparr>selectedLanguages := handleLanguageToggle l (selectedLanguages s)\<rparr>"
| "page_step s TogglePicker = s\<lparr>showColorPicker := \<not> showColorPicker s\<rparr>"
| "page_step s ClosePicker = s\<lparr>showColorPicker := False\<rparr>"
| "page_step s (SetColor c) = s\<lparr>primaryColor := c\<rparr>"
| "page_step s (SetLogo d) = s\<lparr>logo := Some d\<rparr>"

text \<open>The values the page's controls can produce.\<close>

fun page_offers :: "page_event \<Rightarrow> bool" where
  "page_offers (SetModel m) \<longleftrightarrow> m \<in> set page_models"
| "page_offers (ToggleLang l) \<longleftrightarrow> l \<in> set page_languages"
| "page_offers (SetColor c) \<longleftrightarrow> hex_color c"
| "page_offers _ \<longleftrightarrow> True"

inductive page_reach :: "page_state \<Rightarrow> bool" where
  init: "page_reach page_init"
| step: "page_reach s \<Longrightarrow> page_offers e \<Longrightarrow> page_reach (page_step s e)"

subsection \<open>The page's state and the request schema\<close>

lemma page_models_schema: "page_models = ai_model_names"
  by (simp add: page_models_def ai_model_names_def)

lemma page_languages_schema: "page_languages = language_codes"
  by (simp add: page_languages_def language_codes_def)

lemma set_handleLanguageToggle:
  "set (handleLanguageToggle l xs) = (if l \<in> set xs then set xs - {l} else insert l (set xs))"
  by (auto simp: handleLanguageToggle_def)

lemma distinct_handleLanguageToggle: "distinct xs \<Longrightarrow> distinct (handleLanguageToggle l xs)"
  by (auto simp: handleLanguageToggle_def)

lemma page_reach_inv:
  "page_reach s \<Longrightarrow> selectedModel s \<in> set page_models \<and> distinct (selectedLanguages s) \<and>
     set (selectedLanguages s) \<subseteq> set page_languages \<and> hex_color (primaryColor s)"
proof (induction rule: page_reach.induct)
  case init
  then show ?case
    by (simp add: page_init_def page_models_def page_languages_def hex_color_def is_hex_digit_def js_def)
next
  case (step s e)
  then show ?case
    by (cases e) (auto simp: distinct_handleLanguageToggle set_handleLanguageToggle split: if_splits)
qed

text \<open>C33: In every state of the configuration page, the selected model is one the AI service dispatches to a provider under its own id, the selected languages are distinct codes each with its own directive in the system prompt table, and the colour is a hex colour code the schema's pattern accepts.\<close>

theorem page_config_served:
  assumes "page_reach s"
  shows "ai_models (selectedModel s) = Some (selectedModel s) \<and>
         dispatch_model X (selectedModel s) full =
           (if selectedModel s = js ''gemini-pro'' then generateGeminiResponse X full
            else generateOpenAIResponse X (selectedModel s) full) \<and>
         distinct (selectedLanguages s) \<and>
         list_all (\<lambda>l. \<exists>d. map_of language_table l = Some d \<and> language_instruction l = d) (selectedLanguages s) \<and>
         check_val (TString None [RPattern hex_color]) u (JStr (primaryColor s)) = None"
proof -
  note inv = page_reach_inv [OF assms]
  have m: "selectedModel s \<in> set ai_model_names" using inv page_models_schema by simp
  have "list_all (\<lambda>l. l \<in> set language_codes) (selectedLanguages s)"
    using inv page_languages_schema by (auto simp: list_all_iff)
  then have "list_all (\<lambda>l. \<exists>d. map_of language_table l = Some d \<and> language_instruction l = d) (selectedLanguages s)"
    by (auto simp: list_all_iff language_instruction_def dest!: language_code_directive)
  moreover have "check_val (TString None [RPattern hex_color]) u (JStr (primaryColor s)) = None"
    using inv by (simp add: here_def hex_color_nonempty)
  ultimately show ?thesis using inv model_dispatched [OF m] by blast
qed




lemma page_config_served_witness:
  "page_reach (page_step page_init (SetModel (js ''gemini-pro''))) \<and>
   ai_models (js ''gemini-pro'') = Some (js ''gemini-pro'') \<and>
   dispatch_model ext_ok (js ''gemini-pro'') [] = generateGeminiResponse ext_ok [] \<and>
   distinct (selectedLanguages (page_step page_init (SetModel (js ''gemini-pro''))))"
proof -
  have r: "page_reach (page_step page_init (SetModel (js ''gemini-pro'')))"
    by (rule page_reach.step [OF page_reach.init]) (simp add: page_models_def)
  from page_config_served [OF r, of ext_ok "[]" "\<lambda>_. True"] r show ?thesis
    by (simp add: page_init_def)
qed

end
