(* ===== verification/AuthSession.thy ===== *)
theory AuthSession
  imports ChatbotSchema
begin

text \<open>
  The frontend's API client and session, \<open>api\<close> (src/project/src/lib/api.ts) and
  \<open>AuthProvider\<close> (src/project/src/contexts/AuthContext.tsx). The client builds one
  request per endpoint from the base URL (\<open>VITE_API_URL\<close>, or the local default when it
  is unset or empty). The provider keeps the user and profile in React state and the
  token and user in \<open>localStorage\<close>; on mount it restores the session from storage,
  and its operations sign up, sign in, sign out and update the profile, showing a toast
  and rethrowing on every failure.

  The model's state holds the React state, the two storage keys, the toasts shown and
  the requests sent. JavaScript values are \<open>jsv\<close>: \<open>undefined\<close> or a JSON value
  (\<open>null\<close> is \<open>JNull\<close>). A stored value is either a raw string or the text
  \<open>JSON.stringify(v)\<close> of a JSON value \<open>v\<close>, which \<open>JSON.parse\<close> reads back as
  \<open>v\<close>. The network is an oracle: for the n-th request it rejects with a message (no
  connection) or answers with a status flag and a body that is JSON or not (its parse
  error message). Only keys of JSON objects are read as properties.
\<close>

subsection \<open>JavaScript values\<close>

datatype jsv = Undef | Val jval

fun truthy :: "jsv \<Rightarrow> bool" where
  "truthy Undef \<longleftrightarrow> False"
| "truthy (Val JNull) \<longleftrightarrow> False"
| "truthy (Val (JStr s)) \<longleftrightarrow> s \<noteq> []"
| "truthy (Val (JBool b)) \<longleftrightarrow> b"
| "truthy (Val (JNum n)) \<longleftrightarrow> n \<noteq> 0"
| "truthy (Val (JArr xs)) \<longleftrightarrow> True"
| "truthy (Val (JObj kvs)) \<longleftrightarrow> True"

fun obj_get :: "jsv \<Rightarrow> jstr \<Rightarrow> jsv" where
  "obj_get (Val (JObj kvs)) k = (case map_of kvs k of Some v \<Rightarrow> Val v | None \<Rightarrow> Undef)"
| "obj_get _ k = Undef"

text \<open>\<open>String(v)\<close> of a JSON value: array elements that are null print as empty.\<close>

fun js_String :: "jval \<Rightarrow> jstr" where
  "js_String (JStr s) = s"
| "js_String (JNum n) = (if n < 0 then js ''-'' @ js_of_nat (nat (- n)) else js_of_nat (nat n))"
| "js_String (JBool b) = (if b then js ''true'' else js ''false'')"
| "js_String JNull = js ''null''"
| "js_String (JObj kvs) = js ''[object Object]''"
| "js_String (JArr xs) = js_join (js '','') (map (\<lambda>x. if x = JNull then [] else js_String x) xs)"

text \<open>Object spread \<open>{...a, ...b}\<close>: a key of \<open>b\<close> already in \<open>a\<close> keeps its place
  and takes the new value, a new key is appended.\<close>

fun obj_set :: "(jstr \<times> jval) list \<Rightarrow> jstr \<Rightarrow> jval \<Rightarrow> (jstr \<times> jval) list" where
  "obj_set [] k v = [(k, v)]"
| "obj_set ((k', v') # r) k v = (if k' = k then (k, v) # r else (k', v') # obj_set r k v)"

definition obj_merge :: "(jstr \<times> jval) list \<Rightarrow> (jstr \<times> jval) list \<Rightarrow> (jstr \<times> jval) list" where
  "obj_merge a b = foldl (\<lambda>acc kv. obj_set acc (fst kv) (snd kv)) a b"

fun spread_entries :: "jsv \<Rightarrow> (jstr \<times> jval) list" where
  "spread_entries (Val (JObj kvs)) = kvs"
| "spread_entries _ = []"

subsection \<open>The API client\<close>

datatype req_body = JsonBody jval | FormBody jstr jstr

record request =
  rq_method :: jstr
  rq_url :: jstr
  rq_headers :: "(jstr \<times> jstr) list"
  rq_body :: req_body

record response =
  rs_ok :: bool
  rs_json :: "jstr + jval"

type_synonym fetch_oracle = "nat \<Rightarrow> request \<Rightarrow> jstr + response"

definition default_api_url :: jstr where
  "default_api_url = js ''http://localhost:3002/api''"

text \<open>\<open>import.meta.env.VITE_API_URL || 'http://localhost:3002/api'\<close>\<close>

definition api_url :: "jstr option \<Rightarrow> jstr" where
  "api_url env = (case env of Some u \<Rightarrow> if u = [] then default_api_url else u | None \<Rightarrow> default_api_url)"

definition json_headers :: "(jstr \<times> jstr) list" where
  "json_headers = [(js ''Content-Type'', js ''application/json'')]"

definition bearer :: "jstr \<Rightarrow> jstr \<times> jstr" where
  "bearer t = (js ''Authorization'', js ''Bearer '' @ t)"

definition api_register :: "jstr option \<Rightarrow> jval \<Rightarrow> request" where
  "api_register env d = \<lparr>rq_method = js ''POST'', rq_url = api_url env @ js ''/auth/register'',
     rq_headers = json_headers, rq_body = JsonBody d\<rparr>"

definition api_login :: "jstr option \<Rightarrow> jval \<Rightarrow> request" where
  "api_login env d = \<lparr>rq_method = js ''POST'', rq_url = api_url env @ js ''/auth/login'',
     rq_headers = json_headers, rq_body = JsonBody d\<rparr>"

definition api_uploadDocument :: "jstr option \<Rightarrow> jstr \<Rightarrow> jstr \<Rightarrow> request" where
  "api_uploadDocument env file token = \<lparr>rq_method = js ''POST'', rq_url = api_url env @ js ''/documents/upload'',
     rq_headers = [bearer token], rq_body = FormBody (js ''document'') file\<rparr>"

definition api_createChatbot :: "jstr option \<Rightarrow> jval \<Rightarrow> jstr \<Rightarrow> request" where
  "api_createChatbot env d token = \<lparr>rq_method = js ''POST'', rq_url = api_url env @ js ''/chatbots'',
     rq_headers = json_headers @ [bearer token], rq_body = JsonBody d\<rparr>"

definition api_sendMessage :: "jstr option \<Rightarrow> jstr \<Rightarrow> jval \<Rightarrow> request" where
  "api_sendMessage env chatbotId m = \<lparr>rq_method = js ''POST'', rq_url = api_url env @ js ''/chat/'' @ chatbotId,
     rq_headers = json_headers, rq_body = JsonBody m\<rparr>"

subsection \<open>The session state\<close>

datatype sval = SRaw jstr | SJson jval

record auth_state =
  a_user :: jsv
  a_profile :: jsv
  a_loading :: bool
  ls_token :: "sval option"
  ls_user :: "sval option"
  a_toasts :: "(bool \<times> jstr) list"
  a_requests :: "request list"

text \<open>\<open>localStorage.setItem(k, v)\<close> stores \<open>String(v)\<close>; \<open>JSON.stringify(undefined)\<close> is
  \<open>undefined\<close>, which is stored as the string "undefined".\<close>

fun store_string :: "jsv \<Rightarrow> sval" where
  "store_string Undef = SRaw (js ''undefined'')"
| "store_string (Val v) = SRaw (js_String v)"

fun store_json :: "jsv \<Rightarrow> sval" where
  "store_json Undef = SRaw (js ''undefined'')"
| "store_json (Val v) = SJson v"

fun item_truthy :: "sval option \<Rightarrow> bool" where
  "item_truthy None \<longleftrightarrow> False"
| "item_truthy (Some (SRaw s)) \<longleftrightarrow> s \<noteq> []"
| "item_truthy (Some (SJson v)) \<longleftrightarrow> True"

text \<open>\<open>JSON.parse\<close> of a stored item. The only raw string this code writes under the key
  user is "undefined", which is not JSON.\<close>

fun json_parse :: "sval \<Rightarrow> error + jval" where
  "json_parse (SJson v) = Inr v"
| "json_parse (SRaw s) = Inl (Error (js ''SyntaxError''))"

fun item_text :: "sval option \<Rightarrow> jstr" where
  "item_text None = js ''null''"
| "item_text (Some (SRaw s)) = s"
| "item_text (Some (SJson v)) = js_String v"

definition do_fetch :: "fetch_oracle \<Rightarrow> request \<Rightarrow> auth_state \<Rightarrow> (jstr + response) \<times> auth_state" where
  "do_fetch F r s = (F (length (a_requests s)) r, s\<lparr>a_requests := a_requests s @ [r]\<rparr>)"

text \<open>The common catch block: \<open>toast.error(error.message || dflt); throw error\<close>.\<close>

definition fail_toast :: "jstr \<Rightarrow> error \<Rightarrow> auth_state \<Rightarrow> (error + unit) \<times> auth_state" where
  "fail_toast dflt e s =
     (Inl e, s\<lparr>a_toasts := a_toasts s @ [(False, if err_msg e = [] then dflt else err_msg e)]\<rparr>)"

definition succeed_toast :: "jstr \<Rightarrow> auth_state \<Rightarrow> (error + unit) \<times> auth_state" where
  "succeed_toast m s = (Inr (), s\<lparr>a_toasts := a_toasts s @ [(True, m)]\<rparr>)"

subsection \<open>The provider's operations\<close>

text \<open>The mount effect: restore the session when both items are set.\<close>

definition auth_init :: "auth_state \<Rightarrow> (error + unit) \<times> auth_state" where
  "auth_init s =
     (if item_truthy (ls_token s) \<and> item_truthy (ls_user s) then
        (case json_parse (the (ls_user s)) of
           Inl e \<Rightarrow> (Inl e, s)
         | Inr v \<Rightarrow> (Inr (), s\<lparr>a_user := Val v, a_profile := Val v, a_loading := False\<rparr>))
      else (Inr (), s\<lparr>a_loading := False\<rparr>))"

text \<open>A page load: fresh React state over the stored items, then the mount effect.\<close>

definition auth_load :: "auth_state \<Rightarrow> (error + unit) \<times> auth_state" where
  "auth_load s = auth_init (s\<lparr>a_user := Val JNull, a_profile := Val JNull, a_loading := True\<rparr>)"

definition signUp ::
  "jstr option \<Rightarrow> fetch_oracle \<Rightarrow> jstr \<Rightarrow> jstr \<Rightarrow> jstr \<Rightarrow> auth_state \<Rightarrow> (error + unit) \<times> auth_state" where
  "signUp env F email password companyName s =
     (let (r, s1) = do_fetch F (api_register env (JObj [(js ''email'', JStr email), (js ''password'', JStr password),
                                                      (js ''company_name'', JStr companyName)])) s
      in case r of
           Inl m \<Rightarrow> fail_toast (js ''Error during sign up'') (Error m) s1
         | Inr resp \<Rightarrow>
             if \<not> rs_ok resp then fail_toast (js ''Error during sign up'') (Error (js ''Sign up failed'')) s1
             else succeed_toast (js ''Account created successfully!'') s1)"

definition login_failure :: "jval \<Rightarrow> jstr" where
  "login_failure result =
     (let m = obj_get (Val result) (js ''message'') in
      if truthy m then (case m of Val v \<Rightarrow> js_String v | Undef \<Rightarrow> []) else js ''Login failed'')"

definition destructure_error :: error where
  "destructure_error = Error (js ''Cannot destructure property 'user' of 'result.data' as it is undefined.'')"

definition signIn ::
  "jstr option \<Rightarrow> fetch_oracle \<Rightarrow> jstr \<Rightarrow> jstr \<Rightarrow> auth_state \<Rightarrow> (error + unit) \<times> auth_state" where
  "signIn env F email password s =
     (let (r, s1) = do_fetch F (api_login env (JObj [(js ''email'', JStr email), (js ''password'', JStr password)])) s
      in case r of
           Inl m \<Rightarrow> fail_toast (js ''Error during login'') (Error m) s1
         | Inr resp \<Rightarrow>
             (case rs_json resp of
                Inl m \<Rightarrow> fail_toast (js ''Error during login'') (Error m) s1
              | Inr result \<Rightarrow>
                  if \<not> rs_ok resp then fail_toast (js ''Error during login'') (Error (login_failure result)) s1
                  else
                    (let d = obj_get (Val result) (js ''data'') in
                     if d = Undef \<or> d = Val JNull then fail_toast (js ''Error during login'') destructure_error s1
                     else
                       (let u = obj_get d (js ''user''); t = obj_get d (js ''token'') in
                        succeed_toast (js ''Signed in successfully!'')
                          (s1\<lparr>ls_token := Some (store_string t), ls_user := Some (store_json u),
                               a_user := u, a_profile := u\<rparr>)))))"

definition signOut :: "auth_state \<Rightarrow> (error + unit) \<times> auth_state" where
  "signOut s =
     succeed_toast (js ''Signed out successfully!'')
       (s\<lparr>ls_token := None, ls_user := None, a_user := Val JNull, a_profile := Val JNull\<rparr>)"

text \<open>\<open>`${import.meta.env.VITE_API_URL}/auth/profile`\<close>: no fallback here, and an unset
  variable prints as "undefined".\<close>

definition profile_url :: "jstr option \<Rightarrow> jstr" where
  "profile_url env = (case env of Some u \<Rightarrow> u | None \<Rightarrow> js ''undefined'') @ js ''/auth/profile''"

definition updateProfile ::
  "jstr option \<Rightarrow> fetch_oracle \<Rightarrow> jval \<Rightarrow> auth_state \<Rightarrow> (error + unit) \<times> auth_state" where
  "updateProfile env F updates s =
     (if \<not> item_truthy (ls_token s) \<or> \<not> truthy (a_user s) then
        fail_toast (js ''Error updating profile'') (Error (js ''Not authenticated'')) s
      else
        (let (r, s1) = do_fetch F \<lparr>rq_method = js ''PUT'', rq_url = profile_url env,
                                   rq_headers = json_headers @ [bearer (item_text (ls_token s))],
                                   rq_body = JsonBody updates\<rparr> s
         in case r of
              Inl m \<Rightarrow> fail_toast (js ''Error updating profile'') (Error m) s1
            | Inr resp \<Rightarrow>
                if \<not> rs_ok resp then fail_toast (js ''Error updating profile'') (Error (js ''Failed to update profile'')) s1
                else
                  (let updated = JObj (obj_merge (spread_entries (a_profile s)) (spread_entries (Val updates))) in
                   succeed_toast (js ''Profile updated!'')
                     (s1\<lparr>a_profile := Val updated, ls_user := Some (SJson updated)\<rparr>))))"

subsection \<open>Sessions\<close>

datatype auth_event =
    Load
  | SignUp "jstr option" fetch_oracle jstr jstr jstr
  | SignIn "jstr option" fetch_oracle jstr jstr
  | SignOut
  | UpdateProfile "jstr option" fetch_oracle jval

fun auth_step :: "auth_state \<Rightarrow> auth_event \<Rightarrow> auth_state" where
  "auth_step s Load = snd (auth_load s)"
| "auth_step s (SignUp env F e p c) = snd (signUp env F e p c s)"
| "auth_step s (SignIn env F e p) = snd (signIn env F e p s)"
| "auth_step s SignOut = snd (signOut s)"
| "auth_step s (UpdateProfile env F u) = snd (updateProfile env F u s)"

text \<open>A first visit: empty storage, the mount effect not yet run.\<close>

definition auth_fresh :: auth_state where
  "auth_fresh = \<lparr>a_user = Val JNull, a_profile = Val JNull, a_loading = True, ls_token = None, ls_user = None,
                 a_toasts = [], a_requests = []\<rparr>"

inductive auth_reach :: "auth_state \<Rightarrow> bool" where
  fresh: "auth_reach auth_fresh"
| step: "auth_reach s \<Longrightarrow> auth_reach (auth_step s e)"

text \<open>Server answers used by the examples: a successful login, any successful request,
  and a successful login whose data has a token but no user.\<close>

definition user_acme :: jval where
  "user_acme = JObj [(js ''id'', JStr (js ''u1'')), (js ''email'', JStr (js ''a@acme.com'')),
                     (js ''company_name'', JStr (js ''Acme''))]"

definition login_oracle :: fetch_oracle where
  "login_oracle n r = Inr \<lparr>rs_ok = True,
     rs_json = Inr (JObj [(js ''data'', JObj [(js ''user'', user_acme), (js ''token'', JStr (js ''tok''))])])\<rparr>"

definition ok_oracle :: fetch_oracle where
  "ok_oracle n r = Inr \<lparr>rs_ok = True, rs_json = Inr (JObj [])\<rparr>"

definition nouser_oracle :: fetch_oracle where
  "nouser_oracle n r = Inr \<lparr>rs_ok = True, rs_json = Inr (JObj [(js ''data'', JObj [(js ''token'', JStr (js ''tok''))])])\<rparr>"

text \<open>What every session state satisfies: the two storage keys are written and removed
  together, and a signed-in user in React state implies the token key is set.\<close>

definition session_ok :: "auth_state \<Rightarrow> bool" where
  "session_ok s \<longleftrightarrow> (ls_token s = None \<longleftrightarrow> ls_user s = None) \<and> (truthy (a_user s) \<longrightarrow> ls_token s \<noteq> None)"

subsection \<open>Properties of the session\<close>

lemma item_truthy_some: "item_truthy x \<Longrightarrow> x \<noteq> None"
  by (cases x rule: item_truthy.cases) auto

lemma session_ok_load: "session_ok s \<Longrightarrow> session_ok (snd (auth_load s))"
  by (auto simp: session_ok_def auth_load_def auth_init_def dest: item_truthy_some split: sum.splits)

lemma session_ok_signUp: "session_ok s \<Longrightarrow> session_ok (snd (signUp env F e p c s))"
  by (auto simp: session_ok_def signUp_def do_fetch_def fail_toast_def succeed_toast_def
      split: sum.splits prod.splits)

lemma session_ok_signIn: "session_ok s \<Longrightarrow> session_ok (snd (signIn env F e p s))"
  by (auto simp: session_ok_def signIn_def do_fetch_def fail_toast_def succeed_toast_def Let_def
      split: sum.splits prod.splits)

lemma session_ok_signOut: "session_ok (snd (signOut s))"
  by (simp add: session_ok_def signOut_def succeed_toast_def)

lemma session_ok_update: "session_ok s \<Longrightarrow> session_ok (snd (updateProfile env F u s))"
  by (auto simp: session_ok_def updateProfile_def do_fetch_def fail_toast_def succeed_toast_def Let_def
      dest: item_truthy_some split: sum.splits prod.splits)

text \<open>C13: In every state a browser session reaches from a first visit, through any sequence of page loads, sign-ups, sign-ins, sign-outs and profile updates with any server answers, the token and user storage items are set and removed together, and whenever React state holds a user the token item is set.\<close>

theorem auth_session_consistent:
  "auth_reach s \<Longrightarrow> (ls_token s = None \<longleftrightarrow> ls_user s = None) \<and> (truthy (a_user s) \<longrightarrow> ls_token s \<noteq> None)"
proof (induction rule: auth_reach.induct)
  case fresh
  then show ?case by (simp add: auth_fresh_def)
next
  case (step s e)
  from step.IH have "session_ok s" unfolding session_ok_def .
  then have "session_ok (auth_step s e)"
    by (cases e) (simp_all add: session_ok_load session_ok_signUp session_ok_signIn session_ok_signOut
        session_ok_update)
  then show ?case unfolding session_ok_def .
qed

text \<open>C26: A successful profile update changes the profile and the stored user but not the user in React state, which keeps the old object until the next page load restores the updated one from storage.\<close>

theorem updateProfile_stale_user:
  assumes u: "a_user s = Val (JObj kvs)" "a_profile s = Val (JObj kvs)"
    and tok: "ls_token s = Some (SRaw t)" "t \<noteq> []"
    and net: "F (length (a_requests s))
                \<lparr>rq_method = js ''PUT'', rq_url = profile_url env, rq_headers = json_headers @ [bearer t],
                 rq_body = JsonBody upd\<rparr> = Inr resp" "rs_ok resp"
  shows "fst (updateProfile env F upd s) = Inr () \<and>
         a_user (snd (updateProfile env F upd s)) = Val (JObj kvs) \<and>
         a_profile (snd (updateProfile env F upd s)) = Val (JObj (obj_merge kvs (spread_entries (Val upd)))) \<and>
         a_user (snd (auth_load (snd (updateProfile env F upd s)))) = Val (JObj (obj_merge kvs (spread_entries (Val upd))))"
  using assms
  by (simp add: updateProfile_def do_fetch_def succeed_toast_def auth_load_def auth_init_def Let_def)

text \<open>C25: A sign-in answered with success but without data.user succeeds and stores the string "undefined" as the user; the next page load then fails in JSON.parse and the provider stays loading.\<close>

theorem signIn_missing_user:
  assumes "F (length (a_requests s)) (api_login env (JObj [(js ''email'', JStr e), (js ''password'', JStr p)])) =
             Inr \<lparr>rs_ok = True, rs_json = Inr (JObj [(js ''data'', JObj [(js ''token'', JStr t)])])\<rparr>"
    and "t \<noteq> []"
  shows "fst (signIn env F e p s) = Inr () \<and> a_user (snd (signIn env F e p s)) = Undef \<and>
         ls_user (snd (signIn env F e p s)) = Some (SRaw (js ''undefined'')) \<and>
         fst (auth_load (snd (signIn env F e p s))) = Inl (Error (js ''SyntaxError'')) \<and>
         a_loading (snd (auth_load (snd (signIn env F e p s))))"
  using assms
  by (simp add: signIn_def do_fetch_def succeed_toast_def auth_load_def auth_init_def Let_def js_def)


lemma auth_session_consistent_witness:
  "auth_reach (auth_step (auth_step auth_fresh Load) (SignIn None login_oracle (js ''a@acme.com'') (js ''pw''))) \<and>
   ls_token (auth_step (auth_step auth_fresh Load) (SignIn None login_oracle (js ''a@acme.com'') (js ''pw''))) \<noteq> None \<and>
   truthy (a_user (auth_step (auth_step auth_fresh Load) (SignIn None login_oracle (js ''a@acme.com'') (js ''pw''))))"
proof -
  have r: "auth_reach (auth_step (auth_step auth_fresh Load) (SignIn None login_oracle (js ''a@acme.com'') (js ''pw'')))"
    by (intro auth_reach.step auth_reach.fresh)
  have "truthy (a_user (auth_step (auth_step auth_fresh Load) (SignIn None login_oracle (js ''a@acme.com'') (js ''pw''))))"
    by (simp add: auth_fresh_def auth_load_def auth_init_def signIn_def do_fetch_def login_oracle_def
        succeed_toast_def user_acme_def Let_def js_def)
  then show ?thesis using auth_session_consistent [OF r] r by blast
qed

lemma updateProfile_stale_user_witness:
  "a_user (auth_fresh\<lparr>a_user := Val user_acme, a_profile := Val user_acme, ls_token := Some (SRaw (js ''tok'')),
                       ls_user := Some (SJson user_acme)\<rparr>) \<noteq>
   a_profile (snd (updateProfile (Some (js ''https://api.example.com'')) ok_oracle
     (JObj [(js ''company_name'', JStr (js ''Acme Corp''))])
     (auth_fresh\<lparr>a_user := Val user_acme, a_profile := Val user_acme, ls_token := Some (SRaw (js ''tok'')),
                 ls_user := Some (SJson user_acme)\<rparr>))) \<and>
   fst (updateProfile (Some (js ''https://api.example.com'')) ok_oracle
     (JObj [(js ''company_name'', JStr (js ''Acme Corp''))])
     (auth_fresh\<lparr>a_user := Val user_acme, a_profile := Val user_acme, ls_token := Some (SRaw (js ''tok'')),
                 ls_user := Some (SJson user_acme)\<rparr>)) = Inr ()"
proof -
  let ?s = "auth_fresh\<lparr>a_user := Val user_acme, a_profile := Val user_acme, ls_token := Some (SRaw (js ''tok'')),
                       ls_user := Some (SJson user_acme)\<rparr>"
  let ?kvs = "[(js ''id'', JStr (js ''u1'')), (js ''email'', JStr (js ''a@acme.com'')),
               (js ''company_name'', JStr (js ''Acme''))]"
  let ?upd = "JObj [(js ''company_name'', JStr (js ''Acme Corp''))]"
  have h: "a_user ?s = Val (JObj ?kvs)" "a_profile ?s = Val (JObj ?kvs)" "ls_token ?s = Some (SRaw (js ''tok''))"
    "js ''tok'' \<noteq> []"
    by (simp_all add: user_acme_def js_def)
  have n: "ok_oracle (length (a_requests ?s))
      \<lparr>rq_method = js ''PUT'', rq_url = profile_url (Some (js ''https://api.example.com'')),
       rq_headers = json_headers @ [bearer (js ''tok'')], rq_body = JsonBody ?upd\<rparr> =
      Inr \<lparr>rs_ok = True, rs_json = Inr (JObj [])\<rparr>" "rs_ok \<lparr>rs_ok = True, rs_json = Inr (JObj [])\<rparr>"
    by (simp_all add: ok_oracle_def)
  show ?thesis
    using updateProfile_stale_user [where s = ?s and kvs = ?kvs and t = "js ''tok''" and F = ok_oracle
        and env = "Some (js ''https://api.example.com'')" and upd = ?upd
        and resp = "\<lparr>rs_ok = True, rs_json = Inr (JObj [])\<rparr>", OF h n] h(1)
    by (simp add: obj_merge_def user_acme_def js_def)
qed

lemma signIn_missing_user_witness:
  "nouser_oracle (length (a_requests auth_fresh))
     (api_login None (JObj [(js ''email'', JStr (js ''a@acme.com'')), (js ''password'', JStr (js ''pw''))])) =
     Inr \<lparr>rs_ok = True, rs_json = Inr (JObj [(js ''data'', JObj [(js ''token'', JStr (js ''tok''))])])\<rparr> \<and>
   fst (auth_load (snd (signIn None nouser_oracle (js ''a@acme.com'') (js ''pw'') auth_fresh))) =
     Inl (Error (js ''SyntaxError''))"
proof -
  have n: "nouser_oracle (length (a_requests auth_fresh))
     (api_login None (JObj [(js ''email'', JStr (js ''a@acme.com'')), (js ''password'', JStr (js ''pw''))])) =
     Inr \<lparr>rs_ok = True, rs_json = Inr (JObj [(js ''data'', JObj [(js ''token'', JStr (js ''tok''))])])\<rparr>"
    by (simp add: nouser_oracle_def)
  have t: "js ''tok'' \<noteq> []" by (simp add: js_def)
  show ?thesis
    using signIn_missing_user [where F = nouser_oracle and s = auth_fresh and env = None
        and e = "js ''a@acme.com''" and p = "js ''pw''" and t = "js ''tok''", OF n t] n by blast
qed

end
