(* ===== verification/DocumentsPage.thy ===== *)
theory DocumentsPage
  imports DocumentService
begin

text \<open>
  The documents page of the frontend, \<open>DocumentsPage\<close>
  (src/project/src/pages/DocumentsPage.tsx). It lists a fixed array of mock documents,
  filtered by a search term (case-insensitive substring of the name) and by the status
  selected in a drop-down, colours each status, and counts documents, processed documents
  and pages. The status strings the page knows are compared with the ones the backend's
  \<open>DocumentService\<close> writes to the registry (\<open>status_text\<close>).
\<close>

record page_doc =
  pd_id :: nat
  pd_name :: jstr
  pd_type :: jstr
  pd_size :: jstr
  pd_uploadDate :: jstr
  pd_status :: jstr
  pd_pages :: nat
  pd_language :: jstr

definition mock_documents :: "page_doc list" where
  "mock_documents =
    [\<lparr>pd_id = 1, pd_name = js ''Customer Support FAQ.pdf'', pd_type = js ''PDF'', pd_size = js ''2.4 MB'',
      pd_uploadDate = js ''2024-01-15'', pd_status = js ''processed'', pd_pages = 15, pd_language = js ''English''\<rparr>,
     \<lparr>pd_id = 2, pd_name = js ''Product Manual.docx'', pd_type = js ''DOCX'', pd_size = js ''1.8 MB'',
      pd_uploadDate = js ''2024-01-14'', pd_status = js ''processing'', pd_pages = 23, pd_language = js ''English''\<rparr>,
     \<lparr>pd_id = 3, pd_name = js ''Company Policies.txt'', pd_type = js ''TXT'', pd_size = js ''156 KB'',
      pd_uploadDate = js ''2024-01-13'', pd_status = js ''processed'', pd_pages = 8, pd_language = js ''English''\<rparr>,
     \<lparr>pd_id = 4, pd_name = js ''Terms of Service.pdf'', pd_type = js ''PDF'', pd_size = js ''896 KB'',
      pd_uploadDate = js ''2024-01-12'', pd_status = js ''processed'', pd_pages = 12, pd_language = js ''English''\<rparr>]"





text \<open>The three stats cards: documents, processed documents, pages.\<close>

definition page_stats :: "page_doc list \<Rightarrow> nat \<times> nat \<times> nat" where
  "page_stats docs =
     (length docs, length (filter (\<lambda>d. pd_status d = js ''processed'') docs), foldl (\<lambda>s d. s + pd_pages d) 0 docs)"


subsection \<open>The page and the backend's statuses\<close>





lemma page_stats_mock: "page_stats mock_documents = (4, 3, 58)"
  by (simp add: page_stats_def mock_documents_def js_def)

end
