(* ===== verification/Spec2Isabelle.thy ===== *)
theory Spec2Isabelle
  imports Consistency FileUpload ChatbotPage AuthSession DocumentsPage
begin

text \<open>
  \<^bold>\<open>A verification development of the RAG backend\<close> (src/backend/src/services).

  \<^bold>\<open>The program.\<close> Three services make up the backend. \<open>DocumentService\<close>
  (documentService.js) ingests uploaded files: it validates them, extracts their text,
  registers a row in the Supabase table \<open>documents\<close>, uploads the file to the Supabase
  bucket, has the text chunked and embedded, and marks the row processed; it also lists,
  deletes, reprocesses and counts documents. \<open>RAGService\<close> (ragService.js) chunks text,
  stores chunks with their embeddings in the Astra DB collection, searches it by vector
  similarity scoped to a company, and answers questions from the retrieved context.
  \<open>AIService\<close> (aiService.js) talks to OpenAI and Gemini: embeddings, chat completions
  dispatched by model name with a system prompt, streaming, translation and language
  detection.

  \<^bold>\<open>Theories.\<close>
  \<^item> \<open>Prelude\<close>: JavaScript strings as lists of UTF-16 code units (\<open>16 word\<close>), the
    string primitives the code calls (\<open>slice\<close>, \<open>lastIndexOf\<close>, \<open>trim\<close>,
    \<open>startsWith\<close>, \<open>toLowerCase\<close>, \<open>join\<close>, number printing) with ECMAScript's index
    clamping, and their shared lemmas (\<open>js_simps\<close>).
  \<^item> \<open>Chunker\<close>: \<open>RAGService.chunkText\<close>. Its \<open>while\<close> loop is a
    \<open>partial_function (option)\<close>, so a run that never ends is \<open>None\<close>; termination is
    proved for the constructor's defaults (1000, 200) and whenever the overlap is small
    enough to advance the window, divergence for an overlap above the chunk size, and the
    shape and number of chunks.
  \<^item> \<open>Externals\<close>: the stores and providers the services call, which are not in the
    repository, modelled from the specification: the world record (vector collection,
    registry rows, bucket, log of external calls), the oracle record \<open>ext\<close> (provider
    answers and failures indexed by call number), and the effect type
    \<open>'a eff = world \<Rightarrow> (error + 'a) \<times> world\<close> with \<open>bindE\<close> for \<open>await\<close>,
    \<open>catchE\<close> for \<open>try/catch\<close>, \<open>rethrow\<close> for the services' catch-and-replace idiom
    and \<open>attempt\<close> for a Supabase result whose error is ignored. Frame predicates
    (\<open>read_only\<close>, \<open>log_grows\<close>) are closed under the combinators (\<open>frame_intros\<close>).
  \<^item> \<open>AIService\<close>, \<open>RAGService\<close>, \<open>DocumentService\<close>: one definition per method
    and per loop, composed as the code composes them; the effect of every call is in the
    world, every \<open>throw\<close> an \<open>Inl\<close>.
  \<^item> \<open>EffectLogic\<close>: a Hoare logic \<open>valid P m Q E\<close> for the effect type, with one
    rule per combinator and per kind of call (\<open>valid_intros\<close>).
  \<^item> \<open>Consistency\<close>: the service calls as the rules of an inductive step relation
    on worlds (\<open>service_step\<close>, any arguments and any oracle per call), the worlds
    \<open>reachable\<close> from the empty stores, and the invariant \<open>registry_inv\<close>, proved for
    each mutating operation with the rules of \<open>EffectLogic\<close> and lifted to every
    reachable world by rule induction.
  \<^item> \<open>FileUpload\<close>: the frontend's upload dialog (src/project/src/components/FileUpload.tsx)
    as a state machine: the list of uploaded files, the running intervals (each with the
    file name its callback looks up), and the events drop (\<open>onDrop\<close>), fire (one
    interval callback) and remove (\<open>removeFile\<close>); \<open>ui_reach\<close> is every state any
    sequence of events reaches, \<open>ui_round\<close> one round in which every running interval
    fires once.
  \<^item> \<open>ChatbotSchema\<close>: the Joi request schemas (src/backend/src/schemas/chatbotSchemas.js)
    as data of a small schema language, with Joi's validation modelled from its documented
    behaviour (\<open>joi_validate\<close>), proved equal to a per-key specification.
  \<^item> \<open>ChatbotPage\<close>: the frontend's configuration page
    (src/project/src/pages/ChatbotPage.tsx): its state hooks, the controls as events
    restricted to the values they offer (\<open>page_offers\<close>), the states they reach
    (\<open>page_reach\<close>), and the deployment URL.
  \<^item> \<open>AuthSession\<close>: the frontend's API client (src/project/src/lib/api.ts, one request
    builder per endpoint) and session provider (src/project/src/contexts/AuthContext.tsx:
    mount effect, \<open>signUp\<close>, \<open>signIn\<close>, \<open>signOut\<close>, \<open>updateProfile\<close>) over an
    explicit browser state (React state, the token and user items of localStorage, toasts,
    requests sent) with the network as an oracle; \<open>auth_reach\<close> is every state a
    session reaches from a first visit.
  \<^item> \<open>DocumentsPage\<close>: the documents page's search and status filter, status colours and
    stats (src/project/src/pages/DocumentsPage.tsx), against the status values
    \<open>DocumentService\<close> writes.

  \<^bold>\<open>What is proved.\<close>
  \<^item> Chunking: termination with the defaults; every chunk non-empty, trimmed, a piece of
    the text and at most one unit longer than the window; exact chunk counts.
  \<^item> Retrieval: the search refines an abstract specification (rank by similarity, keep
    those strictly above 0.7, at most \<open>limit\<close>), and is sound for tenant isolation;
    storing chunks inserts exactly the chunk records in order, and fails atomically for
    the stores when an embedding fails; deletion and replacement are scoped to one company
    and document; answering changes no store.
  \<^item> Ingestion: validation happens before any call; a successful ingestion leaves the
    row processed, the file in the bucket and exactly the text's chunks in the collection;
    deletion runs chunks, blob, row in that order and is idempotent; reprocessing replaces
    the chunk set; statistics count each row once.
  \<^item> The consistency invariant: registry ids are unique and every chunk record belongs to
    a registered document of the same company, in every reachable world.
  \<^item> Upload dialog: in every reachable state progress is a multiple of 10 in [0, 100] and a
    file is a success exactly at 100 (invariant, by rule induction); with distinct names the
    uploads finish after exactly ten rounds and the button is enabled (liveness).
  \<^item> Request schemas: the create schema accepts exactly the bodies meeting its per-key
    contract; every accepted chatbot has a model the AI service dispatches to a provider and
    languages that each have their own prompt directive; every created body passes the
    update schema unchanged; out-of-range names get the schema's own messages.
  \<^item> Configuration page: in every reachable state the model and languages are ones the AI
    service serves (the page's tables, the schema's lists and the service's tables agree).
  \<^item> Session: in every reachable state the two storage items are set and removed together
    and a signed-in user implies a stored token (invariant, by rule induction over the
    operations with any server answers); validated chatbot bodies are well typed.
  \<^item> Findings the theorems record: a text up to the chunk size can give two chunks, a
    2500-unit text gives four; a chunk can be one unit longer than the chunk size; an
    overlap above the chunk size loops forever; the similarity threshold is strict;
    unsupported models are detected late and reported with a generic error; language codes
    such as \<open>constructor\<close> reach \<open>Object.prototype\<close>; unknown \<open>gpt\<close> models are sent
    with an undefined model; a mid-pipeline failure leaves a row at processing; the
    reprocess catch block marks another company's row failed; a failed re-extraction moves
    a document from processed to failed without passing through processing; the upload
    dialog finds files by name, so a second file with the same name stays uploading
    forever, and removing a file leaks its interval; the dialog never calls the upload
    API; the configuration page can deselect every language and is never saved, and
    company names equal up to case and spaces share one chatbot URL; a profile update leaves
    the session's user stale; a login answer without a user stores "undefined" and breaks
    the next page load; the profile update ignores the API URL fallback; the documents page
    hides and greys out the backend's failed documents.

  \<^bold>\<open>Bounds and fuel.\<close> No fuel is used: the chunking loop is a partial function
  whose termination is a theorem, the batch loop a \<open>function\<close> with a measure, and the
  other loops structural recursion. The upload dialog's timers are events, so a run is any
  finite sequence of them; its liveness theorem fixes the fair schedule of rounds, and ten
  rounds are enough because each adds 10 to a progress that starts at 0. Timestamps are the number of external calls made so
  far, which is all the code's ordering arguments need.

  \<^bold>\<open>Not modelled.\<close> DashboardPage renders static mock statistics and has no state
  that changes; the rendering of every page is not modelled. The session model keeps JSON
  text abstract (\<open>JSON.parse\<close> reads back what \<open>JSON.stringify\<close> wrote) and treats the
  server and the network as an oracle, since the routes are not in the repository. In
  \<open>FileUpload\<close>,
  \<open>formatFileSize\<close> (floating-point logarithm) and the rendering are not modelled; in
  the schemas, Joi's URI grammar is a parameter and its message templates are not
  modelled; in ChatbotPage, the logo's FileReader data URL is an arbitrary string and the
  rendering is not modelled. Logging changes no state and is omitted. The providers' answers, the PDF and DOCX
  extractors, generated ids and URLs are oracles. The route handlers are not under src/;
  the step relation stands for them. Concurrent interleaving of requests is not modelled:
  each step is one whole service call.
\<close>

end
